theory Spec2Isabelle
  imports Main "HOL-Library.Sublist"
begin

section \<open>JavaScript values and strings\<close>

text \<open>
  A JavaScript string is modelled as a \<^typ>\<open>string\<close>: a list of characters whose codes
  are below 256. A value that may be \<^verbatim>\<open>undefined\<close> or \<^verbatim>\<open>null\<close> is a
  \<^typ>\<open>string option\<close>.
\<close>

text \<open>The characters below 256 that the regular expression class \<^verbatim>\<open>\s\<close> matches:
  tab, line feed, vertical tab, form feed, carriage return, space and no-break space.\<close>

definition isWhitespace :: "char \<Rightarrow> bool" where
  "isWhitespace c = ((of_char c :: nat) \<in> {9, 10, 11, 12, 13, 32, 160})"

text \<open>Truthiness of a string that may be absent: \<^verbatim>\<open>undefined\<close>, \<^verbatim>\<open>null\<close> and the
  empty string are falsy.\<close>

fun truthy :: "string option \<Rightarrow> bool" where
  "truthy None = False"
| "truthy (Some s) = (s \<noteq> [])"

text \<open>\<^verbatim>\<open>a || b\<close> where \<open>b\<close> is a string.\<close>

fun orElse :: "string option \<Rightarrow> string \<Rightarrow> string" where
  "orElse None d = d"
| "orElse (Some s) d = (if s = [] then d else s)"

text \<open>A value inside a template literal: \<^verbatim>\<open>`${x}`\<close>.\<close>

fun interpolate :: "string option \<Rightarrow> string" where
  "interpolate None = ''undefined''"
| "interpolate (Some s) = s"

text \<open>\<^verbatim>\<open>key.includes(pattern)\<close>: the pattern occurs in the key as a contiguous run
  of characters, compared character by character.\<close>

fun str_includes :: "string \<Rightarrow> string \<Rightarrow> bool" where
  "str_includes [] pat = (pat = [])"
| "str_includes (c # cs) pat = (prefix pat (c # cs) \<or> str_includes cs pat)"

text \<open>\<^verbatim>\<open>str.replace(/\s+/g, "_")\<close>: every maximal run of whitespace becomes one underscore.\<close>

function convertSpaceToUnderscore :: "string \<Rightarrow> string" where
  "convertSpaceToUnderscore [] = []"
| "convertSpaceToUnderscore (c # cs) =
     (if isWhitespace c then CHR ''_'' # convertSpaceToUnderscore (dropWhile isWhitespace cs)
      else c # convertSpaceToUnderscore cs)"
  by pat_completeness auto
termination
  by (relation "measure length") (simp_all add: length_dropWhile_le le_imp_less_Suc)

text \<open>\<^verbatim>\<open>genreName.replace(/\s+/g, '')\<close>: whitespace is removed.\<close>

definition normalizeGenreForKey :: "string \<Rightarrow> string" where
  "normalizeGenreForKey genreName = filter (\<lambda>c. \<not> isWhitespace c) genreName"

section \<open>Effects\<close>

text \<open>
  The workers act on a database, an object store, vendor HTTP endpoints and a queue. A run
  of a function is modelled by the list of the calls it makes, in order, and its result.
  The answers of the outside world are inputs of the model.
\<close>

type_synonym fields = "(string \<times> string option) list"

datatype http_body =
    JsonBody fields
  | RenderBody string fields
  | FormBody string

datatype event =
    LogError string
  | LogWarn string
  | DbUpdate string fields string string
  | DbInsert string fields
  | DbSelect string string string string
  | HttpGet string
  | HttpPost string http_body
  | S3List string "string option"
  | S3Sign string string nat
  | S3Put string string string
  | QueueAdd string fields
  | Sleep nat
  | FsRead string
  | JobUpdateData fields

section \<open>Asset resolver: findFileInS3\<close>

text \<open>
  The answer of the object store to \<^verbatim>\<open>ListObjectsV2\<close>: the call rejects, or it returns a
  page with optional \<^verbatim>\<open>Contents\<close> (objects with an optional \<^verbatim>\<open>Key\<close>) and an optional
  \<^verbatim>\<open>NextContinuationToken\<close>, paired with the answer to the call that presents this token.
\<close>

datatype s3_listing =
    ListFails
  | ListPage "string option list option" "(string \<times> s3_listing) option"

record s3_client =
  listObjects :: "string \<Rightarrow> s3_listing"
  getSignedUrl :: "string \<Rightarrow> string \<Rightarrow> nat \<Rightarrow> string option"

text \<open>The \<^verbatim>\<open>for\<close> loop over one page: the first object whose key is truthy and includes
  the pattern.\<close>

fun firstMatch :: "string \<Rightarrow> string option list \<Rightarrow> string option" where
  "firstMatch pat [] = None"
| "firstMatch pat (k # ks) =
     (case k of
        None \<Rightarrow> firstMatch pat ks
      | Some key \<Rightarrow> if key \<noteq> [] \<and> str_includes key pat then Some key else firstMatch pat ks)"

text \<open>The \<^verbatim>\<open>do ... while (continuationToken)\<close> loop inside \<^verbatim>\<open>try\<close>. The result
  \<open>Inl ()\<close> is an exception that reaches the \<^verbatim>\<open>catch\<close>.\<close>

fun listLoop :: "s3_client \<Rightarrow> string \<Rightarrow> string \<Rightarrow> nat \<Rightarrow> string option \<Rightarrow> s3_listing
    \<Rightarrow> event list \<times> (unit + string option)" where
  "listLoop s3 bucket pat expiresIn token ListFails = ([S3List bucket token], Inl ())"
| "listLoop s3 bucket pat expiresIn token (ListPage contents next) =
     (case firstMatch pat (case contents of None \<Rightarrow> [] | Some objs \<Rightarrow> objs) of
        Some key \<Rightarrow>
          ([S3List bucket token, S3Sign bucket key expiresIn],
           case getSignedUrl s3 bucket key expiresIn of
             None \<Rightarrow> Inl ()
           | Some url \<Rightarrow> Inr (Some url))
      | None \<Rightarrow>
          (case next of
             None \<Rightarrow> ([S3List bucket token], Inr None)
           | Some (tok, rest) \<Rightarrow>
               if tok = [] then ([S3List bucket token], Inr None)
               else (let (es, r) = listLoop s3 bucket pat expiresIn (Some tok) rest
                     in (S3List bucket token # es, r))))"

text \<open>\<^verbatim>\<open>findFileInS3\<close> of \<^verbatim>\<open>birthdaySlideshowWorker.ts\<close>; \<open>s3\<close> is the module's
  client, \<^verbatim>\<open>null\<close> when the credentials are missing.\<close>

definition searchPattern :: "string \<Rightarrow> string \<Rightarrow> string \<Rightarrow> string" where
  "searchPattern name genre searchPatternSuffix =
     convertSpaceToUnderscore name @ ''('' @ normalizeGenreForKey genre @ '')'' @ searchPatternSuffix"

definition findFileInS3 :: "s3_client option \<Rightarrow> string \<Rightarrow> string \<Rightarrow> string \<Rightarrow> string \<Rightarrow> string
    \<Rightarrow> event list \<times> string option" where
  "findFileInS3 s3 bucket name genre searchPatternSuffix jobIdForLog =
     (case s3 of
        None \<Rightarrow>
          ([LogError (''[Worker Job '' @ jobIdForLog @ ''] S3 client not initialized in worker findFileInS3.'')],
           None)
      | Some client \<Rightarrow>
          if bucket = [] then
            ([LogError (''[Worker Job '' @ jobIdForLog @ ''] S3 bucket name not provided to findFileInS3'')],
             None)
          else
            (let pattern = searchPattern name genre searchPatternSuffix;
                 (es, r) = listLoop client bucket pattern 3600 None (listObjects client bucket)
             in case r of
                  Inr (Some url) \<Rightarrow> (es, Some url)
                | Inr None \<Rightarrow>
                    (es @ [LogWarn (''[Worker Job '' @ jobIdForLog @ ''] No S3 object found matching pattern: ''
                                     @ pattern @ '' in bucket '' @ bucket)], None)
                | Inl _ \<Rightarrow>
                    (es @ [LogError (''[Worker Job '' @ jobIdForLog
                                      @ ''] Error searching S3 in findFileInS3 for pattern '' @ pattern @ '':'')],
                     None)))"


section \<open>Exceptions, results and HTTP responses\<close>

text \<open>A thrown value: the \<^verbatim>\<open>name\<close> and the \<^verbatim>\<open>message\<close> of the error object.\<close>

datatype exn = Exn (exn_name: string) (exn_message: string)

definition Error :: "string \<Rightarrow> exn" where
  "Error m = Exn ''Error'' m"

text \<open>A run: the calls made, then either the thrown value (\<open>Inl\<close>) or the value returned.\<close>

type_synonym 'a io = "event list \<times> (exn + 'a)"

definition ret :: "'a \<Rightarrow> 'a io" where
  "ret x = ([], Inr x)"

definition throw :: "exn \<Rightarrow> 'a io" where
  "throw e = ([], Inl e)"

definition emit :: "event \<Rightarrow> unit io" where
  "emit ev = ([ev], Inr ())"

fun prepend :: "event list \<Rightarrow> 'a io \<Rightarrow> 'a io" where
  "prepend es (es', r) = (es @ es', r)"

text \<open>Sequencing: the second part runs only when the first returned.\<close>

fun io_bind :: "'a io \<Rightarrow> ('a \<Rightarrow> 'b io) \<Rightarrow> 'b io" where
  "io_bind (es, Inl e) f = (es, Inl e)"
| "io_bind (es, Inr x) f = prepend es (f x)"

definition io_then :: "unit io \<Rightarrow> 'b io \<Rightarrow> 'b io" where
  "io_then m n = io_bind m (\<lambda>_. n)"

text \<open>\<^verbatim>\<open>try { m } catch (error) { h(error) }\<close>.\<close>

fun tryCatch :: "'a io \<Rightarrow> (exn \<Rightarrow> 'a io) \<Rightarrow> 'a io" where
  "tryCatch (es, Inl e) h = prepend es (h e)"
| "tryCatch (es, Inr x) h = (es, Inr x)"

text \<open>
  The answer to a \<^verbatim>\<open>fetch\<close>: the promise rejects (a network error, an abort), or a
  response arrives with a status code, a status text and a body, given here both as
  \<^verbatim>\<open>text()\<close> (or \<^verbatim>\<open>arrayBuffer()\<close>) reads it and as \<^verbatim>\<open>json()\<close> parses it; each
  reading can reject.
\<close>

datatype 'a body = Unreadable exn | Body 'a

datatype 'a response =
    Rejects exn
  | Response nat string "string body" "'a body"

text \<open>\<^verbatim>\<open>response.ok\<close>: the status is in the range 200 to 299.\<close>

definition ok :: "nat \<Rightarrow> bool" where
  "ok st = (200 \<le> st \<and> st < 300)"

text \<open>A number inside a template literal, in decimal.\<close>

function showNat :: "nat \<Rightarrow> string" where
  "showNat n =
     (if n < 10 then [''0123456789'' ! n]
      else showNat (n div 10) @ [''0123456789'' ! (n mod 10)])"
  by pat_completeness auto
termination
  by (relation "measure id") simp_all

declare showNat.simps [simp del]

text \<open>\<^verbatim>\<open>path.basename\<close> on POSIX: trailing slashes are dropped, then the part after the
  last slash is taken.\<close>

definition basename :: "string \<Rightarrow> string" where
  "basename p =
     (let q = dropWhile (\<lambda>c. c = CHR ''/'') (rev p)
      in rev (takeWhile (\<lambda>c. c \<noteq> CHR ''/'') q))"

text \<open>Reading an array element: \<^verbatim>\<open>undefined\<close> beyond the end.\<close>

definition element :: "'a list \<Rightarrow> nat \<Rightarrow> 'a option" where
  "element xs i = (if i < length xs then Some (xs ! i) else None)"

section \<open>The environment\<close>

record process_env =
  SEGMIND_API_KEY :: "string option"
  SEGMIND_API_TIMEOUT_MS :: "string option"
  SEGMIND_API_ENDPOINT_URL :: "string option"
  NEXT_PUBLIC_SITE_URL :: "string option"
  NEXT_PUBLIC_SUPABASE_URL :: "string option"
  SUPABASE_SERVICE_ROLE_KEY :: "string option"
  AWS_KEY :: "string option"
  AWS_SECRET :: "string option"
  AWS_REGION :: "string option"
  AWS_BUCKET_USER :: "string option"
  AWS_BUCKET_HEDRA_AUDIO :: "string option"
  AWS_BUCKET_AUDIO :: "string option"
  HEDRA_API_KEY :: "string option"
  SHOTSTACK_API_KEY :: "string option"
  SHOTSTACK_OWNER_ID :: "string option"

text \<open>
  What every worker sees of the outside: the process environment, the object store, and
  whether \<^verbatim>\<open>notificationProcessingQueue.add\<close> rejects (\<open>Some e\<close>) or resolves (\<open>None\<close>).
\<close>

record world =
  env :: process_env
  objectStore :: s3_client
  notificationAdd :: "exn option"

text \<open>The result of a database insert followed by \<^verbatim>\<open>.select('id').single()\<close>: the
  \<^verbatim>\<open>data\<close> (a row with an optional id, or null) and the \<^verbatim>\<open>error\<close> (null, or an error
  with its message). The database client resolves with the error; it does not throw.\<close>

record insert_result =
  ins_data :: "string option option"
  ins_error :: "string option"

text \<open>The call of \<^verbatim>\<open>notificationProcessingQueue.add(name, payload)\<close>.\<close>

definition queueAdd :: "'a world_scheme \<Rightarrow> string \<Rightarrow> fields \<Rightarrow> unit io" where
  "queueAdd w name payload =
     (case notificationAdd w of
        None \<Rightarrow> ([QueueAdd name payload], Inr ())
      | Some e \<Rightarrow> ([QueueAdd name payload], Inl e))"

section \<open>The birthday slideshow worker\<close>

text \<open>The fields that the payloads of the two card jobs have in common.\<close>

record CardJobData =
  jobId :: string
  userId :: string
  displayName :: string
  message :: "string option"
  themeRenderUrl :: string
  myCardId :: string
  initialThumbnailUrl :: "string option"
  bespokeBackgroundUrl :: "string option"

record BirthdaySlideshowJobData = CardJobData +
  recipientName :: string
  selectedSongGenre :: string
  senderName :: string
  imageUrls :: "string list"
  imageStoragePaths :: "string list"
  imageBucket :: string
  shotstackApiKey :: "string option"
  shotstackOwnerId :: "string option"
  webhookUrl :: string

text \<open>The vendor's answer to a render submission and to a status poll.\<close>

record ShotstackRenderInfo =
  submit_id :: "string option"
  submit_info :: "string option"

record ShotstackRenderResponse =
  submit_success :: bool
  submit_message :: "string option"
  submit_response :: "ShotstackRenderInfo option"

record ShotstackStatus =
  poll_status :: string
  poll_url :: "string option"
  poll_error :: "string option"

record ShotstackStatusResponse =
  poll_success :: bool
  poll_message :: "string option"
  poll_response :: "ShotstackStatus option"

text \<open>
  The render vendor as a worker sees it: the answer to the submission, the answer to the
  \<open>k\<close>-th status poll, and the time in milliseconds that the \<open>k\<close>-th round of the polling
  loop takes beyond its 20 second timer.
\<close>

record shotstack_world = world +
  renderSubmit :: "http_body \<Rightarrow> ShotstackRenderResponse response"
  renderPoll :: "nat \<Rightarrow> ShotstackStatusResponse response"
  renderPollLatency :: "nat \<Rightarrow> nat"

text \<open>
  For the slideshow worker in addition: the \<^verbatim>\<open>shotstack_status\<close> that the select in the
  \<open>k\<close>-th round reads, the result of the insert into \<^verbatim>\<open>public_shared_cards\<close>, and the
  error of the update that stores the short link.
\<close>

record slideshow_world = shotstack_world +
  selectShotstackStatus :: "nat \<Rightarrow> string option"
  publicInsert :: insert_result
  linkUpdateError :: "string option"

definition shotstackSlideshowTemplateMapping :: "(string \<times> string) list" where
  "shotstackSlideshowTemplateMapping =
     [(''Metal'', ''d4343b1b-c0f6-4e18-afe6-e37f1f9e3fb8''),
      (''Punk'', ''2dde82ce-4dff-4755-8a34-f1e50386e30d''),
      (''LatinJazz'', ''de540b0d-53f9-4437-9212-e3e7c764cb4c''),
      (''OutlawCountry'', ''b5f3bca2-9589-490c-bb06-08199d7959fa''),
      (''Folk'', ''e08fb960-94d8-4871-ac5b-47077e1e9adf''),
      (''AltPop'', ''0237998f-9587-45d1-a313-76faad477831''),
      (''Gospel'', ''fadc6d68-3b33-481c-9313-1f05f7878824''),
      (''JiveBlues'', ''2361108b-3ec9-482c-8382-db3d4c12b4d5''),
      (''Jazz'', ''b6151c01-fb17-40f3-ad23-40d675f15e45''),
      (''Reggae'', ''cbfa9889-9411-4764-88f9-8decffdf09d4''),
      (''Pop'', ''310e6e56-451e-4fc4-8392-780a0ab19d1d''),
      (''TradJazz'', ''04a2cd60-2319-4d21-9630-2e3093926573''),
      (''FolkPop'', ''98b24939-9e5a-402c-8048-c2f536f43b4b''),
      (''Classical'', ''5bf760f0-2f58-4104-8e2d-790c3265bc41''),
      (''Country'', ''7196d8dc-b582-404b-b032-7edc8c9702f0''),
      (''HipHop'', ''0935cae7-e97d-41d3-b9af-ff583da909cf'')]"

text \<open>The module's \<^verbatim>\<open>s3\<close>: a client when key and secret are set, else \<^verbatim>\<open>null\<close>.\<close>

definition slideshow_s3 :: "'a world_scheme \<Rightarrow> s3_client option" where
  "slideshow_s3 w =
     (if truthy (AWS_KEY (env w)) \<and> truthy (AWS_SECRET (env w)) then Some (objectStore w) else None)"

text \<open>The text merge fields of \<^verbatim>\<open>submitToShotstack\<close>.\<close>

definition textMergeFields :: "'a BirthdaySlideshowJobData_scheme \<Rightarrow> string \<Rightarrow> fields" where
  "textMergeFields jobData musicS3Url =
     (if truthy (bespokeBackgroundUrl jobData) then
        [(''name'', Some []),
         (''greetingbg'', bespokeBackgroundUrl jobData),
         (''happy'', Some []),
         (''alth'', Some []),
         (''altn'', Some []),
         (''message'', Some []),
         (''sender'', Some []),
         (''music'', Some musicS3Url)]
      else
        [(''name'', Some []),
         (''greetingbg'', Some (themeRenderUrl jobData)),
         (''happy'', Some []),
         (''alth'', Some ''Happy Birthday''),
         (''altn'', Some (displayName jobData)),
         (''message'', Some (orElse (message jobData) [])),
         (''sender'', Some (senderName jobData)),
         (''music'', Some musicS3Url)])"

text \<open>\<^verbatim>\<open>getImageWithFallback\<close>, a closure over \<^verbatim>\<open>images\<close> and \<^verbatim>\<open>numImages\<close>.\<close>

definition getImageWithFallback :: "string list \<Rightarrow> nat \<Rightarrow> nat \<Rightarrow> string option" where
  "getImageWithFallback images primaryImageArrayIndex fallbackImageArrayIndex =
     (if primaryImageArrayIndex < length images \<and> truthy (element images primaryImageArrayIndex)
      then element images primaryImageArrayIndex
      else if fallbackImageArrayIndex < length images \<and> truthy (element images fallbackImageArrayIndex)
      then element images fallbackImageArrayIndex
      else element images 0)"

text \<open>The image merge fields pushed after the text fields.\<close>

definition imageMergeFields :: "'a BirthdaySlideshowJobData_scheme \<Rightarrow> fields" where
  "imageMergeFields jobData =
     (let images = imageUrls jobData in
      if length images = 0 then
        map (\<lambda>i. (''image'' @ showNat i, Some (themeRenderUrl jobData))) [1 ..< 8]
      else
        [(''image1'', element images 0),
         (''image2'', element images 1),
         (''image3'', element images 2),
         (''image4'', element images 3),
         (''image5'', getImageWithFallback images 4 1),
         (''image6'', getImageWithFallback images 5 2),
         (''image7'', getImageWithFallback images 6 0)])"

definition renderApiUrl :: string where
  "renderApiUrl = ''https://api.shotstack.io/edit/v1/templates/render''"

text \<open>What \<^verbatim>\<open>submitToShotstack\<close> does with the vendor's answer.\<close>

definition readSubmitResponse :: "string \<Rightarrow> ShotstackRenderResponse response \<Rightarrow> string io" where
  "readSubmitResponse jid r =
     (case r of
        Rejects e \<Rightarrow>
          ([LogError (''[Worker Job '' @ jid @ ''] Network error or issue during fetch to Shotstack:'')],
           Inl (Error (''Network error during Shotstack API call: '' @ exn_message e)))
      | Response st stText txt js \<Rightarrow>
          if \<not> ok st then
            (case txt of
               Unreadable _ \<Rightarrow>
                 ([LogError (''[Worker Job '' @ jid @ ''] Could not get error text from Shotstack response:''),
                   LogError (''[Worker Job '' @ jid @ ''] Shotstack API error: '' @ showNat st)],
                  Inl (Error (''Shotstack API request failed: '' @ showNat st @ '' - ''
                              @ ''Unknown error during Shotstack API call.'')))
             | Body errorText \<Rightarrow>
                 ([LogError (''[Worker Job '' @ jid @ ''] Shotstack API error: '' @ showNat st)],
                  Inl (Error (''Shotstack API request failed: '' @ showNat st @ '' - '' @ errorText))))
          else
            (case js of
               Unreadable m \<Rightarrow>
                 ([LogError (''[Worker Job '' @ jid @ ''] Error parsing JSON response from Shotstack:''),
                   LogError (''[Worker Job '' @ jid @ ''] Raw response from Shotstack (on JSON parse error):'')],
                  Inl (Error (''Error parsing JSON response from Shotstack: '' @ exn_message m)))
             | Body responseData \<Rightarrow>
                 (case submit_response responseData of
                    None \<Rightarrow>
                      ([LogError (''[Worker Job '' @ jid @ ''] Shotstack submission failed or malformed response:'')],
                       Inl (Error (orElse (submit_message responseData)
                                     ''Shotstack submission did not return a success or render ID.'')))
                  | Some info \<Rightarrow>
                      if \<not> submit_success responseData \<or> \<not> truthy (submit_id info) then
                        ([LogError (''[Worker Job '' @ jid @ ''] Shotstack submission failed or malformed response:'')],
                         Inl (Error (orElse (submit_message responseData)
                                       ''Shotstack submission did not return a success or render ID.'')))
                      else ([], Inr (interpolate (submit_id info))))))"

text \<open>\<^verbatim>\<open>submitToShotstack\<close>. A genre that is not a key of the mapping gives \<^verbatim>\<open>undefined\<close>;
  all the template ids of the mapping are non-empty.\<close>

definition submitToShotstack :: "'a slideshow_world_scheme \<Rightarrow> 'b BirthdaySlideshowJobData_scheme \<Rightarrow> string io" where
  "submitToShotstack w jobData =
     (if \<not> truthy (shotstackApiKey jobData) then
        throw (Error ''Shotstack API key is missing in job data.'')
      else if slideshow_s3 w = None then
        throw (Error ''S3 client not initialized, cannot find music file for Shotstack.'')
      else
        (let normalizedGenreKey = normalizeGenreForKey (selectedSongGenre jobData) in
         case map_of shotstackSlideshowTemplateMapping normalizedGenreKey of
           None \<Rightarrow>
             throw (Error (''No Shotstack template ID found for genre: '' @ selectedSongGenre jobData
                           @ '' (Normalized: '' @ normalizedGenreKey @ '')''))
         | Some templateId \<Rightarrow>
             (let musicBucket = ''smhbaudio547'';
                  musicSuffix = ''_50sec.mp3'';
                  (es, musicS3Url) = findFileInS3 (slideshow_s3 w) musicBucket (recipientName jobData)
                                       (selectedSongGenre jobData) musicSuffix (jobId jobData)
              in if \<not> truthy musicS3Url then
                   (es, Inl (Error (''Could not find music file in S3 for '' @ recipientName jobData @ '' - ''
                                    @ selectedSongGenre jobData @ musicSuffix @ '' in bucket '' @ musicBucket)))
                 else
                   (let mergeFields = textMergeFields jobData (interpolate musicS3Url) @ imageMergeFields jobData;
                        noImages = (if length (imageUrls jobData) = 0
                                    then [LogError (''[Worker Job '' @ jobId jobData
                                           @ ''] No images found in jobData.imageUrls. This will likely cause Shotstack to fail.'')]
                                    else []);
                        body = RenderBody templateId mergeFields
                    in prepend (es @ noImages @ [HttpPost renderApiUrl body])
                         (readSubmitResponse (jobId jobData) (renderSubmit w body))))))"

definition pollingInterval :: nat where
  "pollingInterval = 20000"

definition pollingTimeout :: nat where
  "pollingTimeout = 15 * 60 * 1000"

definition statusUrl :: "string \<Rightarrow> string" where
  "statusUrl shotstackRenderId = ''https://api.shotstack.io/edit/v1/render/'' @ shotstackRenderId"

definition cdnUrl :: "string \<Rightarrow> string \<Rightarrow> string" where
  "cdnUrl ownerId rawVideoUrl = ''https://cdn.shotstack.io/au/v1/'' @ ownerId @ ''/'' @ basename rawVideoUrl"

text \<open>
  The polling loop of the slideshow worker. \<open>k\<close> counts the polls made so far and \<open>elapsed\<close>
  is \<^verbatim>\<open>Date.now() - startTime\<close> at the loop test. The loop returns \<^verbatim>\<open>finalVideoUrl\<close>
  (\<open>None\<close> when the loop ran out of time) and the elapsed time when it is left.
\<close>

function slideshowPoll :: "'a slideshow_world_scheme \<Rightarrow> string \<Rightarrow> string \<Rightarrow> string \<Rightarrow> nat \<Rightarrow> nat
    \<Rightarrow> (string option \<times> nat) io" where
  "slideshowPoll w jid ownerId rid k elapsed =
     (if elapsed < pollingTimeout then
        (let elapsed' = elapsed + pollingInterval + renderPollLatency w k;
             es = [Sleep pollingInterval, HttpGet (statusUrl rid)]
         in case renderPoll w k of
              Rejects e \<Rightarrow> (es, Inl e)
            | Response st stText txt js \<Rightarrow>
                if \<not> ok st then
                  prepend (es @ [LogWarn (''[Worker Job '' @ jid @ ''] Shotstack status poll failed with status ''
                                          @ showNat st @ '' for '' @ rid)])
                    (slideshowPoll w jid ownerId rid (Suc k) elapsed')
                else
                  (case js of
                     Unreadable e \<Rightarrow> (es, Inl e)
                   | Body statusData \<Rightarrow>
                       (case poll_response statusData of
                          None \<Rightarrow>
                            prepend (es @ [LogWarn (''[Worker Job '' @ jid
                                             @ ''] Error polling Shotstack status or unexpected response:'')])
                              (slideshowPoll w jid ownerId rid (Suc k) elapsed')
                        | Some r \<Rightarrow>
                            if \<not> poll_success statusData then
                              prepend (es @ [LogWarn (''[Worker Job '' @ jid
                                               @ ''] Error polling Shotstack status or unexpected response:'')])
                                (slideshowPoll w jid ownerId rid (Suc k) elapsed')
                            else if poll_status r = ''done'' \<and> truthy (poll_url r) then
                              (es, Inr (Some (cdnUrl ownerId (interpolate (poll_url r))), elapsed'))
                            else if poll_status r = ''failed'' then
                              (es @ [LogError (''[Worker Job '' @ jid @ ''] Shotstack render failed: ''
                                               @ interpolate (poll_error r))],
                               Inl (Error (''Shotstack render failed: ''
                                           @ orElse (poll_error r) ''Unknown Shotstack error'')))
                            else
                              prepend
                                (es @ [DbSelect ''my_cards'' ''shotstack_status'' ''job_id'' jid]
                                    @ (if Some (poll_status r) \<noteq> selectShotstackStatus w k
                                       then [DbUpdate ''my_cards'' [(''shotstack_status'', Some (poll_status r))]
                                               ''job_id'' jid]
                                       else []))
                                (slideshowPoll w jid ownerId rid (Suc k) elapsed'))))
      else ([], Inr (None, elapsed)))"
  by pat_completeness auto
termination
  by (relation "measure (\<lambda>(w, jid, ownerId, rid, k, elapsed). pollingTimeout - elapsed)")
     (auto simp: pollingInterval_def pollingTimeout_def)

declare slideshowPoll.simps [simp del]

text \<open>The fallback link: the site root.\<close>

definition siteRoot :: "'a world_scheme \<Rightarrow> string" where
  "siteRoot w = orElse (NEXT_PUBLIC_SITE_URL (env w)) ''http://localhost:3000''"

text \<open>The publish step: the insert into \<^verbatim>\<open>public_shared_cards\<close> and the short link. It
  returns \<^verbatim>\<open>finalShortLinkeCardUrl\<close>; no branch of it throws.\<close>

definition createShareLink :: "'a slideshow_world_scheme \<Rightarrow> 'b BirthdaySlideshowJobData_scheme \<Rightarrow> string
    \<Rightarrow> event list \<times> string" where
  "createShareLink w jobData shotstackRenderId =
     (let logPrefix = ''[Worker Job '' @ jobId jobData @ '']'' in
      if myCardId jobData \<noteq> [] \<and> shotstackRenderId \<noteq> [] then
        (let ins = DbInsert ''public_shared_cards''
                     [(''my_card_id'', Some (myCardId jobData)),
                      (''thumbnail_url'', initialThumbnailUrl jobData)]
         in case ins_error (publicInsert w) of
              Some _ \<Rightarrow> ([ins, LogError (logPrefix @ '' Error inserting into public_shared_cards:'')], siteRoot w)
            | None \<Rightarrow>
                (case ins_data (publicInsert w) of
                   Some publicCardId \<Rightarrow>
                     (let constructedShortLink = ''/ecard/view/'' @ interpolate publicCardId
                                                   @ ''?renderId='' @ shotstackRenderId;
                          upd = DbUpdate ''my_cards'' [(''shortLinkeCard'', Some constructedShortLink)]
                                  ''id'' (myCardId jobData)
                      in case linkUpdateError w of
                           Some _ \<Rightarrow>
                             ([ins, upd, LogError (logPrefix @ '' Error updating my_cards with shortLinkeCard:'')],
                              siteRoot w)
                         | None \<Rightarrow> ([ins, upd], siteRoot w @ constructedShortLink))
                 | None \<Rightarrow>
                     ([ins, LogError (logPrefix @ '' Insert into public_shared_cards returned no data or ID.'')],
                      siteRoot w)))
      else
        ([LogWarn (logPrefix @ '' Missing myCardId or shotstackRenderId, cannot create full shortLinkeCard.'')],
         siteRoot w))"

text \<open>\<^verbatim>\<open>displayName || recipientName || "your slideshow"\<close>.\<close>

definition cardTitle :: "'b BirthdaySlideshowJobData_scheme \<Rightarrow> string" where
  "cardTitle jobData =
     (if displayName jobData \<noteq> [] then displayName jobData
      else if recipientName jobData \<noteq> [] then recipientName jobData
      else ''your slideshow'')"

text \<open>The body of the \<^verbatim>\<open>try\<close> block of the job processor. The database client is created
  when the module loads, so the test \<^verbatim>\<open>!supabaseAdmin\<close> never holds.\<close>

definition slideshowTry :: "'a slideshow_world_scheme \<Rightarrow> 'b BirthdaySlideshowJobData_scheme \<Rightarrow> unit io" where
  "slideshowTry w jobData =
     (let jid = jobId jobData;
          logPrefix = ''[Worker Job '' @ jobId jobData @ '']''
      in
      if \<not> truthy (shotstackApiKey jobData) then
        throw (Error ''Shotstack API key missing from job data at worker start.'')
      else if \<not> truthy (shotstackOwnerId jobData) then
        throw (Error ''Shotstack Owner ID missing from job data at worker start.'')
      else
        io_then (emit (DbUpdate ''my_cards''
                         [(''status'', Some ''processing_slideshow''),
                          (''shotstack_render_id'', None),
                          (''shotstack_status'', Some ''queued'')] ''job_id'' jid))
       (io_bind (submitToShotstack w jobData) (\<lambda>shotstackRenderId.
        io_then (emit (DbUpdate ''my_cards''
                         [(''status'', Some ''rendering_slideshow''),
                          (''shotstack_render_id'', Some shotstackRenderId),
                          (''shotstack_status'', Some ''rendering'')] ''job_id'' jid))
       (io_bind (slideshowPoll w jid (interpolate (shotstackOwnerId jobData)) shotstackRenderId 0 0)
          (\<lambda>(finalVideoUrl, elapsed).
             case finalVideoUrl of
               None \<Rightarrow>
                 io_then (emit (DbUpdate ''my_cards''
                                  [(''status'', Some ''failed''),
                                   (''shotstack_status'', Some ''timeout''),
                                   (''error_message'', Some ''Shotstack polling timed out.'')] ''job_id'' jid))
                (io_then (emit (LogError (logPrefix @ '' Shotstack polling timed out.'')))
                   (throw (Error ''Shotstack polling timed out.'')))
             | Some url \<Rightarrow>
                 io_then (emit (DbUpdate ''my_cards''
                                  [(''video_url'', Some url),
                                   (''status'', Some ''complete''),
                                   (''shotstack_status'', Some ''complete'')] ''job_id'' jid))
                   (let (es, finalShortLinkeCardUrl) = createShareLink w jobData shotstackRenderId
                    in prepend es
                         (queueAdd w ''card-ready''
                            [(''userId'', Some (userId jobData)),
                             (''type'', Some ''card_ready''),
                             (''message'', Some (''Your Birthday Slideshow \"'' @ cardTitle jobData
                                                 @ ''\" is ready! Click here to view.'')),
                             (''link'', Some finalShortLinkeCardUrl)])))))))"

text \<open>The job processor: the \<^verbatim>\<open>try\<close> block and its \<^verbatim>\<open>catch\<close>, which logs, writes the
  status \<^verbatim>\<open>failed\<close> with the message of the error, and throws the error again.\<close>

definition birthdaySlideshowWorker :: "'a slideshow_world_scheme \<Rightarrow> 'b BirthdaySlideshowJobData_scheme \<Rightarrow> unit io" where
  "birthdaySlideshowWorker w jobData =
     tryCatch (slideshowTry w jobData)
       (\<lambda>error.
          io_then (emit (LogError (''[Worker Job '' @ jobId jobData @ ''] Error processing job:'')))
         (io_then (emit (DbUpdate ''my_cards''
                           [(''status'', Some ''failed''),
                            (''error_message'', Some (exn_message error))] ''job_id'' (jobId jobData)))
            (throw error)))"

section \<open>The singing selfie worker\<close>

record SingingSelfieJobData = CardJobData +
  sourceImageUrl :: string
  inputImageName :: string
  textPrompt :: string
  aspectRatio :: string
  resolution :: string
  durationMs :: "nat option"
  seed :: "nat option"
  songName :: string
  yourName :: string
  genre :: string

record HedraGenerationStatus =
  hedra_status :: string
  hedra_url :: "string option"
  hedra_error_message :: "string option"
  hedra_asset_id :: "string option"

text \<open>
  The outside of the singing selfie worker: the error (if any) that the database returns
  for an update with the given fields, the answers to the fetches of the source image and
  of the audio, the answers of the video vendor (the ids of its models, the ids of the
  assets and of the generation it creates), the answer to the \<open>k\<close>-th status poll of the
  generation, and the time that poll takes.
\<close>

record selfie_world = shotstack_world +
  dbUpdateError :: "fields \<Rightarrow> string option"
  sourceImageFetch :: "unit response"
  audioFetch :: "unit response"
  hedraModels :: "string option list response"
  createImageAsset :: "string response"
  imageUpload :: "unit response"
  createAudioAsset :: "string response"
  audioUpload :: "unit response"
  submitGeneration :: "string response"
  hedraPoll :: "nat \<Rightarrow> HedraGenerationStatus response"
  hedraPollLatency :: "nat \<Rightarrow> nat"

definition HEDRA_API_BASE_URL :: string where
  "HEDRA_API_BASE_URL = ''https://api.hedra.com/web-app/public''"

definition shotstackTemplateMapping :: "(string \<times> string) list" where
  "shotstackTemplateMapping =
     [(''Metal'', ''53d55f74-8a8a-4c34-bc2b-c0abfb6d1e2a''),
      (''Punk'', ''9a6c2d30-384c-4087-b9f1-ced55aef2809''),
      (''LatinJazz'', ''24b4423d-f2d9-4f72-b7c7-94307732619f''),
      (''OutlawCountry'', ''e948f56c-12df-4438-86e6-c96dc2e59035''),
      (''Folk'', ''8e9a90b6-1d6e-46b5-9c07-c35c7325c83c''),
      (''AltPop'', ''f3e830e3-758b-4873-b572-fceacf4a2f21''),
      (''Gospel'', ''ce86bafa-151b-4d3f-b755-5f6b32c644fd''),
      (''JiveBlues'', ''3543ed64-8556-4745-ae90-3c5e754a578b''),
      (''Jazz'', ''b14a681e-eba1-4557-9082-ea5308f14774''),
      (''Reggae'', ''9e5217ff-21b4-4086-8f1b-1c60691cd2ed''),
      (''Pop'', ''019e78b2-7bc3-4f5e-a560-9c2a8964f07b''),
      (''TradJazz'', ''0e170786-99b5-498d-859a-c7a806c8290c''),
      (''FolkPop'', ''29f0faa8-597e-43ad-966c-94c2d4bae269''),
      (''Classical'', ''1e9552c2-be82-42cb-8b2e-4f4aa7e4ef43''),
      (''Country'', ''71f2a9c6-bfdf-446c-83cb-69786b474023''),
      (''HipHop'', ''32c13059-ff08-4c89-86b9-dd855cc6acc2'')]"

text \<open>The module's \<^verbatim>\<open>s3\<close> of this worker: key, secret and region must all be set.\<close>

definition selfie_s3 :: "'a world_scheme \<Rightarrow> s3_client option" where
  "selfie_s3 w =
     (if truthy (AWS_KEY (env w)) \<and> truthy (AWS_SECRET (env w)) \<and> truthy (AWS_REGION (env w))
      then Some (objectStore w) else None)"

text \<open>\<^verbatim>\<open>findFileInS3\<close> of \<^verbatim>\<open>singingSelfieWorker.ts\<close>: the same search, with a signed
  URL that lasts 20 minutes. The bucket comes from the environment and may be undefined.\<close>

definition selfiePattern :: "string \<Rightarrow> string \<Rightarrow> string \<Rightarrow> string" where
  "selfiePattern name genre' searchPatternSuffix =
     convertSpaceToUnderscore name @ ''('' @ filter (\<lambda>c. \<not> isWhitespace c) genre' @ '')''
       @ searchPatternSuffix"

definition findFileInS3_selfie :: "s3_client option \<Rightarrow> string option \<Rightarrow> string \<Rightarrow> string \<Rightarrow> string
    \<Rightarrow> event list \<times> string option" where
  "findFileInS3_selfie s3 bucket name genre' searchPatternSuffix =
     (case s3 of
        None \<Rightarrow> ([LogError ''S3 client not initialized in worker findFileInS3.''], None)
      | Some client \<Rightarrow>
          if \<not> truthy bucket then
            ([LogError ''S3 bucket name not provided to findFileInS3''], None)
          else
            (let pattern = selfiePattern name genre' searchPatternSuffix;
                 (es, r) = listLoop client (interpolate bucket) pattern 1200 None
                             (listObjects client (interpolate bucket))
             in case r of
                  Inr (Some url) \<Rightarrow> (es, Some url)
                | Inr None \<Rightarrow> (es, None)
                | Inl _ \<Rightarrow> (es @ [LogError ''Worker: Error searching S3 in findFileInS3:''], None)))"

text \<open>The regular expression of \<^verbatim>\<open>pollHedraGenerationStatus\<close>: hexadecimal digits in
  groups of 8, 4, 4, 4 and 12, separated by hyphens; the leftmost match is taken.\<close>

definition isHex :: "char \<Rightarrow> bool" where
  "isHex c = (c \<in> set ''0123456789abcdefABCDEF'')"

fun matchShape :: "string \<Rightarrow> string \<Rightarrow> bool" where
  "matchShape [] s = True"
| "matchShape (p # ps) [] = False"
| "matchShape (p # ps) (c # cs) =
     ((if p = CHR ''h'' then isHex c else c = CHR ''-'') \<and> matchShape ps cs)"

definition uuidShape :: string where
  "uuidShape = ''hhhhhhhh-hhhh-hhhh-hhhh-hhhhhhhhhhhh''"

fun uuidMatch :: "string \<Rightarrow> string option" where
  "uuidMatch [] = None"
| "uuidMatch (c # cs) =
     (if matchShape uuidShape (c # cs) then Some (take 36 (c # cs)) else uuidMatch cs)"

definition maxAttempts :: nat where
  "maxAttempts = 30"

definition hedraStatusUrl :: "string \<Rightarrow> string" where
  "hedraStatusUrl generationId = HEDRA_API_BASE_URL @ ''/generations/'' @ generationId @ ''/status''"

text \<open>
  The loop of \<^verbatim>\<open>pollHedraGenerationStatus\<close>. \<open>attempts\<close> is the counter of the source;
  \<open>elapsed\<close> is the time since the loop began, which the source does not read and which
  is kept here for the statements about time. The result is the value returned
  (\<^verbatim>\<open>null\<close> is \<open>None\<close>) with the elapsed time.
\<close>

function hedraLoop :: "'a selfie_world_scheme \<Rightarrow> string \<Rightarrow> nat \<Rightarrow> nat \<Rightarrow> (string option \<times> nat) io" where
  "hedraLoop w generationId attempts elapsed =
     (if attempts < maxAttempts then
        (let elapsed' = elapsed + hedraPollLatency w attempts;
             es = [HttpGet (hedraStatusUrl generationId)]
         in case hedraPoll w attempts of
              Rejects e \<Rightarrow> (es, Inl e)
            | Response st stText txt js \<Rightarrow>
                if \<not> ok st then
                  prepend (es @ [LogError (''Worker: Hedra status poll failed with status '' @ showNat st
                                           @ '' for '' @ generationId),
                                 Sleep 20000])
                    (hedraLoop w generationId (Suc attempts) (elapsed' + 20000))
                else
                  (case js of
                     Unreadable e \<Rightarrow> (es, Inl e)
                   | Body data \<Rightarrow>
                       if hedra_status data = ''complete'' \<and> truthy (hedra_url data) then
                         (es, Inr (hedra_url data, elapsed'))
                       else if hedra_status data = ''error'' then
                         (es @ [LogError (''Worker: Hedra API generation failed: ''
                                          @ interpolate (hedra_error_message data))],
                          Inr (None, elapsed'))
                       else
                         prepend (es @ [Sleep 20000])
                           (hedraLoop w generationId (Suc attempts) (elapsed' + 20000))))
      else
        ([LogError (''Worker: Hedra polling timed out after '' @ showNat maxAttempts @ '' attempts for ''
                    @ generationId)],
         Inr (None, elapsed)))"
  by pat_completeness auto
termination
  by (relation "measure (\<lambda>(w, generationId, attempts, elapsed). maxAttempts - attempts)") auto

declare hedraLoop.simps [simp del]

definition pollHedraGenerationStatus :: "'a selfie_world_scheme \<Rightarrow> string \<Rightarrow> (string option \<times> nat) io" where
  "pollHedraGenerationStatus w fullGenerationId =
     (case uuidMatch fullGenerationId of
        None \<Rightarrow>
          ([LogError (''Worker: Could not extract valid UUID from Hedra generation ID: '' @ fullGenerationId)],
           Inr (None, 0))
      | Some generationId \<Rightarrow> hedraLoop w generationId 0 0)"

text \<open>An update of the job's row in \<^verbatim>\<open>my_cards\<close>; an error of the database is logged as
  a warning and the worker goes on.\<close>

definition selfieUpdate :: "'a selfie_world_scheme \<Rightarrow> string \<Rightarrow> fields \<Rightarrow> string \<Rightarrow> unit io" where
  "selfieUpdate w jid fs warning =
     (case dbUpdateError w fs of
        None \<Rightarrow> ([DbUpdate ''my_cards'' fs ''job_id'' jid], Inr ())
      | Some m \<Rightarrow> ([DbUpdate ''my_cards'' fs ''job_id'' jid, LogWarn (warning @ m)], Inr ()))"

text \<open>A \<^verbatim>\<open>fetch\<close> with the GET method whose body is read with \<^verbatim>\<open>arrayBuffer()\<close> when the
  status is ok; otherwise an error with the given text and the status text is thrown.\<close>

definition getBuffer :: "string \<Rightarrow> unit response \<Rightarrow> string \<Rightarrow> unit io" where
  "getBuffer url r failure =
     prepend [HttpGet url]
       (case r of
          Rejects e \<Rightarrow> throw e
        | Response st stText txt js \<Rightarrow>
            if \<not> ok st then throw (Error (failure @ stText))
            else (case txt of Unreadable e \<Rightarrow> throw e | Body _ \<Rightarrow> ret ()))"

text \<open>A \<^verbatim>\<open>fetch\<close> with the POST method: when the status is not ok an error with the given
  text and the body's text is thrown; otherwise the body is parsed as JSON.\<close>

definition postJson :: "string \<Rightarrow> http_body \<Rightarrow> 'a response \<Rightarrow> string \<Rightarrow> 'a io" where
  "postJson url b r failure =
     prepend [HttpPost url b]
       (case r of
          Rejects e \<Rightarrow> throw e
        | Response st stText txt js \<Rightarrow>
            if \<not> ok st then
              (case txt of Unreadable e \<Rightarrow> throw e | Body t \<Rightarrow> throw (Error (failure @ t)))
            else (case js of Unreadable e \<Rightarrow> throw e | Body d \<Rightarrow> ret d))"

text \<open>The same, for the uploads, whose answer is not read when the status is ok.\<close>

definition postUpload :: "string \<Rightarrow> http_body \<Rightarrow> unit response \<Rightarrow> string \<Rightarrow> unit io" where
  "postUpload url b r failure =
     prepend [HttpPost url b]
       (case r of
          Rejects e \<Rightarrow> throw e
        | Response st stText txt js \<Rightarrow>
            if \<not> ok st then
              (case txt of Unreadable e \<Rightarrow> throw e | Body t \<Rightarrow> throw (Error (failure @ t)))
            else ret ())"

text \<open>The request for the vendor's models and the choice of the first model's id.\<close>

definition fetchModelId :: "'a selfie_world_scheme \<Rightarrow> string \<Rightarrow> string io" where
  "fetchModelId w logPrefix =
     prepend [HttpGet (HEDRA_API_BASE_URL @ ''/models'')]
       (case hedraModels w of
          Rejects e \<Rightarrow> throw e
        | Response st stText txt js \<Rightarrow>
            if \<not> ok st then
              (case txt of
                 Unreadable e \<Rightarrow> throw e
               | Body errorText \<Rightarrow>
                   ([LogError (logPrefix @ '' Hedra /models API request failed with status '' @ showNat st
                               @ '': '' @ errorText)],
                    Inl (Error (''Hedra /models API request failed: '' @ stText))))
            else
              (case js of
                 Unreadable e \<Rightarrow> throw e
               | Body modelsData \<Rightarrow>
                   (case element modelsData 0 of
                      Some (Some modelId) \<Rightarrow>
                        if modelId = [] then
                          ([LogError (logPrefix @ '' Could not retrieve Hedra model ID from data:'')],
                           Inl (Error ''Could not retrieve Hedra model ID''))
                        else ret modelId
                    | _ \<Rightarrow>
                        ([LogError (logPrefix @ '' Could not retrieve Hedra model ID from data:'')],
                         Inl (Error ''Could not retrieve Hedra model ID'')))))"

text \<open>The first part of the \<^verbatim>\<open>try\<close> block: the assets are fetched, uploaded to the video
  vendor, and the generation is submitted. It returns \<^verbatim>\<open>hedraGenerationId\<close>.\<close>

definition selfiePrepare :: "'a selfie_world_scheme \<Rightarrow> 'b SingingSelfieJobData_scheme \<Rightarrow> string io" where
  "selfiePrepare w job =
     (let jid = jobId job;
          logPrefix = ''[Job '' @ jobId job @ '']'';
          hedraAudioSuffix = ''_30sec_hedra.mp3''
      in
      io_then (selfieUpdate w jid [(''status'', Some ''PROCESSING_ASSETS'')]
                 (logPrefix @ '' Failed to update initial status to PROCESSING_ASSETS: ''))
     (io_then (getBuffer (sourceImageUrl job) (sourceImageFetch w)
                 (''Failed to fetch source image '' @ sourceImageUrl job @ '': ''))
     (io_bind (case findFileInS3_selfie (selfie_s3 w) (AWS_BUCKET_HEDRA_AUDIO (env w)) (songName job)
                       (genre job) hedraAudioSuffix of
                 (es, hedraAudioS3Url) \<Rightarrow>
                   if \<not> truthy hedraAudioS3Url then
                     (es, Inl (Error (''Hedra audio file not found in S3 for song: '' @ songName job
                                      @ '', genre: '' @ genre job)))
                   else (es, Inr (interpolate hedraAudioS3Url)))
        (\<lambda>hedraAudioS3Url.
      io_then (getBuffer hedraAudioS3Url (audioFetch w)
                 (''Failed to fetch Hedra audio from S3 '' @ hedraAudioS3Url @ '': ''))
     (let audioFileNameForHedra = convertSpaceToUnderscore (songName job) @ ''(''
                                    @ convertSpaceToUnderscore (genre job) @ '')'' @ hedraAudioSuffix
      in
      io_then (selfieUpdate w jid [(''status'', Some ''GENERATING_AI_VIDEO'')]
                 (logPrefix @ '' Failed to update status to GENERATING_AI_VIDEO: ''))
     (io_bind (fetchModelId w logPrefix) (\<lambda>modelId.
      io_bind (postJson (HEDRA_API_BASE_URL @ ''/assets'')
                 (JsonBody [(''name'', Some (inputImageName job)), (''type'', Some ''image'')])
                 (createImageAsset w) ''Failed to create Hedra image asset: '') (\<lambda>imageAssetId.
      io_then (postUpload (HEDRA_API_BASE_URL @ ''/assets/'' @ imageAssetId @ ''/upload'')
                 (FormBody (inputImageName job)) (imageUpload w) ''Hedra image upload failed: '')
     (io_bind (postJson (HEDRA_API_BASE_URL @ ''/assets'')
                 (JsonBody [(''name'', Some audioFileNameForHedra), (''type'', Some ''audio'')])
                 (createAudioAsset w) ''Failed to create Hedra audio asset: '') (\<lambda>audioAssetId.
      io_then (postUpload (HEDRA_API_BASE_URL @ ''/assets/'' @ audioAssetId @ ''/upload'')
                 (FormBody audioFileNameForHedra) (audioUpload w) ''Hedra audio upload failed: '')
        (postJson (HEDRA_API_BASE_URL @ ''/generations'')
           (JsonBody [(''type'', Some ''video''),
                      (''ai_model_id'', Some modelId),
                      (''start_keyframe_id'', Some imageAssetId),
                      (''audio_id'', Some audioAssetId),
                      (''text_prompt'', Some (textPrompt job)),
                      (''resolution'', Some (resolution job)),
                      (''aspect_ratio'', Some (aspectRatio job))])
           (submitGeneration w) ''Failed to submit Hedra generation job: '')))))))))))"

text \<open>The polling loop of the compositing stage: as in the slideshow worker, without the
  reads and writes of \<^verbatim>\<open>shotstack_status\<close>, and with the vendor's error interpolated as
  it is.\<close>

function selfiePoll :: "'a selfie_world_scheme \<Rightarrow> string \<Rightarrow> string \<Rightarrow> string \<Rightarrow> nat \<Rightarrow> nat
    \<Rightarrow> (string option \<times> nat) io" where
  "selfiePoll w logPrefix ownerId rid k elapsed =
     (if elapsed < pollingTimeout then
        (let elapsed' = elapsed + pollingInterval + renderPollLatency w k;
             es = [Sleep pollingInterval, HttpGet (statusUrl rid)]
         in case renderPoll w k of
              Rejects e \<Rightarrow> (es, Inl e)
            | Response st stText txt js \<Rightarrow>
                if \<not> ok st then
                  prepend (es @ [LogWarn (logPrefix @ '' Shotstack status poll failed with status ''
                                          @ showNat st @ '' for '' @ rid)])
                    (selfiePoll w logPrefix ownerId rid (Suc k) elapsed')
                else
                  (case js of
                     Unreadable e \<Rightarrow> (es, Inl e)
                   | Body statusData \<Rightarrow>
                       (case poll_response statusData of
                          None \<Rightarrow>
                            prepend (es @ [LogWarn (logPrefix
                                             @ '' Error polling Shotstack status or unexpected response:'')])
                              (selfiePoll w logPrefix ownerId rid (Suc k) elapsed')
                        | Some r \<Rightarrow>
                            if \<not> poll_success statusData then
                              prepend (es @ [LogWarn (logPrefix
                                               @ '' Error polling Shotstack status or unexpected response:'')])
                                (selfiePoll w logPrefix ownerId rid (Suc k) elapsed')
                            else if poll_status r = ''done'' \<and> truthy (poll_url r) then
                              (es, Inr (Some (cdnUrl ownerId (interpolate (poll_url r))), elapsed'))
                            else if poll_status r = ''failed'' then
                              (es, Inl (Error (''Shotstack render failed: '' @ interpolate (poll_error r))))
                            else
                              prepend es (selfiePoll w logPrefix ownerId rid (Suc k) elapsed'))))
      else ([], Inr (None, elapsed)))"
  by pat_completeness auto
termination
  by (relation "measure (\<lambda>(w, logPrefix, ownerId, rid, k, elapsed). pollingTimeout - elapsed)")
     (auto simp: pollingInterval_def pollingTimeout_def)

declare selfiePoll.simps [simp del]

text \<open>The merge fields of the compositing stage.\<close>

definition selfieMergeFields :: "'b SingingSelfieJobData_scheme \<Rightarrow> string \<Rightarrow> string \<Rightarrow> fields" where
  "selfieMergeFields job hedraVideoUrl musicS3Url =
     (if truthy (bespokeBackgroundUrl job) then
        [(''hedra'', Some hedraVideoUrl), (''name'', Some []),
         (''altn'', Some []), (''happy'', Some []),
         (''alth'', Some []), (''greetingbg'', bespokeBackgroundUrl job),
         (''message'', Some []), (''sender'', Some []),
         (''thumbnail_url'', Some (orElse (initialThumbnailUrl job) [])),
         (''music'', Some musicS3Url), (''christmas'', Some []),
         (''jinglemusic'', Some ''0'')]
      else
        [(''hedra'', Some hedraVideoUrl), (''name'', Some []),
         (''altn'', Some (displayName job)), (''happy'', Some []),
         (''alth'', Some ''Happy Birthday''), (''greetingbg'', Some (themeRenderUrl job)),
         (''message'', Some (orElse (message job) [])), (''sender'', Some (yourName job)),
         (''thumbnail_url'', Some (orElse (initialThumbnailUrl job) [])),
         (''music'', Some musicS3Url), (''christmas'', Some []),
         (''jinglemusic'', Some ''0'')])"

text \<open>The submission of the render and the reading of its answer.\<close>

definition selfieRenderSubmit :: "'a selfie_world_scheme \<Rightarrow> http_body \<Rightarrow> string option io" where
  "selfieRenderSubmit w b =
     io_bind (postJson renderApiUrl b (renderSubmit w b) ''Shotstack render submission failed: '')
       (\<lambda>shotstackRenderData.
          case submit_response shotstackRenderData of
            None \<Rightarrow>
              throw (Error (''Shotstack render failed to queue: ''
                            @ (if truthy (submit_message shotstackRenderData)
                               then interpolate (submit_message shotstackRenderData)
                               else ''undefined'')))
          | Some info \<Rightarrow>
              if \<not> submit_success shotstackRenderData then
                throw (Error (''Shotstack render failed to queue: ''
                              @ (if truthy (submit_message shotstackRenderData)
                                 then interpolate (submit_message shotstackRenderData)
                                 else interpolate (submit_info info))))
              else ret (submit_id info))"

text \<open>The second part of the \<^verbatim>\<open>try\<close> block, from the status
  \<^verbatim>\<open>COMPOSITING_FINAL_VIDEO\<close> to the update that writes \<^verbatim>\<open>COMPLETE\<close>. The file of the
  source ends inside the publish step that follows; the model ends before it.\<close>

definition selfieComposite :: "'a selfie_world_scheme \<Rightarrow> 'b SingingSelfieJobData_scheme \<Rightarrow> string \<Rightarrow> unit io" where
  "selfieComposite w job hedraVideoUrl =
     (let jid = jobId job;
          logPrefix = ''[Job '' @ jobId job @ '']'';
          shotstackMusicSuffix = ''_30sec.mp3''
      in
      io_then (selfieUpdate w jid
                 [(''status'', Some ''COMPOSITING_FINAL_VIDEO''),
                  (''hedra_video_url'', Some hedraVideoUrl),
                  (''shotstack_status'', Some ''queued'')]
                 (logPrefix @ '' Failed to update status to COMPOSITING_FINAL_VIDEO: ''))
     (io_bind (case findFileInS3_selfie (selfie_s3 w) (AWS_BUCKET_AUDIO (env w)) (songName job)
                       (genre job) shotstackMusicSuffix of
                 (es, musicS3Url) \<Rightarrow>
                   if \<not> truthy musicS3Url then
                     (es, Inl (Error (''Shotstack music file not found in S3 for song: '' @ songName job
                                      @ '', genre: '' @ genre job)))
                   else (es, Inr (interpolate musicS3Url)))
        (\<lambda>musicS3Url.
           case map_of shotstackTemplateMapping (filter (\<lambda>c. \<not> isWhitespace c) (genre job)) of
             None \<Rightarrow> throw (Error (''Shotstack template ID not found for genre: '' @ genre job))
           | Some shotstackTemplateId \<Rightarrow>
               io_bind (selfieRenderSubmit w
                          (RenderBody shotstackTemplateId (selfieMergeFields job hedraVideoUrl musicS3Url)))
                 (\<lambda>shotstackRenderId.
               io_then (selfieUpdate w jid [(''shotstack_render_id'', shotstackRenderId)]
                          (logPrefix @ '' Failed to update my_cards with Shotstack render ID: ''))
              (io_bind (selfiePoll w logPrefix (interpolate (SHOTSTACK_OWNER_ID (env w)))
                          (interpolate shotstackRenderId) 0 0)
                 (\<lambda>(finalVideoUrl, elapsed).
                    case finalVideoUrl of
                      None \<Rightarrow>
                        io_then (selfieUpdate w jid
                                   [(''status'', Some ''FAILED''),
                                    (''shotstack_status'', Some ''timeout''),
                                    (''error_message'', Some ''Shotstack polling timed out.'')]
                                   (logPrefix @ '' Failed to update status to FAILED (timeout): ''))
                          (throw (Error ''Shotstack polling timed out.''))
                    | Some url \<Rightarrow>
                        (let fs = [(''video_url'', Some url),
                                   (''status'', Some ''COMPLETE''),
                                   (''shotstack_status'', Some ''complete'')]
                         in case dbUpdateError w fs of
                              None \<Rightarrow> ([DbUpdate ''my_cards'' fs ''job_id'' jid], Inr ())
                            | Some m \<Rightarrow>
                                ([DbUpdate ''my_cards'' fs ''job_id'' jid],
                                 Inl (Error (''Error updating my_cards with final video URL: '' @ m))))))))))"

text \<open>The \<^verbatim>\<open>try\<close> block of the job processor.\<close>

definition selfieTry :: "'a selfie_world_scheme \<Rightarrow> 'b SingingSelfieJobData_scheme \<Rightarrow> unit io" where
  "selfieTry w job =
     io_bind (selfiePrepare w job) (\<lambda>hedraGenerationId.
     io_bind (pollHedraGenerationStatus w hedraGenerationId) (\<lambda>(hedraVideoUrl, elapsed).
       if \<not> truthy hedraVideoUrl then
         throw (Error (''Hedra video generation failed or timed out for Hedra job '' @ hedraGenerationId))
       else selfieComposite w job (interpolate hedraVideoUrl)))"

text \<open>
  Modelled from the spec: the \<^verbatim>\<open>catch\<close> block of the singing selfie job processor is not
  in the source, whose file ends inside the publish step. The spec says: ``Any unhandled
  failure in steps 1--3 transitions the job to \<^verbatim>\<open>failed\<close>, persisting the triggering
  error's message, and the failure is re-signaled to the Worker Runtime''. The status is
  written in upper case, as this worker writes its other statuses.
\<close>

definition selfieCatch :: "'b SingingSelfieJobData_scheme \<Rightarrow> exn \<Rightarrow> unit io" where
  "selfieCatch job error =
     ([DbUpdate ''my_cards''
         [(''status'', Some ''FAILED''), (''error_message'', Some (exn_message error))]
         ''job_id'' (jobId job)],
      Inl error)"

text \<open>The job processor. The three tests before the \<^verbatim>\<open>try\<close> throw outside it. The
  database client is \<^verbatim>\<open>null\<close> unless its URL and its key are set.\<close>

definition singingSelfieWorker :: "'a selfie_world_scheme \<Rightarrow> 'b SingingSelfieJobData_scheme \<Rightarrow> unit io" where
  "singingSelfieWorker w job =
     (let logPrefix = ''[Job '' @ jobId job @ '']'' in
      if \<not> truthy (HEDRA_API_KEY (env w)) \<or> \<not> truthy (SHOTSTACK_API_KEY (env w))
         \<or> \<not> truthy (SHOTSTACK_OWNER_ID (env w)) then
        ([LogError (logPrefix @ '' Missing API keys (Hedra or Shotstack). Aborting.'')],
         Inl (Error ''Missing API keys in worker environment.''))
      else if selfie_s3 w = None then
        ([LogError (logPrefix @ '' S3 client not initialized. Aborting.'')],
         Inl (Error ''S3 client not initialized in worker.''))
      else if \<not> (truthy (NEXT_PUBLIC_SUPABASE_URL (env w)) \<and> truthy (SUPABASE_SERVICE_ROLE_KEY (env w))) then
        ([LogError (logPrefix @ '' Supabase admin client not initialized. Aborting.'')],
         Inl (Error ''Supabase admin client not initialized in worker.''))
      else tryCatch (selfieTry w job) (selfieCatch job))"

section \<open>The face swap worker\<close>

text \<open>A job of the queue: its id and name, and the fields of its data that the worker
  reads. A field that the sender left out is \<open>None\<close>.\<close>

record FaceSwapJob =
  job_id :: "string option"
  job_name :: string
  data_imageUrl :: "string option"
  data_templateId :: "string option"
  data_userId :: "string option"

record TemplateData =
  ID :: string
  Name :: string
  Image :: string
  RenderImage :: string

record SegmindFaceswapResponse =
  image :: "string option"

text \<open>The value that the job processor returns for a finished job.\<close>

record faceswap_return =
  s3_path :: string
  databaseId :: "string option"

text \<open>
  The outside of the face swap worker: the rows parsed from the template file (\<open>None\<close>
  when reading or parsing throws), the result of \<^verbatim>\<open>new URL(path, base).toString()\<close>
  (\<open>None\<close> when it throws), the answer to the fetch of an image, whose text is the image
  in base64, the answer of the face swap vendor, the error of the upload and of
  \<^verbatim>\<open>job.updateData\<close>, if any, and the result of the insert.
\<close>

record faceswap_world = world +
  csvRecords :: "TemplateData list option"
  resolveUrl :: "string \<Rightarrow> string \<Rightarrow> string option"
  imageFetch :: "string \<Rightarrow> unit response"
  segmind :: "SegmindFaceswapResponse response"
  s3PutError :: "exn option"
  faceswapInsert :: insert_result
  updateDataError :: "exn option"

text \<open>\<^verbatim>\<open>imageUrlToBase64\<close>.\<close>

definition imageUrlToBase64 :: "'a faceswap_world_scheme \<Rightarrow> string \<Rightarrow> string io" where
  "imageUrlToBase64 w imageUrl =
     prepend [HttpGet imageUrl]
       (case imageFetch w imageUrl of
          Rejects e \<Rightarrow> throw e
        | Response st stText txt js \<Rightarrow>
            if \<not> ok st then
              throw (Error (''Failed to fetch image from URL: '' @ imageUrl @ '' status: '' @ showNat st))
            else (case txt of Unreadable e \<Rightarrow> throw e | Body base64 \<Rightarrow> ret base64))"

text \<open>The block that finds the template's \<^verbatim>\<open>RenderImage\<close>: every error inside it is
  caught, logged, and replaced by one error.\<close>

definition loadTemplate :: "'a faceswap_world_scheme \<Rightarrow> 'b FaceSwapJob_scheme \<Rightarrow> string io" where
  "loadTemplate w job =
     (let failed = ([FsRead ''../../public/faceswap_templates.csv'',
                     LogError ''Error reading or parsing faceswap_templates.csv:''],
                    Inl (Error ''Failed to load template data.''))
      in case csvRecords w of
           None \<Rightarrow> failed
         | Some records \<Rightarrow>
             (case find (\<lambda>record. ID record = interpolate (data_templateId job)) records of
                None \<Rightarrow> failed
              | Some templateRecord \<Rightarrow>
                  if RenderImage templateRecord = [] then failed
                  else
                    (case NEXT_PUBLIC_SITE_URL (env w) of
                       None \<Rightarrow> failed
                     | Some siteUrl \<Rightarrow>
                         if siteUrl = [] then failed
                         else
                           (case resolveUrl w (RenderImage templateRecord) siteUrl of
                              None \<Rightarrow> failed
                            | Some templateRenderImageUrl \<Rightarrow>
                                ([FsRead ''../../public/faceswap_templates.csv''],
                                 Inr templateRenderImageUrl)))))"

definition requiredEnv :: "process_env \<Rightarrow> string option list" where
  "requiredEnv e =
     [SEGMIND_API_KEY e, NEXT_PUBLIC_SITE_URL e, AWS_KEY e, AWS_SECRET e, AWS_REGION e,
      AWS_BUCKET_USER e, NEXT_PUBLIC_SUPABASE_URL e, SUPABASE_SERVICE_ROLE_KEY e,
      SEGMIND_API_ENDPOINT_URL e]"

text \<open>The call of the face swap vendor and the reading of its answer.\<close>

definition callSegmind :: "'a faceswap_world_scheme \<Rightarrow> string \<Rightarrow> string \<Rightarrow> string \<Rightarrow> string io" where
  "callSegmind w jid sourceImageBase64 targetImageBase64 =
     prepend [HttpPost (interpolate (SEGMIND_API_ENDPOINT_URL (env w)))
                (JsonBody [(''source_image'', Some sourceImageBase64),
                           (''target_image'', Some targetImageBase64),
                           (''model_type'', Some ''speed''),
                           (''swap_type'', Some ''face''),
                           (''style_type'', Some ''normal''),
                           (''image_format'', Some ''jpg''),
                           (''image_quality'', Some ''50''),
                           (''base64'', Some ''true'')])]
       (case segmind w of
          Rejects e \<Rightarrow> throw e
        | Response st stText txt js \<Rightarrow>
            if \<not> ok st then
              ((case txt of
                  Unreadable _ \<Rightarrow> [LogError (''Job '' @ jid @ '': Failed to read Segmind error body:'')]
                | Body _ \<Rightarrow> [])
               @ [LogError (''Segmind API error for job '' @ jid @ '': Status '' @ showNat st)],
               Inl (Error (''Segmind API request failed with status '' @ showNat st)))
            else
              (case js of
                 Unreadable e \<Rightarrow> throw e
               | Body segmindResult \<Rightarrow>
                   if \<not> truthy (image segmindResult) then
                     ([LogError (''Segmind API response missing image data for job '' @ jid @ ''.'')],
                      Inl (Error ''Faceswap failed: No image data returned.''))
                   else ret (interpolate (image segmindResult))))"

text \<open>The \<^verbatim>\<open>try\<close> block of the branch for the job name \<^verbatim>\<open>generate\<close>.\<close>

definition faceSwapTry :: "'a faceswap_world_scheme \<Rightarrow> 'b FaceSwapJob_scheme \<Rightarrow> string \<Rightarrow> string
    \<Rightarrow> faceswap_return io" where
  "faceSwapTry w job uid templateRenderImageUrl =
     (let jid = interpolate (job_id job);
          imageUrl = interpolate (data_imageUrl job)
      in
      io_bind (imageUrlToBase64 w imageUrl) (\<lambda>sourceImageBase64.
      io_bind (imageUrlToBase64 w templateRenderImageUrl) (\<lambda>targetImageBase64.
      io_bind (callSegmind w jid sourceImageBase64 targetImageBase64) (\<lambda>resultBase64.
        (let s3Key = ''user_faceswaps/'' @ uid @ ''/'' @ jid @ ''.jpg'';
             put = S3Put (interpolate (AWS_BUCKET_USER (env w))) s3Key resultBase64;
             ins = DbInsert ''my_faceswaps''
                     [(''user_id'', Some uid),
                      (''s3_path'', Some s3Key),
                      (''source_image_url'', data_imageUrl job),
                      (''template_image_url'', Some templateRenderImageUrl)]
         in
         case s3PutError w of
           Some _ \<Rightarrow>
             ([put, LogError (''S3 upload failed for job '' @ jid @ '':'')],
              Inl (Error ''Failed to upload faceswap image to S3.''))
         | None \<Rightarrow>
             (case ins_error (faceswapInsert w) of
                Some _ \<Rightarrow>
                  ([put, ins, LogError (''Supabase insert failed for job '' @ jid @ '':'')],
                   Inl (Error ''Failed to save faceswap record to database.''))
              | None \<Rightarrow>
                  (let insertedId = (case ins_data (faceswapInsert w) of
                                       None \<Rightarrow> None
                                     | Some i \<Rightarrow> i)
                   in
                   prepend [put, ins]
                    (io_then
                       (if truthy insertedId then
                          queueAdd w ''faceswap-complete''
                            [(''userId'', Some uid),
                             (''type'', Some ''faceswap_complete''),
                             (''message'', Some ''Your faceswap is ready! Click here to view.''),
                             (''link'', Some (siteRoot w @ ''/profile?faceswapId='' @ interpolate insertedId))]
                        else
                          emit (LogWarn (''Job '' @ jid
                            @ '': Could not dispatch notification as faceswap ID was not available from insertData.'')))
                       (let newJobData = [(''imageUrl'', data_imageUrl job),
                                          (''templateId'', data_templateId job),
                                          (''userId'', Some uid),
                                          (''s3_path'', Some s3Key),
                                          (''databaseId'', (if truthy insertedId then insertedId else None))]
                        in case updateDataError w of
                             Some e \<Rightarrow> ([JobUpdateData newJobData], Inl e)
                           | None \<Rightarrow>
                               ([JobUpdateData newJobData],
                                Inr \<lparr>s3_path = s3Key,
                                     databaseId = (if truthy insertedId then insertedId else None)\<rparr>))))))))))"

text \<open>The \<^verbatim>\<open>catch\<close> of that block: an error named \<^verbatim>\<open>AbortError\<close> becomes the time-out
  error; any other error is thrown again.\<close>

definition faceSwapCatch :: "string \<Rightarrow> exn \<Rightarrow> faceswap_return io" where
  "faceSwapCatch jid error =
     ([LogError (''Error processing faceswap job '' @ jid @ '':'')],
      Inl (if exn_name error = ''AbortError''
           then Error (''Segmind API call timed out for job '' @ jid @ ''.'')
           else error))"

text \<open>The job processor of the queue \<^verbatim>\<open>face-swap\<close>. The result \<open>None\<close> is a return
  without a value.\<close>

definition faceSwapWorker :: "'a faceswap_world_scheme \<Rightarrow> 'b FaceSwapJob_scheme \<Rightarrow> faceswap_return option io" where
  "faceSwapWorker w job =
     (let jid = interpolate (job_id job) in
      if \<not> list_all truthy (requiredEnv (env w)) then
        ([LogError (''Job '' @ jid @ '': Missing required environment variables'')],
         Inl (Error ''Missing required environment variables for job execution.''))
      else if job_name job = ''generate'' then
        (if \<not> truthy (data_userId job) then
           ([LogError (''Job '' @ jid @ '' missing userId.'')],
            Inl (Error ''User ID is required for faceswap job.''))
         else
           io_bind (loadTemplate w job) (\<lambda>templateRenderImageUrl.
           io_bind (tryCatch (faceSwapTry w job (interpolate (data_userId job)) templateRenderImageUrl)
                      (faceSwapCatch jid))
             (\<lambda>jobReturnValue. ret (Some jobReturnValue))))
      else ret None)"

section \<open>Notions used in the statements\<close>

text \<open>The keys that a listing delivers, page after page, as long as a page carries a
  non-empty continuation token and the call succeeds.\<close>

fun listedKeys :: "s3_listing \<Rightarrow> string option list" where
  "listedKeys ListFails = []"
| "listedKeys (ListPage contents next) =
     (case contents of None \<Rightarrow> [] | Some objs \<Rightarrow> objs)
     @ (case next of
          None \<Rightarrow> []
        | Some (tok, rest) \<Rightarrow> if tok = [] then [] else listedKeys rest)"

text \<open>The listing can be read to its end: no call on the way fails.\<close>

fun listingSucceeds :: "s3_listing \<Rightarrow> bool" where
  "listingSucceeds ListFails = False"
| "listingSucceeds (ListPage contents next) =
     (case next of
        None \<Rightarrow> True
      | Some (tok, rest) \<Rightarrow> if tok = [] then True else listingSucceeds rest)"

text \<open>The events that only write to the log.\<close>

fun isLog :: "event \<Rightarrow> bool" where
  "isLog (LogError m) = True"
| "isLog (LogWarn m) = True"
| "isLog e = False"

text \<open>The pattern as the spec words it: whitespace is stripped from the name and from
  the category.\<close>

definition specPattern :: "string \<Rightarrow> string \<Rightarrow> string \<Rightarrow> string" where
  "specPattern name category suffixPattern =
     filter (\<lambda>c. \<not> isWhitespace c) name @ ''('' @ filter (\<lambda>c. \<not> isWhitespace c) category @ '')''
       @ suffixPattern"

section \<open>Notions used in the statements about the polling loops and the status\<close>

text \<open>The waits and the GET requests of a run, in order: a wait of \<open>n\<close> milliseconds is
  \<open>Inl n\<close>, a request to the URL \<open>u\<close> is \<open>Inr u\<close>.\<close>

fun timed :: "event \<Rightarrow> (nat + string) option" where
  "timed (Sleep n) = Some (Inl n)"
| "timed (HttpGet u) = Some (Inr u)"
| "timed e = None"

definition timeline :: "event list \<Rightarrow> (nat + string) list" where
  "timeline es = List.map_filter timed es"

text \<open>The values written to the column \<^verbatim>\<open>status\<close> of \<^verbatim>\<open>my_cards\<close>, in order.\<close>

fun statusWrite :: "event \<Rightarrow> string option" where
  "statusWrite (DbUpdate table fs col v) =
     (if table = ''my_cards''
      then (case map_of fs ''status'' of Some (Some s) \<Rightarrow> Some s | _ \<Rightarrow> None)
      else None)"
| "statusWrite e = None"

definition statusWrites :: "event list \<Rightarrow> string list" where
  "statusWrites es = List.map_filter statusWrite es"

text \<open>An answer of the render vendor after which the loop goes round again: a response
  whose status is not ok, or a parsed body that reports neither a finished render with
  its URL nor a failed one.\<close>

fun renderPending :: "ShotstackStatusResponse response \<Rightarrow> bool" where
  "renderPending (Rejects e) = False"
| "renderPending (Response st stText txt (Unreadable e)) = (\<not> ok st)"
| "renderPending (Response st stText txt (Body d)) =
     (\<not> ok st \<or>
      (case poll_response d of
         None \<Rightarrow> True
       | Some r \<Rightarrow>
           \<not> poll_success d
           \<or> (\<not> (poll_status r = ''done'' \<and> truthy (poll_url r)) \<and> poll_status r \<noteq> ''failed'')))"

text \<open>An ok answer of the render vendor that reports the given status.\<close>

fun reportsStatus :: "string \<Rightarrow> ShotstackStatusResponse response \<Rightarrow> bool" where
  "reportsStatus s (Response st stText txt (Body d)) =
     (ok st \<and> poll_success d \<and>
      (case poll_response d of None \<Rightarrow> False | Some r \<Rightarrow> poll_status r = s))"
| "reportsStatus s r = False"

text \<open>The same for the video vendor.\<close>

fun hedraPending :: "HedraGenerationStatus response \<Rightarrow> bool" where
  "hedraPending (Rejects e) = False"
| "hedraPending (Response st stText txt (Unreadable e)) = (\<not> ok st)"
| "hedraPending (Response st stText txt (Body d)) =
     (\<not> ok st \<or>
      (\<not> (hedra_status d = ''complete'' \<and> truthy (hedra_url d)) \<and> hedra_status d \<noteq> ''error''))"

fun hedraReports :: "string \<Rightarrow> HedraGenerationStatus response \<Rightarrow> bool" where
  "hedraReports s (Response st stText txt (Body d)) = (ok st \<and> hedra_status d = s)"
| "hedraReports s r = False"

text \<open>A response whose HTTP status is not ok, such as a 5xx.\<close>

fun httpFailure :: "'a response \<Rightarrow> bool" where
  "httpFailure (Rejects e) = False"
| "httpFailure (Response st stText txt js) = (\<not> ok st)"

text \<open>The time since the loop began after \<open>n\<close> rounds that start with poll \<open>k\<close>: each
  round takes its 20 second timer and the time of its requests.\<close>

definition renderElapsed :: "'a shotstack_world_scheme \<Rightarrow> nat \<Rightarrow> nat \<Rightarrow> nat" where
  "renderElapsed w k n = (\<Sum>i<n. pollingInterval + renderPollLatency w (k + i))"

definition hedraElapsed :: "'a selfie_world_scheme \<Rightarrow> nat \<Rightarrow> nat \<Rightarrow> nat" where
  "hedraElapsed w k n = (\<Sum>i<n. hedraPollLatency w (k + i) + 20000)"

text \<open>A call of the render vendor: the request that submits a render.\<close>

fun isRenderSubmit :: "event \<Rightarrow> bool" where
  "isRenderSubmit (HttpPost u b) = (u = renderApiUrl)"
| "isRenderSubmit e = False"

section \<open>Concrete inputs\<close>

text \<open>An object store with two pages. The key on the first page that differs from the
  pattern only in case does not match; the first matching key is on the second page.\<close>

definition demoStore :: s3_client where
  "demoStore =
     \<lparr>listObjects = (\<lambda>bucket.
        ListPage (Some [Some ''intro.mp3'', None, Some ''mary_ann(hiphop)_50sec.mp3''])
          (Some (''page2'',
             ListPage (Some [Some ''2024/Mary_Ann(HipHop)_50sec.mp3'', Some ''MaryAnn(HipHop)_50sec.mp3''])
               None))),
      getSignedUrl = (\<lambda>bucket key expiresIn.
        Some (''https://'' @ bucket @ ''.s3/'' @ key @ ''?expires='' @ showNat expiresIn))\<rparr>"

text \<open>A store whose only key with the name and the genre has the whitespace of the name
  stripped.\<close>

definition strippedStore :: s3_client where
  "strippedStore =
     \<lparr>listObjects = (\<lambda>bucket. ListPage (Some [Some ''other(Pop)_50sec.mp3'', Some ''MaryAnn(HipHop)_50sec.mp3'']) None),
      getSignedUrl = (\<lambda>bucket key expiresIn. Some (''https://'' @ bucket @ ''.s3/'' @ key))\<rparr>"

text \<open>A store whose listing call fails, and a store with no object.\<close>

definition failingStore :: s3_client where
  "failingStore =
     \<lparr>listObjects = (\<lambda>bucket. ListFails),
      getSignedUrl = (\<lambda>bucket key expiresIn. Some (''https://'' @ bucket @ ''.s3/'' @ key))\<rparr>"

definition emptyStore :: s3_client where
  "emptyStore =
     \<lparr>listObjects = (\<lambda>bucket. ListPage (Some []) None),
      getSignedUrl = (\<lambda>bucket key expiresIn. Some (''https://'' @ bucket @ ''.s3/'' @ key))\<rparr>"

text \<open>An environment in which every variable is set.\<close>

definition demoEnv :: process_env where
  "demoEnv =
     \<lparr>SEGMIND_API_KEY = Some ''segmind-key'',
      SEGMIND_API_TIMEOUT_MS = None,
      SEGMIND_API_ENDPOINT_URL = Some ''https://api.segmind.com/v1/faceswap'',
      NEXT_PUBLIC_SITE_URL = Some ''https://site.example'',
      NEXT_PUBLIC_SUPABASE_URL = Some ''https://db.example'',
      SUPABASE_SERVICE_ROLE_KEY = Some ''service-role'',
      AWS_KEY = Some ''aws-key'',
      AWS_SECRET = Some ''aws-secret'',
      AWS_REGION = Some ''eu-west-2'',
      AWS_BUCKET_USER = Some ''user-bucket'',
      AWS_BUCKET_HEDRA_AUDIO = Some ''hedra-audio'',
      AWS_BUCKET_AUDIO = Some ''audio'',
      HEDRA_API_KEY = Some ''hedra-key'',
      SHOTSTACK_API_KEY = Some ''shotstack-key'',
      SHOTSTACK_OWNER_ID = Some ''owner-9''\<rparr>"

text \<open>Answers of the render vendor to a status poll.\<close>

definition pollAnswer :: "string \<Rightarrow> string option \<Rightarrow> string option \<Rightarrow> ShotstackStatusResponse response" where
  "pollAnswer st u e =
     Response 200 ''OK'' (Body [])
       (Body \<lparr>poll_success = True, poll_message = None,
              poll_response = Some \<lparr>poll_status = st, poll_url = u, poll_error = e\<rparr>\<rparr>)"

definition submitAccepted :: "ShotstackRenderResponse response" where
  "submitAccepted =
     Response 201 ''Created'' (Body [])
       (Body \<lparr>submit_success = True, submit_message = Some ''Created'',
              submit_response = Some \<lparr>submit_id = Some ''render-1'', submit_info = None\<rparr>\<rparr>)"

text \<open>A world in which every call of the slideshow worker succeeds and the render is done
  at the first poll.\<close>

definition demoSlideshowWorld :: slideshow_world where
  "demoSlideshowWorld =
     \<lparr>env = demoEnv,
      objectStore = demoStore,
      notificationAdd = None,
      renderSubmit = (\<lambda>b. submitAccepted),
      renderPoll = (\<lambda>k. pollAnswer ''done'' (Some ''https://shotstack-output.example/renders/video-1.mp4'') None),
      renderPollLatency = (\<lambda>k. 350),
      selectShotstackStatus = (\<lambda>k. Some ''rendering''),
      publicInsert = \<lparr>ins_data = Some (Some ''share-7''), ins_error = None\<rparr>,
      linkUpdateError = None\<rparr>"

definition demoSlideshowJob :: BirthdaySlideshowJobData where
  "demoSlideshowJob =
     \<lparr>jobId = ''J1'', userId = ''U1'', displayName = ''Mary'', message = Some ''Have a great day'',
      themeRenderUrl = ''https://cdn.example/theme.png'', myCardId = ''card-1'',
      initialThumbnailUrl = Some ''https://cdn.example/thumb.png'', bespokeBackgroundUrl = None,
      recipientName = ''Mary Ann'', selectedSongGenre = ''Hip Hop'', senderName = ''Bob'',
      imageUrls = [''https://img.example/1.jpg'', ''https://img.example/2.jpg'',
                   ''https://img.example/3.jpg'', ''https://img.example/4.jpg'',
                   ''https://img.example/5.jpg''],
      imageStoragePaths = [], imageBucket = ''images'',
      shotstackApiKey = Some ''shotstack-key'', shotstackOwnerId = Some ''owner-9'',
      webhookUrl = ''https://site.example/hook''\<rparr>"

text \<open>The merge fields that the demo job sends, and the same job with an empty second
  image URL.\<close>

definition demoFields :: fields where
  "demoFields =
     [(''name'', Some []),
      (''greetingbg'', Some ''https://cdn.example/theme.png''),
      (''happy'', Some []),
      (''alth'', Some ''Happy Birthday''),
      (''altn'', Some ''Mary''),
      (''message'', Some ''Have a great day''),
      (''sender'', Some ''Bob''),
      (''music'', Some ''https://smhbaudio547.s3/2024/Mary_Ann(HipHop)_50sec.mp3?expires=3600''),
      (''image1'', Some ''https://img.example/1.jpg''),
      (''image2'', Some ''https://img.example/2.jpg''),
      (''image3'', Some ''https://img.example/3.jpg''),
      (''image4'', Some ''https://img.example/4.jpg''),
      (''image5'', Some ''https://img.example/5.jpg''),
      (''image6'', Some ''https://img.example/3.jpg''),
      (''image7'', Some ''https://img.example/1.jpg'')]"

definition secondEmptyJob :: BirthdaySlideshowJobData where
  "secondEmptyJob =
     demoSlideshowJob\<lparr>imageUrls := [''https://img.example/1.jpg'', [], ''https://img.example/3.jpg'',
                                     ''https://img.example/4.jpg'']\<rparr>"

definition secondEmptyFields :: fields where
  "secondEmptyFields =
     [(''name'', Some []),
      (''greetingbg'', Some ''https://cdn.example/theme.png''),
      (''happy'', Some []),
      (''alth'', Some ''Happy Birthday''),
      (''altn'', Some ''Mary''),
      (''message'', Some ''Have a great day''),
      (''sender'', Some ''Bob''),
      (''music'', Some ''https://smhbaudio547.s3/2024/Mary_Ann(HipHop)_50sec.mp3?expires=3600''),
      (''image1'', Some ''https://img.example/1.jpg''),
      (''image2'', Some []),
      (''image3'', Some ''https://img.example/3.jpg''),
      (''image4'', Some ''https://img.example/4.jpg''),
      (''image5'', Some ''https://img.example/1.jpg''),
      (''image6'', Some ''https://img.example/3.jpg''),
      (''image7'', Some ''https://img.example/1.jpg'')]"

text \<open>The slideshow world in which the render never leaves the status \<^verbatim>\<open>rendering\<close>; each
  round takes 350 milliseconds beyond its timer.\<close>

definition stuckSlideshowWorld :: slideshow_world where
  "stuckSlideshowWorld = demoSlideshowWorld\<lparr>renderPoll := (\<lambda>k. pollAnswer ''rendering'' None None)\<rparr>"

text \<open>Answers of the video vendor, and a world in which every call of the singing selfie
  worker succeeds: the generation is complete at the second poll and the render is done at
  the first.\<close>

definition okResponse :: "'a \<Rightarrow> 'a response" where
  "okResponse x = Response 200 ''OK'' (Body []) (Body x)"

definition hedraAnswer :: "string \<Rightarrow> string option \<Rightarrow> string option \<Rightarrow> HedraGenerationStatus response" where
  "hedraAnswer st u e =
     okResponse \<lparr>hedra_status = st, hedra_url = u, hedra_error_message = e, hedra_asset_id = None\<rparr>"

definition demoSelfieStore :: s3_client where
  "demoSelfieStore =
     \<lparr>listObjects = (\<lambda>bucket.
        ListPage (Some [Some ''Mary_Ann(HipHop)_30sec.mp3'', Some ''Mary_Ann(HipHop)_30sec_hedra.mp3'']) None),
      getSignedUrl = (\<lambda>bucket key expiresIn. Some (''https://'' @ bucket @ ''.s3/'' @ key))\<rparr>"

definition demoSelfieWorld :: selfie_world where
  "demoSelfieWorld =
     \<lparr>env = demoEnv,
      objectStore = demoSelfieStore,
      notificationAdd = None,
      renderSubmit = (\<lambda>b. submitAccepted),
      renderPoll = (\<lambda>k. pollAnswer ''done'' (Some ''https://shotstack-output.example/renders/video-1.mp4'') None),
      renderPollLatency = (\<lambda>k. 350),
      dbUpdateError = (\<lambda>fs. None),
      sourceImageFetch = okResponse (),
      audioFetch = okResponse (),
      hedraModels = okResponse [Some ''model-1''],
      createImageAsset = okResponse ''image-asset-1'',
      imageUpload = okResponse (),
      createAudioAsset = okResponse ''audio-asset-1'',
      audioUpload = okResponse (),
      submitGeneration = okResponse ''0123abcd-0123-4567-89ab-0123456789ab'',
      hedraPoll = (\<lambda>k. if k = 0 then hedraAnswer ''processing'' None None
                        else hedraAnswer ''complete'' (Some ''https://hedra.example/video-1.mp4'') None),
      hedraPollLatency = (\<lambda>k. 0)\<rparr>"

definition demoSelfieJob :: SingingSelfieJobData where
  "demoSelfieJob =
     \<lparr>jobId = ''J1'', userId = ''U1'', displayName = ''Mary'', message = Some ''Have a great day'',
      themeRenderUrl = ''https://cdn.example/theme.png'', myCardId = ''card-1'',
      initialThumbnailUrl = Some ''https://cdn.example/thumb.png'', bespokeBackgroundUrl = None,
      sourceImageUrl = ''https://img.example/selfie.jpg'', inputImageName = ''selfie.jpg'',
      textPrompt = ''sing'', aspectRatio = ''1:1'', resolution = ''540p'', durationMs = None, seed = None,
      songName = ''Mary Ann'', yourName = ''Bob'', genre = ''Hip Hop''\<rparr>"

text \<open>The selfie world in which the generation never leaves the status \<^verbatim>\<open>processing\<close> and
  the requests take no time.\<close>

definition stuckSelfieWorld :: selfie_world where
  "stuckSelfieWorld = demoSelfieWorld\<lparr>hedraPoll := (\<lambda>k. hedraAnswer ''processing'' None None)\<rparr>"

text \<open>Variants of the slideshow world: the first two polls are answered with the status
  503 and the third reports a finished render; every poll is rejected by the network;
  the notification queue rejects the job; the insert of the public share fails.\<close>

definition flakyWorld :: slideshow_world where
  "flakyWorld =
     demoSlideshowWorld\<lparr>renderPoll := (\<lambda>k.
        if k < 2 then Response 503 ''Service Unavailable'' (Body ''upstream error'')
                        (Unreadable (Exn ''SyntaxError'' ''Unexpected token u in JSON at position 0''))
        else pollAnswer ''done'' (Some ''https://shotstack-output.example/renders/video-1.mp4'') None)\<rparr>"

definition networkErrorWorld :: slideshow_world where
  "networkErrorWorld =
     demoSlideshowWorld\<lparr>renderPoll := (\<lambda>k.
        Rejects (Exn ''FetchError'' ''request to https://api.shotstack.io/edit/v1/render/render-1 failed, reason: ECONNRESET''))\<rparr>"

definition enqueueFailsWorld :: slideshow_world where
  "enqueueFailsWorld = demoSlideshowWorld\<lparr>notificationAdd := Some (Error ''Connection is closed.'')\<rparr>"

definition insertFailsWorld :: slideshow_world where
  "insertFailsWorld =
     demoSlideshowWorld\<lparr>publicInsert := \<lparr>ins_data = None, ins_error = Some ''permission denied for table public_shared_cards''\<rparr>\<rparr>"

text \<open>A world in which every call of the face swap worker succeeds, the job of the
  scenario, the same job under a name that the worker does not know, and the world in
  which the key of the face swap vendor is not set.\<close>

definition demoFaceSwapWorld :: faceswap_world where
  "demoFaceSwapWorld =
     \<lparr>env = demoEnv,
      objectStore = emptyStore,
      notificationAdd = None,
      csvRecords = Some [\<lparr>ID = ''T0'', Name = ''Pirate'', Image = ''/templates/t0.jpg'',
                          RenderImage = ''/templates/t0_render.jpg''\<rparr>,
                         \<lparr>ID = ''T1'', Name = ''Astronaut'', Image = ''/templates/t1.jpg'',
                          RenderImage = ''/templates/t1_render.jpg''\<rparr>],
      resolveUrl = (\<lambda>path base. Some (base @ path)),
      imageFetch = (\<lambda>url. Response 200 ''OK'' (Body (''b64:'' @ url)) (Body ())),
      segmind = okResponse \<lparr>image = Some ''c3dhcHBlZA==''\<rparr>,
      s3PutError = None,
      faceswapInsert = \<lparr>ins_data = Some (Some ''row-42''), ins_error = None\<rparr>,
      updateDataError = None\<rparr>"

definition demoFaceSwapJob :: FaceSwapJob where
  "demoFaceSwapJob =
     \<lparr>job_id = Some ''J1'', job_name = ''generate'',
      data_imageUrl = Some ''https://img.example/selfie.jpg'',
      data_templateId = Some ''T1'', data_userId = Some ''U1''\<rparr>"

definition cleanupJob :: FaceSwapJob where
  "cleanupJob = demoFaceSwapJob\<lparr>job_name := ''cleanup''\<rparr>"

definition noVendorKeyWorld :: faceswap_world where
  "noVendorKeyWorld = demoFaceSwapWorld\<lparr>env := demoEnv\<lparr>SEGMIND_API_KEY := None\<rparr>\<rparr>"

text \<open>The selfie world in which the generation is reported as processing at the first
  poll and as failed, with a reason, at the second.\<close>

definition hedraErrorWorld :: selfie_world where
  "hedraErrorWorld =
     demoSelfieWorld\<lparr>hedraPoll := (\<lambda>k. if k = 0 then hedraAnswer ''processing'' None None
                                          else hedraAnswer ''error'' None (Some ''No face detected in the image''))\<rparr>"

section \<open>The asset resolver\<close>

lemma str_includes_sublist: "str_includes key pat = sublist pat key"
  by (induction key) (simp_all add: sublist_Cons_right)

lemma str_includes_iff: "str_includes key pat \<longleftrightarrow> (\<exists>ps ss. key = ps @ pat @ ss)"
  by (simp add: str_includes_sublist sublist_def)

lemma str_includes_nonempty: "str_includes key pat \<Longrightarrow> pat \<noteq> [] \<Longrightarrow> key \<noteq> []"
  by (cases key) auto

lemma firstMatch_append:
  "firstMatch pat (xs @ ys) = (case firstMatch pat xs of Some k \<Rightarrow> Some k | None \<Rightarrow> firstMatch pat ys)"
  by (induction xs) (auto split: option.splits)

lemma firstMatch_None_iff:
  "firstMatch pat ks = None \<longleftrightarrow> (\<forall>key. Some key \<in> set ks \<longrightarrow> key = [] \<or> \<not> str_includes key pat)"
  by (induction ks) (auto split: option.splits)

lemma firstMatch_at:
  "i < length ks \<Longrightarrow> ks ! i = Some key \<Longrightarrow> key \<noteq> [] \<Longrightarrow> str_includes key pat
   \<Longrightarrow> (\<forall>j<i. \<forall>key'. ks ! j = Some key' \<longrightarrow> key' = [] \<or> \<not> str_includes key' pat)
   \<Longrightarrow> firstMatch pat ks = Some key"
proof (induction ks arbitrary: i)
  case Nil
  then show ?case by simp
next
  case (Cons k ks)
  show ?case
  proof (cases i)
    case 0
    with Cons.prems show ?thesis by simp
  next
    case (Suc i')
    from Cons.prems(5) Suc have head: "\<forall>key'. k = Some key' \<longrightarrow> key' = [] \<or> \<not> str_includes key' pat"
      by auto
    from Cons.prems(5) Suc have rest: "\<forall>j<i'. \<forall>key'. ks ! j = Some key' \<longrightarrow> key' = [] \<or> \<not> str_includes key' pat"
      by auto
    from Cons.prems Suc have "firstMatch pat ks = Some key"
      using Cons.IH [of i'] rest by simp
    with head show ?thesis by (auto split: option.splits)
  qed
qed

text \<open>The loop returns the signed URL of the first matching key of the listing; without
  a match it returns \<^verbatim>\<open>null\<close> when the listing ends and throws when a call fails.\<close>

lemma listLoop_result:
  "snd (listLoop s3 bucket pat expiresIn token l) =
     (case firstMatch pat (listedKeys l) of
        Some key \<Rightarrow> (case getSignedUrl s3 bucket key expiresIn of None \<Rightarrow> Inl () | Some url \<Rightarrow> Inr (Some url))
      | None \<Rightarrow> if listingSucceeds l then Inr None else Inl ())"
proof (induction l arbitrary: token)
  case ListFails
  then show ?case by simp
next
  case (ListPage contents nxt)
  show ?case
  proof (cases nxt)
    case None
    then show ?thesis by (auto split: option.splits)
  next
    case (Some p)
    obtain tok rest where p: "p = (tok, rest)" by (cases p)
    have IH: "\<And>t. snd (listLoop s3 bucket pat expiresIn t rest) =
     (case firstMatch pat (listedKeys rest) of
        Some key \<Rightarrow> (case getSignedUrl s3 bucket key expiresIn of None \<Rightarrow> Inl () | Some url \<Rightarrow> Inr (Some url))
      | None \<Rightarrow> if listingSucceeds rest then Inr None else Inl ())"
      using ListPage.IH [of p rest] Some p by simp
    show ?thesis
      using Some p IH [of "Some tok"]
      by (auto simp: firstMatch_append split: option.splits prod.splits)
  qed
qed

text \<open>The loop makes listing and signing calls only.\<close>

lemma listLoop_events:
  "e \<in> set (fst (listLoop s3 bucket pat expiresIn token l))
   \<Longrightarrow> (\<exists>t. e = S3List bucket t) \<or> (\<exists>k. e = S3Sign bucket k expiresIn)"
proof (induction l arbitrary: token)
  case ListFails
  then show ?case by simp
next
  case (ListPage contents nxt)
  show ?case
  proof (cases nxt)
    case None
    with ListPage.prems show ?thesis by (auto split: option.splits)
  next
    case (Some p)
    obtain tok rest where p: "p = (tok, rest)" by (cases p)
    have IH: "\<And>t. e \<in> set (fst (listLoop s3 bucket pat expiresIn t rest))
                \<Longrightarrow> (\<exists>t. e = S3List bucket t) \<or> (\<exists>k. e = S3Sign bucket k expiresIn)"
      using ListPage.IH [of p rest] Some p by simp
    show ?thesis
      using Some p IH [of "Some tok"] ListPage.prems
      by (auto split: option.splits prod.splits if_splits)
  qed
qed

lemma findFileInS3_result:
  "bucket \<noteq> [] \<Longrightarrow>
   snd (findFileInS3 (Some client) bucket name genreName sfx jid) =
     (case firstMatch (searchPattern name genreName sfx) (listedKeys (listObjects client bucket)) of
        Some key \<Rightarrow> getSignedUrl client bucket key 3600
      | None \<Rightarrow> None)"
  using listLoop_result [of client bucket "searchPattern name genreName sfx" 3600 None "listObjects client bucket"]
  by (auto simp: findFileInS3_def Let_def split: prod.splits option.splits sum.splits if_splits)

lemma findFileInS3_selfie_result:
  "bucket \<noteq> [] \<Longrightarrow>
   snd (findFileInS3_selfie (Some client) (Some bucket) name genreName sfx) =
     (case firstMatch (selfiePattern name genreName sfx) (listedKeys (listObjects client bucket)) of
        Some key \<Rightarrow> getSignedUrl client bucket key 1200
      | None \<Rightarrow> None)"
  using listLoop_result [of client bucket "selfiePattern name genreName sfx" 1200 None "listObjects client bucket"]
  by (auto simp: findFileInS3_selfie_def Let_def split: prod.splits option.splits sum.splits if_splits)

lemma searchPattern_eq:
  "searchPattern name genreName sfx =
     convertSpaceToUnderscore name @ ''('' @ filter (\<lambda>c. \<not> isWhitespace c) genreName @ '')'' @ sfx"
  by (simp add: searchPattern_def normalizeGenreForKey_def)

lemma selfiePattern_eq: "selfiePattern name genreName sfx = searchPattern name genreName sfx"
  by (simp add: searchPattern_eq selfiePattern_def)

lemma searchPattern_nonempty: "searchPattern name genreName sfx \<noteq> []"
  by (simp add: searchPattern_eq)

lemma findFileInS3_events:
  "bucket \<noteq> [] \<Longrightarrow>
   fst (findFileInS3 (Some client) bucket name genreName sfx jid) =
     fst (listLoop client bucket (searchPattern name genreName sfx) 3600 None (listObjects client bucket))
     @ (case snd (listLoop client bucket (searchPattern name genreName sfx) 3600 None (listObjects client bucket)) of
          Inr (Some url) \<Rightarrow> []
        | Inr None \<Rightarrow> [LogWarn (''[Worker Job '' @ jid @ ''] No S3 object found matching pattern: ''
                                     @ searchPattern name genreName sfx @ '' in bucket '' @ bucket)]
        | Inl _ \<Rightarrow> [LogError (''[Worker Job '' @ jid @ ''] Error searching S3 in findFileInS3 for pattern ''
                                 @ searchPattern name genreName sfx @ '':'')])"
  by (auto simp: findFileInS3_def Let_def split: prod.splits option.splits sum.splits)

lemma findFileInS3_selfie_events:
  "bucket \<noteq> [] \<Longrightarrow>
   fst (findFileInS3_selfie (Some client) (Some bucket) name genreName sfx) =
     fst (listLoop client bucket (selfiePattern name genreName sfx) 1200 None (listObjects client bucket))
     @ (case snd (listLoop client bucket (selfiePattern name genreName sfx) 1200 None (listObjects client bucket)) of
          Inr _ \<Rightarrow> []
        | Inl _ \<Rightarrow> [LogError ''Worker: Error searching S3 in findFileInS3:''])"
  by (auto simp: findFileInS3_selfie_def Let_def split: prod.splits option.splits sum.splits)

lemma listLoop_no_log: "LogError m \<notin> set (fst (listLoop s3 bucket pat expiresIn token l))"
  using listLoop_events [of "LogError m" s3 bucket pat expiresIn token l] by auto

section \<open>The submission of the slideshow worker\<close>

lemma listLoop_no_post:
  "listLoop c bucket p x t l = (es, r) \<Longrightarrow> HttpPost u b \<notin> set es"
  using listLoop_events [of "HttpPost u b" c bucket p x t l] by auto

lemma findFileInS3_no_post:
  "findFileInS3 s3 bucket name genreName sfx jid = (es, r) \<Longrightarrow> HttpPost u b \<notin> set es"
  by (auto simp: findFileInS3_def Let_def split: option.splits prod.splits sum.splits if_splits
        dest: listLoop_no_post)

lemma readSubmitResponse_logs: "list_all isLog (fst (readSubmitResponse jid r))"
  by (simp add: readSubmitResponse_def split: response.splits body.splits option.splits)

lemma logs_no_post: "list_all isLog es \<Longrightarrow> HttpPost u b \<notin> set es"
  by (auto simp: list_all_iff)

lemma submitToShotstack_post:
  assumes "HttpPost u b \<in> set (fst (submitToShotstack w jobData))"
  shows "u = renderApiUrl \<and> (\<exists>templateId musicS3Url.
            b = RenderBody templateId (textMergeFields jobData musicS3Url @ imageMergeFields jobData))"
proof -
  obtain es x where run: "findFileInS3 (slideshow_s3 w) ''smhbaudio547'' (recipientName jobData)
                           (selectedSongGenre jobData) ''_50sec.mp3'' (jobId jobData) = (es, x)"
    by (cases "findFileInS3 (slideshow_s3 w) ''smhbaudio547'' (recipientName jobData)
                 (selectedSongGenre jobData) ''_50sec.mp3'' (jobId jobData)")
  have no1: "HttpPost u b \<notin> set es"
    using run by (rule findFileInS3_no_post)
  have no2: "HttpPost u b \<notin> set (fst (readSubmitResponse j r))" for j r
    by (rule logs_no_post [OF readSubmitResponse_logs])
  have pre: "fst (prepend xs m) = xs @ fst m" for xs and m :: "string io"
    by (cases m) simp
  show ?thesis
    using assms run no1 no2
    by (auto simp: submitToShotstack_def throw_def Let_def pre split: if_splits option.splits)
qed

lemma imageMergeFields_empty:
  "imageUrls jobData = [] \<Longrightarrow>
   imageMergeFields jobData =
     [(''image1'', Some (themeRenderUrl jobData)), (''image2'', Some (themeRenderUrl jobData)),
      (''image3'', Some (themeRenderUrl jobData)), (''image4'', Some (themeRenderUrl jobData)),
      (''image5'', Some (themeRenderUrl jobData)), (''image6'', Some (themeRenderUrl jobData)),
      (''image7'', Some (themeRenderUrl jobData))]"
  by (simp add: imageMergeFields_def upt_rec showNat.simps)

lemma map_of_text_image:
  "k \<in> {''image1'', ''image2'', ''image3'', ''image4'', ''image5'', ''image6'', ''image7''} \<Longrightarrow>
   map_of (textMergeFields jobData musicS3Url @ fs) k = map_of fs k"
  by (auto simp: textMergeFields_def)

text \<open>Facts for running the model on concrete inputs.\<close>

lemmas resolver_eval =
  findFileInS3_def searchPattern_def normalizeGenreForKey_def isWhitespace_def showNat.simps

lemmas submit_eval =
  submitToShotstack_def slideshow_s3_def shotstackSlideshowTemplateMapping_def textMergeFields_def
  imageMergeFields_def getImageWithFallback_def element_def readSubmitResponse_def renderApiUrl_def
  ok_def throw_def Let_def resolver_eval

lemmas demo_eval =
  demoSlideshowWorld_def demoSlideshowJob_def demoEnv_def demoStore_def submitAccepted_def pollAnswer_def

lemma demo_submit:
  "submitToShotstack demoSlideshowWorld demoSlideshowJob =
     ([S3List ''smhbaudio547'' None, S3List ''smhbaudio547'' (Some ''page2''),
       S3Sign ''smhbaudio547'' ''2024/Mary_Ann(HipHop)_50sec.mp3'' 3600,
       HttpPost renderApiUrl (RenderBody ''0935cae7-e97d-41d3-b9af-ff583da909cf'' demoFields)],
      Inr ''render-1'')"
  by (simp add: submit_eval demo_eval demoFields_def)

lemma secondEmpty_submit:
  "submitToShotstack demoSlideshowWorld secondEmptyJob =
     ([S3List ''smhbaudio547'' None, S3List ''smhbaudio547'' (Some ''page2''),
       S3Sign ''smhbaudio547'' ''2024/Mary_Ann(HipHop)_50sec.mp3'' 3600,
       HttpPost renderApiUrl (RenderBody ''0935cae7-e97d-41d3-b9af-ff583da909cf'' secondEmptyFields)],
      Inr ''render-1'')"
  by (simp add: submit_eval demo_eval secondEmptyJob_def secondEmptyFields_def)

section \<open>The polling loops\<close>

lemma timeline_append [simp]: "timeline (xs @ ys) = timeline xs @ timeline ys"
  by (simp add: timeline_def map_filter_def)

lemma timeline_Nil [simp]: "timeline [] = []"
  by (simp add: timeline_def map_filter_def)

lemma timeline_Cons [simp]: "timeline (e # es) = (case timed e of None \<Rightarrow> timeline es | Some t \<Rightarrow> t # timeline es)"
  by (simp add: timeline_def map_filter_def split: option.splits)

lemma statusWrites_append [simp]: "statusWrites (xs @ ys) = statusWrites xs @ statusWrites ys"
  by (simp add: statusWrites_def map_filter_def)

lemma statusWrites_Nil [simp]: "statusWrites [] = []"
  by (simp add: statusWrites_def map_filter_def)

lemma statusWrites_Cons [simp]:
  "statusWrites (e # es) = (case statusWrite e of None \<Rightarrow> statusWrites es | Some s \<Rightarrow> s # statusWrites es)"
  by (simp add: statusWrites_def map_filter_def split: option.splits)

lemma fst_prepend [simp]: "fst (prepend xs m) = xs @ fst m"
  by (cases m) simp

lemma snd_prepend [simp]: "snd (prepend xs m) = snd m"
  by (cases m) simp

text \<open>One round of the slideshow loop after an answer that leaves the render pending.\<close>

lemma slideshowPoll_round:
  assumes "renderPending (renderPoll w k)" and "elapsed < pollingTimeout"
  shows "\<exists>es. slideshowPoll w jid ownerId rid k elapsed =
                 prepend es (slideshowPoll w jid ownerId rid (Suc k)
                               (elapsed + pollingInterval + renderPollLatency w k))
              \<and> timeline es = [Inl pollingInterval, Inr (statusUrl rid)]
              \<and> statusWrites es = []"
proof (cases "renderPoll w k")
  case (Rejects e)
  with assms show ?thesis by simp
next
  case (Response st stText tx js)
  show ?thesis
  proof (cases "ok st")
    case False
    show ?thesis
      by (subst slideshowPoll.simps, insert Response False assms(2), simp add: Let_def,
          intro exI conjI, rule refl, simp_all)
  next
    case True
    with Response assms obtain d where js: "js = Body d" by (cases js) auto
    show ?thesis
    proof (cases "poll_response d")
      case None
      show ?thesis
        by (subst slideshowPoll.simps, insert Response True js None assms(2), simp add: Let_def,
            intro exI conjI, rule refl, simp_all)
    next
      case (Some r)
      show ?thesis
      proof (cases "poll_success d")
        case False
        show ?thesis
          by (subst slideshowPoll.simps, insert Response True js Some False assms(2), simp add: Let_def,
              intro exI conjI, rule refl, simp_all)
      next
        case ps: True
        from assms(1) Response True js Some ps
        have notDone: "(poll_status r = ''done'' \<and> truthy (poll_url r)) = False"
          and notFailed: "poll_status r \<noteq> ''failed''"
          by auto
        show ?thesis
        proof (cases "Some (poll_status r) = selectShotstackStatus w k")
          case same: True
          show ?thesis
            by (subst slideshowPoll.simps, insert Response True js Some ps notFailed same assms(2),
                simp add: Let_def notDone, intro exI conjI, rule refl, simp_all)
        next
          case differs: False
          show ?thesis
            by (subst slideshowPoll.simps, insert Response True js Some ps notFailed differs assms(2),
                simp add: Let_def notDone, intro exI conjI, rule refl, simp_all)
        qed
      qed
    qed
  qed
qed


lemma renderElapsed_0 [simp]: "renderElapsed w k 0 = 0"
  by (simp add: renderElapsed_def)

lemma renderElapsed_Suc:
  "renderElapsed w k (Suc n) = pollingInterval + renderPollLatency w k + renderElapsed w (Suc k) n"
  by (simp add: renderElapsed_def sum.lessThan_Suc_shift del: sum.lessThan_Suc)

lemma renderElapsed_ge: "n * pollingInterval \<le> renderElapsed w k n"
proof (induction n arbitrary: k)
  case 0
  then show ?case by simp
next
  case (Suc n)
  from Suc [of "Suc k"] show ?case by (simp add: renderElapsed_Suc)
qed

text \<open>When every answer leaves the render pending, the slideshow loop ends without a URL,
  at the first loop test at which the ceiling is reached.\<close>

lemma slideshowPoll_pending_forever:
  assumes "\<forall>j. renderPending (renderPoll w (k + j))"
  shows "\<exists>es n. slideshowPoll w jid ownerId rid k e = (es, Inr (None, e + renderElapsed w k n))
           \<and> pollingTimeout \<le> e + renderElapsed w k n
           \<and> (\<forall>m<n. e + renderElapsed w k m < pollingTimeout)
           \<and> timeline es = concat (replicate n [Inl pollingInterval, Inr (statusUrl rid)])
           \<and> statusWrites es = []"
  using assms
proof (induction "pollingTimeout - e" arbitrary: k e rule: less_induct)
  case less
  show ?case
  proof (cases "e < pollingTimeout")
    case False
    then have "slideshowPoll w jid ownerId rid k e = ([], Inr (None, e))"
      by (subst slideshowPoll.simps) simp
    with False show ?thesis
      by (intro exI [of _ "[]"] exI [of _ 0]) simp
  next
    case True
    let ?e' = "e + pollingInterval + renderPollLatency w k"
    from less.prems have "renderPending (renderPoll w k)"
      by (metis add.right_neutral)
    from slideshowPoll_round [OF this True] obtain es1 where
      round: "slideshowPoll w jid ownerId rid k e = prepend es1 (slideshowPoll w jid ownerId rid (Suc k) ?e')"
      and t1: "timeline es1 = [Inl pollingInterval, Inr (statusUrl rid)]"
      and s1: "statusWrites es1 = []"
      by blast
    have smaller: "pollingTimeout - ?e' < pollingTimeout - e"
      using True by (simp add: pollingInterval_def)
    have later: "\<forall>j. renderPending (renderPoll w (Suc k + j))"
      using less.prems by (metis add_Suc_shift add_Suc)
    from less.hyps [OF smaller later] obtain es2 n2 where
      rest: "slideshowPoll w jid ownerId rid (Suc k) ?e' = (es2, Inr (None, ?e' + renderElapsed w (Suc k) n2))"
      and ceiling: "pollingTimeout \<le> ?e' + renderElapsed w (Suc k) n2"
      and before: "\<forall>m<n2. ?e' + renderElapsed w (Suc k) m < pollingTimeout"
      and t2: "timeline es2 = concat (replicate n2 [Inl pollingInterval, Inr (statusUrl rid)])"
      and s2: "statusWrites es2 = []"
      by blast
    have before': "e + renderElapsed w k m < pollingTimeout" if "m < Suc n2" for m
    proof (cases m)
      case 0
      with True show ?thesis by simp
    next
      case (Suc m')
      with that before show ?thesis
        by (simp add: renderElapsed_Suc add.assoc)
    qed
    show ?thesis
      using round rest ceiling before' t1 t2 s1 s2
      by (intro exI [of _ "es1 @ es2"] exI [of _ "Suc n2"]) (simp add: renderElapsed_Suc add.assoc)
  qed
qed

text \<open>Several rounds of the slideshow loop, each inside the ceiling and each with an answer
  that leaves the render pending.\<close>

lemma slideshowPoll_rounds:
  assumes "\<forall>j<n. renderPending (renderPoll w (k + j))"
      and "\<forall>m<n. e + renderElapsed w k m < pollingTimeout"
  shows "\<exists>es. slideshowPoll w jid ownerId rid k e =
                 prepend es (slideshowPoll w jid ownerId rid (k + n) (e + renderElapsed w k n))
              \<and> timeline es = concat (replicate n [Inl pollingInterval, Inr (statusUrl rid)])
              \<and> statusWrites es = []"
  using assms
proof (induction n arbitrary: k e)
  case 0
  show ?case
    by (intro exI [of _ "[]"]) (cases "slideshowPoll w jid ownerId rid k e", simp)
next
  case (Suc n)
  let ?e' = "e + pollingInterval + renderPollLatency w k"
  from Suc.prems(1) have "renderPending (renderPoll w k)"
    by (metis add.right_neutral zero_less_Suc)
  moreover from Suc.prems(2) have "e < pollingTimeout"
    by (metis add.right_neutral renderElapsed_0 zero_less_Suc)
  ultimately obtain es1 where
    round: "slideshowPoll w jid ownerId rid k e = prepend es1 (slideshowPoll w jid ownerId rid (Suc k) ?e')"
    and t1: "timeline es1 = [Inl pollingInterval, Inr (statusUrl rid)]"
    and s1: "statusWrites es1 = []"
    using slideshowPoll_round by blast
  have later: "\<forall>j<n. renderPending (renderPoll w (Suc k + j))"
    using Suc.prems(1) by (metis add_Suc_shift add_Suc Suc_less_eq)
  have inside: "\<forall>m<n. ?e' + renderElapsed w (Suc k) m < pollingTimeout"
  proof (intro allI impI)
    fix m assume "m < n"
    then have "e + renderElapsed w k (Suc m) < pollingTimeout"
      using Suc.prems(2) by simp
    then show "?e' + renderElapsed w (Suc k) m < pollingTimeout"
      by (simp add: renderElapsed_Suc add.assoc)
  qed
  from Suc.IH [OF later inside] obtain es2 where
    rest: "slideshowPoll w jid ownerId rid (Suc k) ?e' =
             prepend es2 (slideshowPoll w jid ownerId rid (Suc k + n) (?e' + renderElapsed w (Suc k) n))"
    and t2: "timeline es2 = concat (replicate n [Inl pollingInterval, Inr (statusUrl rid)])"
    and s2: "statusWrites es2 = []"
    by blast
  have pp: "prepend es1 (prepend es2 m) = prepend (es1 @ es2) m" for m :: "(string option \<times> nat) io"
    by (cases m) simp
  show ?case
    using round rest t1 t2 s1 s2
    by (intro exI [of _ "es1 @ es2"]) (simp add: renderElapsed_Suc add.assoc pp)
qed

text \<open>The round in which the vendor reports a finished render with its URL.\<close>

lemma slideshowPoll_done:
  assumes "renderPoll w k = Response st stText tx (Body d)" and "ok st" and "poll_success d"
      and "poll_response d = Some r" and "poll_status r = ''done''" and "poll_url r = Some u" and "u \<noteq> []"
      and "e < pollingTimeout"
  shows "slideshowPoll w jid ownerId rid k e =
           ([Sleep pollingInterval, HttpGet (statusUrl rid)],
            Inr (Some (cdnUrl ownerId u), e + pollingInterval + renderPollLatency w k))"
  by (subst slideshowPoll.simps, insert assms, simp add: Let_def)

text \<open>The round in which the request itself fails: the error leaves the loop.\<close>

lemma slideshowPoll_rejects:
  assumes "renderPoll w k = Rejects x" and "e < pollingTimeout"
  shows "slideshowPoll w jid ownerId rid k e = ([Sleep pollingInterval, HttpGet (statusUrl rid)], Inl x)"
  by (subst slideshowPoll.simps, insert assms, simp add: Let_def)

text \<open>One round of the compositing loop of the selfie worker after an answer that leaves the render pending.\<close>

lemma selfiePoll_round:
  assumes "renderPending (renderPoll w k)" and "elapsed < pollingTimeout"
  shows "\<exists>es. selfiePoll w logPrefix ownerId rid k elapsed =
                 prepend es (selfiePoll w logPrefix ownerId rid (Suc k)
                               (elapsed + pollingInterval + renderPollLatency w k))
              \<and> timeline es = [Inl pollingInterval, Inr (statusUrl rid)]
              \<and> statusWrites es = []"
proof (cases "renderPoll w k")
  case (Rejects e)
  with assms show ?thesis by simp
next
  case (Response st stText tx js)
  show ?thesis
  proof (cases "ok st")
    case False
    show ?thesis
      by (subst selfiePoll.simps, insert Response False assms(2), simp add: Let_def,
          intro exI conjI, rule refl, simp_all)
  next
    case True
    with Response assms obtain d where js: "js = Body d" by (cases js) auto
    show ?thesis
    proof (cases "poll_response d")
      case None
      show ?thesis
        by (subst selfiePoll.simps, insert Response True js None assms(2), simp add: Let_def,
            intro exI conjI, rule refl, simp_all)
    next
      case (Some r)
      show ?thesis
      proof (cases "poll_success d")
        case False
        show ?thesis
          by (subst selfiePoll.simps, insert Response True js Some False assms(2), simp add: Let_def,
              intro exI conjI, rule refl, simp_all)
      next
        case ps: True
        from assms(1) Response True js Some ps
        have notDone: "(poll_status r = ''done'' \<and> truthy (poll_url r)) = False"
          and notFailed: "poll_status r \<noteq> ''failed''"
          by auto
        show ?thesis
          by (subst selfiePoll.simps, insert Response True js Some ps notFailed assms(2),
              simp add: Let_def notDone, intro exI conjI, rule refl, simp_all)
      qed
    qed
  qed
qed



text \<open>When every answer leaves the render pending, the compositing loop of the selfie worker ends without a URL,
  at the first loop test at which the ceiling is reached.\<close>

lemma selfiePoll_pending_forever:
  assumes "\<forall>j. renderPending (renderPoll w (k + j))"
  shows "\<exists>es n. selfiePoll w logPrefix ownerId rid k e = (es, Inr (None, e + renderElapsed w k n))
           \<and> pollingTimeout \<le> e + renderElapsed w k n
           \<and> (\<forall>m<n. e + renderElapsed w k m < pollingTimeout)
           \<and> timeline es = concat (replicate n [Inl pollingInterval, Inr (statusUrl rid)])
           \<and> statusWrites es = []"
  using assms
proof (induction "pollingTimeout - e" arbitrary: k e rule: less_induct)
  case less
  show ?case
  proof (cases "e < pollingTimeout")
    case False
    then have "selfiePoll w logPrefix ownerId rid k e = ([], Inr (None, e))"
      by (subst selfiePoll.simps) simp
    with False show ?thesis
      by (intro exI [of _ "[]"] exI [of _ 0]) simp
  next
    case True
    let ?e' = "e + pollingInterval + renderPollLatency w k"
    from less.prems have "renderPending (renderPoll w k)"
      by (metis add.right_neutral)
    from selfiePoll_round [OF this True] obtain es1 where
      round: "selfiePoll w logPrefix ownerId rid k e = prepend es1 (selfiePoll w logPrefix ownerId rid (Suc k) ?e')"
      and t1: "timeline es1 = [Inl pollingInterval, Inr (statusUrl rid)]"
      and s1: "statusWrites es1 = []"
      by blast
    have smaller: "pollingTimeout - ?e' < pollingTimeout - e"
      using True by (simp add: pollingInterval_def)
    have later: "\<forall>j. renderPending (renderPoll w (Suc k + j))"
      using less.prems by (metis add_Suc_shift add_Suc)
    from less.hyps [OF smaller later] obtain es2 n2 where
      rest: "selfiePoll w logPrefix ownerId rid (Suc k) ?e' = (es2, Inr (None, ?e' + renderElapsed w (Suc k) n2))"
      and ceiling: "pollingTimeout \<le> ?e' + renderElapsed w (Suc k) n2"
      and before: "\<forall>m<n2. ?e' + renderElapsed w (Suc k) m < pollingTimeout"
      and t2: "timeline es2 = concat (replicate n2 [Inl pollingInterval, Inr (statusUrl rid)])"
      and s2: "statusWrites es2 = []"
      by blast
    have before': "e + renderElapsed w k m < pollingTimeout" if "m < Suc n2" for m
    proof (cases m)
      case 0
      with True show ?thesis by simp
    next
      case (Suc m')
      with that before show ?thesis
        by (simp add: renderElapsed_Suc add.assoc)
    qed
    show ?thesis
      using round rest ceiling before' t1 t2 s1 s2
      by (intro exI [of _ "es1 @ es2"] exI [of _ "Suc n2"]) (simp add: renderElapsed_Suc add.assoc)
  qed
qed

text \<open>Several rounds of the compositing loop of the selfie worker, each inside the ceiling and each with an answer
  that leaves the render pending.\<close>

lemma selfiePoll_rounds:
  assumes "\<forall>j<n. renderPending (renderPoll w (k + j))"
      and "\<forall>m<n. e + renderElapsed w k m < pollingTimeout"
  shows "\<exists>es. selfiePoll w logPrefix ownerId rid k e =
                 prepend es (selfiePoll w logPrefix ownerId rid (k + n) (e + renderElapsed w k n))
              \<and> timeline es = concat (replicate n [Inl pollingInterval, Inr (statusUrl rid)])
              \<and> statusWrites es = []"
  using assms
proof (induction n arbitrary: k e)
  case 0
  show ?case
    by (intro exI [of _ "[]"]) (cases "selfiePoll w logPrefix ownerId rid k e", simp)
next
  case (Suc n)
  let ?e' = "e + pollingInterval + renderPollLatency w k"
  from Suc.prems(1) have "renderPending (renderPoll w k)"
    by (metis add.right_neutral zero_less_Suc)
  moreover from Suc.prems(2) have "e < pollingTimeout"
    by (metis add.right_neutral renderElapsed_0 zero_less_Suc)
  ultimately obtain es1 where
    round: "selfiePoll w logPrefix ownerId rid k e = prepend es1 (selfiePoll w logPrefix ownerId rid (Suc k) ?e')"
    and t1: "timeline es1 = [Inl pollingInterval, Inr (statusUrl rid)]"
    and s1: "statusWrites es1 = []"
    using selfiePoll_round by blast
  have later: "\<forall>j<n. renderPending (renderPoll w (Suc k + j))"
    using Suc.prems(1) by (metis add_Suc_shift add_Suc Suc_less_eq)
  have inside: "\<forall>m<n. ?e' + renderElapsed w (Suc k) m < pollingTimeout"
  proof (intro allI impI)
    fix m assume "m < n"
    then have "e + renderElapsed w k (Suc m) < pollingTimeout"
      using Suc.prems(2) by simp
    then show "?e' + renderElapsed w (Suc k) m < pollingTimeout"
      by (simp add: renderElapsed_Suc add.assoc)
  qed
  from Suc.IH [OF later inside] obtain es2 where
    rest: "selfiePoll w logPrefix ownerId rid (Suc k) ?e' =
             prepend es2 (selfiePoll w logPrefix ownerId rid (Suc k + n) (?e' + renderElapsed w (Suc k) n))"
    and t2: "timeline es2 = concat (replicate n [Inl pollingInterval, Inr (statusUrl rid)])"
    and s2: "statusWrites es2 = []"
    by blast
  have pp: "prepend es1 (prepend es2 m) = prepend (es1 @ es2) m" for m :: "(string option \<times> nat) io"
    by (cases m) simp
  show ?case
    using round rest t1 t2 s1 s2
    by (intro exI [of _ "es1 @ es2"]) (simp add: renderElapsed_Suc add.assoc pp)
qed

text \<open>The round in which the vendor reports a finished render with its URL.\<close>

lemma selfiePoll_done:
  assumes "renderPoll w k = Response st stText tx (Body d)" and "ok st" and "poll_success d"
      and "poll_response d = Some r" and "poll_status r = ''done''" and "poll_url r = Some u" and "u \<noteq> []"
      and "e < pollingTimeout"
  shows "selfiePoll w logPrefix ownerId rid k e =
           ([Sleep pollingInterval, HttpGet (statusUrl rid)],
            Inr (Some (cdnUrl ownerId u), e + pollingInterval + renderPollLatency w k))"
  by (subst selfiePoll.simps, insert assms, simp add: Let_def)

text \<open>The round in which the request itself fails: the error leaves the loop.\<close>

lemma selfiePoll_rejects:
  assumes "renderPoll w k = Rejects x" and "e < pollingTimeout"
  shows "selfiePoll w logPrefix ownerId rid k e = ([Sleep pollingInterval, HttpGet (statusUrl rid)], Inl x)"
  by (subst selfiePoll.simps, insert assms, simp add: Let_def)

lemma hedraElapsed_0 [simp]: "hedraElapsed w k 0 = 0"
  by (simp add: hedraElapsed_def)

lemma hedraElapsed_Suc:
  "hedraElapsed w k (Suc n) = hedraPollLatency w k + 20000 + hedraElapsed w (Suc k) n"
  by (simp add: hedraElapsed_def sum.lessThan_Suc_shift del: sum.lessThan_Suc)

text \<open>One attempt of the loop of the video vendor after an answer that leaves the
  generation pending: the request, then the wait.\<close>

lemma hedraLoop_round:
  assumes "hedraPending (hedraPoll w a)" and "a < maxAttempts"
  shows "\<exists>es. hedraLoop w generationId a e =
                 prepend es (hedraLoop w generationId (Suc a) (e + hedraPollLatency w a + 20000))
              \<and> timeline es = [Inr (hedraStatusUrl generationId), Inl 20000]
              \<and> statusWrites es = []"
proof (cases "hedraPoll w a")
  case (Rejects x)
  with assms show ?thesis by simp
next
  case (Response st stText tx js)
  show ?thesis
  proof (cases "ok st")
    case False
    show ?thesis
      by (subst hedraLoop.simps, insert Response False assms(2), simp add: Let_def,
          intro exI conjI, rule refl, simp_all)
  next
    case True
    with Response assms obtain d where js: "js = Body d" by (cases js) auto
    from assms(1) Response True js
    have notDone: "(hedra_status d = ''complete'' \<and> truthy (hedra_url d)) = False"
      and notFailed: "hedra_status d \<noteq> ''error''"
      by auto
    show ?thesis
      by (subst hedraLoop.simps, insert Response True js notFailed assms(2),
          simp add: Let_def notDone, intro exI conjI, rule refl, simp_all)
  qed
qed

text \<open>When every answer leaves the generation pending, the loop makes all its attempts
  and returns \<^verbatim>\<open>null\<close>.\<close>

lemma hedraLoop_pending_forever:
  assumes "\<forall>j. hedraPending (hedraPoll w (a + j))"
  shows "\<exists>es. hedraLoop w generationId a e =
                 (es, Inr (None, e + hedraElapsed w a (maxAttempts - a)))
              \<and> timeline es = concat (replicate (maxAttempts - a) [Inr (hedraStatusUrl generationId), Inl 20000])
              \<and> statusWrites es = []"
  using assms
proof (induction "maxAttempts - a" arbitrary: a e)
  case 0
  then have "hedraLoop w generationId a e =
               ([LogError (''Worker: Hedra polling timed out after '' @ showNat maxAttempts @ '' attempts for ''
                           @ generationId)], Inr (None, e))"
    by (subst hedraLoop.simps) simp
  with 0 show ?case by simp
next
  case (Suc n)
  then have a: "a < maxAttempts" by simp
  from Suc.prems have "hedraPending (hedraPoll w a)"
    by (metis add.right_neutral)
  from hedraLoop_round [OF this a] obtain es1 where
    round: "hedraLoop w generationId a e =
              prepend es1 (hedraLoop w generationId (Suc a) (e + hedraPollLatency w a + 20000))"
    and t1: "timeline es1 = [Inr (hedraStatusUrl generationId), Inl 20000]"
    and s1: "statusWrites es1 = []"
    by blast
  have n: "n = maxAttempts - Suc a" using Suc.hyps(2) by simp
  have later: "\<forall>j. hedraPending (hedraPoll w (Suc a + j))"
    using Suc.prems by (metis add_Suc_shift add_Suc)
  from Suc.hyps(1) [OF n later] obtain es2 where
    rest: "hedraLoop w generationId (Suc a) (e + hedraPollLatency w a + 20000) =
             (es2, Inr (None, e + hedraPollLatency w a + 20000 + hedraElapsed w (Suc a) (maxAttempts - Suc a)))"
    and t2: "timeline es2 = concat (replicate (maxAttempts - Suc a) [Inr (hedraStatusUrl generationId), Inl 20000])"
    and s2: "statusWrites es2 = []"
    by blast
  have split: "maxAttempts - a = Suc (maxAttempts - Suc a)"
    using a by simp
  show ?case
    using round rest t1 t2 s1 s2
    by (intro exI [of _ "es1 @ es2"]) (simp add: split hedraElapsed_Suc add.assoc)
qed

text \<open>Several pending attempts.\<close>

lemma hedraLoop_rounds:
  assumes "\<forall>j<n. hedraPending (hedraPoll w (a + j))" and "a + n \<le> maxAttempts"
  shows "\<exists>es. hedraLoop w generationId a e =
                 prepend es (hedraLoop w generationId (a + n) (e + hedraElapsed w a n))
              \<and> timeline es = concat (replicate n [Inr (hedraStatusUrl generationId), Inl 20000])
              \<and> statusWrites es = []"
  using assms
proof (induction n arbitrary: a e)
  case 0
  show ?case
    by (intro exI [of _ "[]"]) (cases "hedraLoop w generationId a e", simp)
next
  case (Suc n)
  from Suc.prems(1) have "hedraPending (hedraPoll w a)"
    by (metis add.right_neutral zero_less_Suc)
  moreover from Suc.prems(2) have "a < maxAttempts" by simp
  ultimately obtain es1 where
    round: "hedraLoop w generationId a e =
              prepend es1 (hedraLoop w generationId (Suc a) (e + hedraPollLatency w a + 20000))"
    and t1: "timeline es1 = [Inr (hedraStatusUrl generationId), Inl 20000]"
    and s1: "statusWrites es1 = []"
    using hedraLoop_round by blast
  have later: "\<forall>j<n. hedraPending (hedraPoll w (Suc a + j))"
    using Suc.prems(1) by (metis add_Suc_shift add_Suc Suc_less_eq)
  have room: "Suc a + n \<le> maxAttempts" using Suc.prems(2) by simp
  from Suc.IH [OF later room] obtain es2 where
    rest: "hedraLoop w generationId (Suc a) (e + hedraPollLatency w a + 20000) =
             prepend es2 (hedraLoop w generationId (Suc a + n)
                            (e + hedraPollLatency w a + 20000 + hedraElapsed w (Suc a) n))"
    and t2: "timeline es2 = concat (replicate n [Inr (hedraStatusUrl generationId), Inl 20000])"
    and s2: "statusWrites es2 = []"
    by blast
  have pp: "prepend es1 (prepend es2 m) = prepend (es1 @ es2) m" for m :: "(string option \<times> nat) io"
    by (cases m) simp
  show ?case
    using round rest t1 t2 s1 s2
    by (intro exI [of _ "es1 @ es2"]) (simp add: hedraElapsed_Suc add.assoc pp)
qed

text \<open>The attempt in which the vendor reports its own failure: the reason goes to the
  log and the loop returns \<^verbatim>\<open>null\<close>.\<close>

lemma hedraLoop_error:
  assumes "hedraPoll w a = Response st stText tx (Body d)" and "ok st" and "hedra_status d = ''error''"
      and "a < maxAttempts"
  shows "hedraLoop w generationId a e =
           ([HttpGet (hedraStatusUrl generationId),
             LogError (''Worker: Hedra API generation failed: '' @ interpolate (hedra_error_message d))],
            Inr (None, e + hedraPollLatency w a))"
  by (subst hedraLoop.simps, insert assms, simp add: Let_def)

lemma hedraLoop_complete:
  assumes "hedraPoll w a = Response st stText tx (Body d)" and "ok st" and "hedra_status d = ''complete''"
      and "hedra_url d = Some u" and "u \<noteq> []" and "a < maxAttempts"
  shows "hedraLoop w generationId a e =
           ([HttpGet (hedraStatusUrl generationId)], Inr (Some u, e + hedraPollLatency w a))"
  by (subst hedraLoop.simps, insert assms, simp add: Let_def)

lemma hedraLoop_rejects:
  assumes "hedraPoll w a = Rejects x" and "a < maxAttempts"
  shows "hedraLoop w generationId a e = ([HttpGet (hedraStatusUrl generationId)], Inl x)"
  by (subst hedraLoop.simps, insert assms, simp add: Let_def)

lemma reportsStatus_pending:
  "reportsStatus s r \<Longrightarrow> s \<noteq> ''done'' \<Longrightarrow> s \<noteq> ''failed'' \<Longrightarrow> renderPending r"
  by (cases "(s, r)" rule: reportsStatus.cases) (auto split: option.splits)

lemma hedraReports_pending:
  "hedraReports s r \<Longrightarrow> s \<noteq> ''complete'' \<Longrightarrow> s \<noteq> ''error'' \<Longrightarrow> hedraPending r"
  by (cases "(s, r)" rule: hedraReports.cases) auto

lemma rounds_le_45:
  assumes "\<forall>m<n. renderElapsed w 0 m < pollingTimeout"
  shows "n \<le> 45"
proof (rule ccontr)
  assume "\<not> n \<le> 45"
  then have "45 < n" by simp
  with assms have "renderElapsed w 0 45 < pollingTimeout" by blast
  moreover have "45 * pollingInterval \<le> renderElapsed w 0 45"
    by (rule renderElapsed_ge)
  ultimately show False
    by (simp add: pollingInterval_def pollingTimeout_def)
qed

text \<open>The worlds in which a vendor never finishes.\<close>

lemma stuck_rendering: "reportsStatus ''rendering'' (renderPoll stuckSlideshowWorld k)"
  by (simp add: stuckSlideshowWorld_def pollAnswer_def ok_def)

lemma stuck_elapsed: "renderElapsed stuckSlideshowWorld 0 m = m * 20350"
  by (simp add: renderElapsed_def stuckSlideshowWorld_def demoSlideshowWorld_def pollingInterval_def)

lemma stuck_processing: "hedraReports ''processing'' (hedraPoll stuckSelfieWorld k)"
  by (simp add: stuckSelfieWorld_def hedraAnswer_def okResponse_def ok_def)

lemma stuck_hedra_elapsed: "hedraElapsed stuckSelfieWorld 0 m = m * 20000"
  by (simp add: hedraElapsed_def stuckSelfieWorld_def demoSelfieWorld_def)

lemma uuid_demo: "uuidMatch ''0123abcd-0123-4567-89ab-0123456789ab'' = Some ''0123abcd-0123-4567-89ab-0123456789ab''"
  by (simp add: uuidShape_def isHex_def)

lemma pollHedraGenerationStatus_uuid:
  "uuidMatch fullGenerationId = Some generationId \<Longrightarrow>
   pollHedraGenerationStatus w fullGenerationId = hedraLoop w generationId 0 0"
  by (simp add: pollHedraGenerationStatus_def)

section \<open>Runs of the slideshow worker\<close>

lemma httpFailure_renderPending: "httpFailure r \<Longrightarrow> renderPending r"
  by (cases r rule: renderPending.cases) auto

lemma httpFailure_hedraPending: "httpFailure r \<Longrightarrow> hedraPending r"
  by (cases r rule: hedraPending.cases) auto

lemma prepend_prepend: "prepend xs (prepend ys m) = prepend (xs @ ys) m"
  by (cases m) simp

lemma slideshowTry_rendered:
  assumes "truthy (shotstackApiKey jobData)" and "truthy (shotstackOwnerId jobData)"
      and "submitToShotstack w jobData = (es1, Inr rid)"
      and "slideshowPoll w (jobId jobData) (interpolate (shotstackOwnerId jobData)) rid 0 0
             = (es2, Inr (Some url, t))"
  shows "slideshowTry w jobData =
           prepend
             (DbUpdate ''my_cards''
                [(''status'', Some ''processing_slideshow''), (''shotstack_render_id'', None),
                 (''shotstack_status'', Some ''queued'')] ''job_id'' (jobId jobData)
              # es1
              @ DbUpdate ''my_cards''
                  [(''status'', Some ''rendering_slideshow''), (''shotstack_render_id'', Some rid),
                   (''shotstack_status'', Some ''rendering'')] ''job_id'' (jobId jobData)
              # es2
              @ DbUpdate ''my_cards''
                  [(''video_url'', Some url), (''status'', Some ''complete''),
                   (''shotstack_status'', Some ''complete'')] ''job_id'' (jobId jobData)
              # fst (createShareLink w jobData rid))
             (queueAdd w ''card-ready''
                [(''userId'', Some (userId jobData)), (''type'', Some ''card_ready''),
                 (''message'', Some (''Your Birthday Slideshow \"'' @ cardTitle jobData
                                     @ ''\" is ready! Click here to view.'')),
                 (''link'', Some (snd (createShareLink w jobData rid)))])"
  using assms
  by (simp add: slideshowTry_def io_then_def emit_def Let_def case_prod_beta prepend_prepend)

lemma slideshowTry_poll_throws:
  assumes "truthy (shotstackApiKey jobData)" and "truthy (shotstackOwnerId jobData)"
      and "submitToShotstack w jobData = (es1, Inr rid)"
      and "slideshowPoll w (jobId jobData) (interpolate (shotstackOwnerId jobData)) rid 0 0
             = (es2, Inl x)"
  shows "slideshowTry w jobData =
           (DbUpdate ''my_cards''
                [(''status'', Some ''processing_slideshow''), (''shotstack_render_id'', None),
                 (''shotstack_status'', Some ''queued'')] ''job_id'' (jobId jobData)
              # es1
              @ DbUpdate ''my_cards''
                  [(''status'', Some ''rendering_slideshow''), (''shotstack_render_id'', Some rid),
                   (''shotstack_status'', Some ''rendering'')] ''job_id'' (jobId jobData)
              # es2, Inl x)"
  using assms
  by (simp add: slideshowTry_def io_then_def emit_def Let_def)


lemma statusWrites_empty: "(\<And>e. e \<in> set es \<Longrightarrow> statusWrite e = None) \<Longrightarrow> statusWrites es = []"
  by (induction es) auto

lemma listLoop_statusWrites: "statusWrites (fst (listLoop s3 bucket pat expiresIn token l)) = []"
proof (rule statusWrites_empty)
  fix e assume "e \<in> set (fst (listLoop s3 bucket pat expiresIn token l))"
  then show "statusWrite e = None"
    by (auto dest!: listLoop_events)
qed

lemma findFileInS3_statusWrites:
  "statusWrites (fst (findFileInS3 s3 bucket name genreName sfx jid)) = []"
proof -
  have "statusWrites (fst (listLoop c bucket p x t l)) = []" for c p x t l
    by (rule listLoop_statusWrites)
  then have "listLoop c bucket p x t l = (es, r) \<Longrightarrow> statusWrites es = []" for c p x t l es r
    by (metis fst_conv)
  then show ?thesis
    by (auto simp: findFileInS3_def Let_def split: option.splits prod.splits sum.splits if_splits)
qed

lemma logs_statusWrites: "list_all isLog es \<Longrightarrow> statusWrites es = []"
proof (rule statusWrites_empty)
  fix e assume "list_all isLog es" and "e \<in> set es"
  then have "isLog e" by (simp add: list_all_iff)
  then show "statusWrite e = None" by (cases e) simp_all
qed

lemma submitToShotstack_statusWrites: "statusWrites (fst (submitToShotstack w jobData)) = []"
proof -
  have a: "findFileInS3 s3 b n g x j = (es, r) \<Longrightarrow> statusWrites es = []" for s3 b n g x j es r
    using findFileInS3_statusWrites [of s3 b n g x j] by simp
  have b: "statusWrites (fst (readSubmitResponse j r)) = []" for j r
    by (rule logs_statusWrites [OF readSubmitResponse_logs])
  show ?thesis
    by (auto simp: submitToShotstack_def throw_def Let_def a b split: if_splits option.splits prod.splits)
qed

lemma slideshowPoll_statusWrites: "statusWrites (fst (slideshowPoll w jid ownerId rid k e)) = []"
proof (induction w jid ownerId rid k e rule: slideshowPoll.induct)
  case (1 w jid ownerId rid k elapsed)
  show ?case
    by (subst slideshowPoll.simps)
       (use 1 in \<open>auto simp: Let_def split: response.splits body.splits option.splits\<close>)
qed

lemma demo_keys: "truthy (shotstackApiKey demoSlideshowJob)" "truthy (shotstackOwnerId demoSlideshowJob)"
  by (simp_all add: demoSlideshowJob_def)

lemma birthdaySlideshowWorker_poll_throws:
  assumes "truthy (shotstackApiKey jobData)" and "truthy (shotstackOwnerId jobData)"
      and "submitToShotstack w jobData = (es1, Inr rid)"
      and "slideshowPoll w (jobId jobData) (interpolate (shotstackOwnerId jobData)) rid 0 0
             = (es2, Inl x)"
  shows "snd (birthdaySlideshowWorker w jobData) = Inl x"
    and "statusWrites (fst (birthdaySlideshowWorker w jobData))
           = [''processing_slideshow'', ''rendering_slideshow''] @ statusWrites es2 @ [''failed'']"
    and "timeline (fst (birthdaySlideshowWorker w jobData)) = timeline es1 @ timeline es2"
  using submitToShotstack_statusWrites [of w jobData] assms(3)
  by (simp_all add: birthdaySlideshowWorker_def slideshowTry_poll_throws [OF assms]
        io_then_def emit_def throw_def)

lemma createShareLink_quiet:
  "statusWrites (fst (createShareLink w jobData rid)) = []"
  "timeline (fst (createShareLink w jobData rid)) = []"
  by (simp_all add: createShareLink_def Let_def split: option.splits)

lemma birthdaySlideshowWorker_rendered:
  assumes "truthy (shotstackApiKey jobData)" and "truthy (shotstackOwnerId jobData)"
      and "submitToShotstack w jobData = (es1, Inr rid)"
      and "slideshowPoll w (jobId jobData) (interpolate (shotstackOwnerId jobData)) rid 0 0
             = (es2, Inr (Some url, t))"
  shows "snd (birthdaySlideshowWorker w jobData) = (case notificationAdd w of None \<Rightarrow> Inr () | Some x \<Rightarrow> Inl x)"
    and "statusWrites (fst (birthdaySlideshowWorker w jobData))
           = [''processing_slideshow'', ''rendering_slideshow'', ''complete'']
             @ (case notificationAdd w of None \<Rightarrow> [] | Some x \<Rightarrow> [''failed''])"
    and "timeline (fst (birthdaySlideshowWorker w jobData)) = timeline es1 @ timeline es2"
  using submitToShotstack_statusWrites [of w jobData] assms(3)
    slideshowPoll_statusWrites [of w "jobId jobData" "interpolate (shotstackOwnerId jobData)" rid 0 0] assms(4)
  by (simp_all add: birthdaySlideshowWorker_def slideshowTry_rendered [OF assms] createShareLink_quiet
        queueAdd_def io_then_def emit_def throw_def split: option.splits)


lemma submitToShotstack_rid_nonempty:
  assumes "submitToShotstack w jobData = (es, Inr rid)"
  shows "rid \<noteq> []"
proof -
  have t: "truthy v \<Longrightarrow> interpolate v \<noteq> []" for v
    by (cases v) simp_all
  have a: "snd (readSubmitResponse j r) = Inr x \<Longrightarrow> x \<noteq> []" for j r x
    by (auto simp: readSubmitResponse_def dest: t split: response.splits body.splits option.splits if_splits)
  have "snd (submitToShotstack w jobData) = Inr rid"
    using assms by simp
  then show ?thesis
    using a by (auto simp: submitToShotstack_def throw_def Let_def case_prod_beta split: if_splits option.splits)
qed

lemma slideshowPoll_done_answer:
  assumes "renderPoll w k = pollAnswer ''done'' (Some u) None" and "u \<noteq> []" and "e < pollingTimeout"
  shows "slideshowPoll w jid ownerId rid k e =
           ([Sleep pollingInterval, HttpGet (statusUrl rid)],
            Inr (Some (cdnUrl ownerId u), e + pollingInterval + renderPollLatency w k))"
  by (subst slideshowPoll.simps, insert assms, simp add: Let_def pollAnswer_def ok_def)

lemma flaky_elapsed: "renderElapsed flakyWorld 0 m = m * 20350"
  by (simp add: renderElapsed_def flakyWorld_def demoSlideshowWorld_def pollingInterval_def)

lemma demo_poll_done:
  assumes "renderPoll w 0 = pollAnswer ''done'' (Some ''https://shotstack-output.example/renders/video-1.mp4'') None"
  shows "slideshowPoll w (jobId demoSlideshowJob) (interpolate (shotstackOwnerId demoSlideshowJob)) ''render-1'' 0 0
           = ([Sleep pollingInterval, HttpGet (statusUrl ''render-1'')],
              Inr (Some (cdnUrl (interpolate (shotstackOwnerId demoSlideshowJob))
                           ''https://shotstack-output.example/renders/video-1.mp4''),
                   0 + pollingInterval + renderPollLatency w 0))"
  by (rule slideshowPoll_done_answer) (simp_all add: assms pollingTimeout_def)

text \<open>When the loop runs out of time the status \<^verbatim>\<open>failed\<close> is written twice: by the
  branch for the time-out and by the \<^verbatim>\<open>catch\<close> block.\<close>

lemma birthdaySlideshowWorker_timed_out:
  assumes "truthy (shotstackApiKey jobData)" and "truthy (shotstackOwnerId jobData)"
      and "submitToShotstack w jobData = (es1, Inr rid)"
      and "slideshowPoll w (jobId jobData) (interpolate (shotstackOwnerId jobData)) rid 0 0
             = (es2, Inr (None, t))"
  shows "snd (birthdaySlideshowWorker w jobData) = Inl (Error ''Shotstack polling timed out.'')"
    and "statusWrites (fst (birthdaySlideshowWorker w jobData))
           = [''processing_slideshow'', ''rendering_slideshow'', ''failed'', ''failed'']"
  using submitToShotstack_statusWrites [of w jobData] assms(3)
    slideshowPoll_statusWrites [of w "jobId jobData" "interpolate (shotstackOwnerId jobData)" rid 0 0] assms(4)
  by (simp_all add: birthdaySlideshowWorker_def slideshowTry_def Let_def assms(1,2) io_then_def emit_def
        throw_def Error_def)

section \<open>Runs of the singing selfie worker\<close>

lemma list_all_io_bind:
  "list_all P (fst m) \<Longrightarrow> (\<And>x. list_all P (fst (f x))) \<Longrightarrow> list_all P (fst (io_bind m f))"
  by (cases m; cases "snd m") (auto simp: list_all_iff)

lemma list_all_io_then:
  "list_all P (fst m) \<Longrightarrow> list_all P (fst n) \<Longrightarrow> list_all P (fst (io_then m n))"
  by (simp add: io_then_def list_all_io_bind)

lemma listLoop_no_submit: "list_all (\<lambda>e. \<not> isRenderSubmit e) (fst (listLoop s3 bucket pat expiresIn token l))"
  by (auto simp: list_all_iff dest!: listLoop_events)

lemma findFileInS3_selfie_no_submit:
  "list_all (\<lambda>e. \<not> isRenderSubmit e) (fst (findFileInS3_selfie s3 bucket name genreName sfx))"
proof -
  have "listLoop c b p x t l = (es, r) \<Longrightarrow> list_all (\<lambda>e. \<not> isRenderSubmit e) es" for c b p x t l es r
    using listLoop_no_submit [of c b p x t l] by simp
  then show ?thesis
    by (auto simp: findFileInS3_selfie_def Let_def split: option.splits prod.splits sum.splits)
qed

lemma hedra_not_render [simp]: "HEDRA_API_BASE_URL @ x \<noteq> renderApiUrl"
  by (simp add: HEDRA_API_BASE_URL_def renderApiUrl_def)

lemma selfieUpdate_no_submit: "list_all (\<lambda>e. \<not> isRenderSubmit e) (fst (selfieUpdate w jid fs warning))"
  by (simp add: selfieUpdate_def split: option.splits)

lemma getBuffer_no_submit: "list_all (\<lambda>e. \<not> isRenderSubmit e) (fst (getBuffer url r failure))"
  by (simp add: getBuffer_def throw_def ret_def split: response.splits body.splits)

lemma postJson_no_submit:
  "list_all (\<lambda>e. \<not> isRenderSubmit e) (fst (postJson (HEDRA_API_BASE_URL @ x) b r failure))"
  by (simp add: postJson_def throw_def ret_def split: response.splits body.splits)

lemma postUpload_no_submit:
  "list_all (\<lambda>e. \<not> isRenderSubmit e) (fst (postUpload (HEDRA_API_BASE_URL @ x) b r failure))"
  by (simp add: postUpload_def throw_def ret_def split: response.splits body.splits)

lemma fetchModelId_no_submit: "list_all (\<lambda>e. \<not> isRenderSubmit e) (fst (fetchModelId w logPrefix))"
  by (simp add: fetchModelId_def throw_def ret_def split: response.splits body.splits option.splits)

lemma selfiePrepare_no_submit: "list_all (\<lambda>e. \<not> isRenderSubmit e) (fst (selfiePrepare w job))"
  unfolding selfiePrepare_def Let_def
  apply (intro list_all_io_bind list_all_io_then selfieUpdate_no_submit getBuffer_no_submit
      postJson_no_submit postUpload_no_submit fetchModelId_no_submit)
  using findFileInS3_selfie_no_submit [of "selfie_s3 w" "AWS_BUCKET_HEDRA_AUDIO (env w)" "songName job" "genre job" "''_30sec_hedra.mp3''"]
  apply (auto split: prod.splits)
  done

lemma hedraLoop_no_submit: "list_all (\<lambda>e. \<not> isRenderSubmit e) (fst (hedraLoop w generationId a e))"
proof (induction w generationId a e rule: hedraLoop.induct)
  case (1 w generationId attempts elapsed)
  show ?case
    by (subst hedraLoop.simps)
       (use 1 in \<open>auto simp: Let_def split: response.splits body.splits\<close>)
qed


lemma selfieTry_hedra_error:
  assumes "selfiePrepare w job = (es1, Inr hedraGenerationId)"
      and "uuidMatch hedraGenerationId = Some generationId"
      and "\<forall>j<n. hedraPending (hedraPoll w j)" and "n < maxAttempts"
      and "hedraPoll w n = Response st stText tx (Body d)" and "ok st" and "hedra_status d = ''error''"
  shows "\<exists>es. selfieTry w job =
           (es1 @ es @ [HttpGet (hedraStatusUrl generationId),
                        LogError (''Worker: Hedra API generation failed: '' @ interpolate (hedra_error_message d))],
            Inl (Error (''Hedra video generation failed or timed out for Hedra job '' @ hedraGenerationId)))
         \<and> timeline es = concat (replicate n [Inr (hedraStatusUrl generationId), Inl 20000])
         \<and> list_all (\<lambda>e. \<not> isRenderSubmit e) es"
proof -
  have pending: "\<forall>j<n. hedraPending (hedraPoll w (0 + j))"
    using assms(3) by simp
  have inside: "0 + n \<le> maxAttempts"
    using assms(4) by simp
  from hedraLoop_rounds [OF pending inside, of generationId 0]
  obtain es where
    rounds: "hedraLoop w generationId 0 0 = prepend es (hedraLoop w generationId (0 + n) (0 + hedraElapsed w 0 n))"
    and tl: "timeline es = concat (replicate n [Inr (hedraStatusUrl generationId), Inl 20000])"
    by blast
  have last: "hedraLoop w generationId (0 + n) (0 + hedraElapsed w 0 n) =
           ([HttpGet (hedraStatusUrl generationId),
             LogError (''Worker: Hedra API generation failed: '' @ interpolate (hedra_error_message d))],
            Inr (None, 0 + hedraElapsed w 0 n + hedraPollLatency w (0 + n)))"
    by (rule hedraLoop_error) (use assms(4-7) in simp_all)
  have loop: "hedraLoop w generationId 0 0 =
           (es @ [HttpGet (hedraStatusUrl generationId),
             LogError (''Worker: Hedra API generation failed: '' @ interpolate (hedra_error_message d))],
            Inr (None, 0 + hedraElapsed w 0 n + hedraPollLatency w (0 + n)))"
    unfolding rounds last by simp
  have "list_all (\<lambda>e. \<not> isRenderSubmit e) (fst (hedraLoop w generationId 0 0))"
    by (rule hedraLoop_no_submit)
  then have quiet: "list_all (\<lambda>e. \<not> isRenderSubmit e) es"
    unfolding loop by simp
  have "selfieTry w job =
           (es1 @ es @ [HttpGet (hedraStatusUrl generationId),
                        LogError (''Worker: Hedra API generation failed: '' @ interpolate (hedra_error_message d))],
            Inl (Error (''Hedra video generation failed or timed out for Hedra job '' @ hedraGenerationId)))"
    by (simp add: selfieTry_def assms(1) pollHedraGenerationStatus_uuid [OF assms(2)] loop throw_def)
  with tl quiet show ?thesis by blast
qed

lemma selfie_checks:
  assumes "truthy (HEDRA_API_KEY (env w))" and "truthy (SHOTSTACK_API_KEY (env w))"
      and "truthy (SHOTSTACK_OWNER_ID (env w))" and "selfie_s3 w \<noteq> None"
      and "truthy (NEXT_PUBLIC_SUPABASE_URL (env w))" and "truthy (SUPABASE_SERVICE_ROLE_KEY (env w))"
  shows "singingSelfieWorker w job = tryCatch (selfieTry w job) (selfieCatch job)"
  using assms by (auto simp: singingSelfieWorker_def Let_def)

lemma hedraErrorWorld_prepare:
  "snd (selfiePrepare hedraErrorWorld demoSelfieJob) = Inr ''0123abcd-0123-4567-89ab-0123456789ab''"
  by (simp add: selfiePrepare_def Let_def io_then_def selfieUpdate_def getBuffer_def postJson_def postUpload_def
        fetchModelId_def element_def findFileInS3_selfie_def selfie_s3_def selfiePattern_def isWhitespace_def
        hedraErrorWorld_def demoSelfieWorld_def demoSelfieJob_def demoEnv_def demoSelfieStore_def okResponse_def
        ok_def ret_def throw_def)

section \<open>Claims about the asset resolver\<close>

text \<open>
  C4 (amended). The match of both versions of \<^verbatim>\<open>findFileInS3\<close> is containment of the
  pattern in a listed key as a contiguous run of characters, compared exactly (so case
  matters). The pattern is the name with every run of whitespace replaced by one underscore,
  then the category with its whitespace removed, in parentheses, then the suffix. For a
  non-empty bucket name, the first key in listing order over all pages that contains the
  pattern gives the result, the URL that the signer makes from this key; when no listed
  key contains the pattern the result is \<^verbatim>\<open>null\<close>.
\<close>

theorem findFileInS3_first_match:
  assumes "bucket \<noteq> []"
  shows "let keys = listedKeys (listObjects client bucket);
             pattern = convertSpaceToUnderscore name @ ''('' @ filter (\<lambda>c. \<not> isWhitespace c) genreName
                         @ '')'' @ sfx;
             slideshow = snd (findFileInS3 (Some client) bucket name genreName sfx jid);
             selfie = snd (findFileInS3_selfie (Some client) (Some bucket) name genreName sfx)
         in (\<forall>key. str_includes key pattern \<longleftrightarrow> (\<exists>ps ss. key = ps @ pattern @ ss))
          \<and> (\<forall>i key. i < length keys \<and> keys ! i = Some key \<and> str_includes key pattern
                 \<and> (\<forall>j<i. \<forall>key'. keys ! j = Some key' \<longrightarrow> \<not> str_includes key' pattern)
               \<longrightarrow> slideshow = getSignedUrl client bucket key 3600
                 \<and> selfie = getSignedUrl client bucket key 1200)
          \<and> ((\<forall>key. Some key \<in> set keys \<longrightarrow> \<not> str_includes key pattern)
               \<longrightarrow> slideshow = None \<and> selfie = None)"
proof -
  define keys where "keys = listedKeys (listObjects client bucket)"
  define pattern where "pattern = searchPattern name genreName sfx"
  have found: "firstMatch pattern keys = Some key"
    if "i < length keys" "keys ! i = Some key" "str_includes key pattern"
       "\<forall>j<i. \<forall>key'. keys ! j = Some key' \<longrightarrow> \<not> str_includes key' pattern" for i key
  proof (rule firstMatch_at [OF that(1) that(2) _ that(3)])
    show "key \<noteq> []"
      using that(3) searchPattern_nonempty str_includes_nonempty pattern_def by blast
    show "\<forall>j<i. \<forall>key'. keys ! j = Some key' \<longrightarrow> key' = [] \<or> \<not> str_includes key' pattern"
      using that(4) by blast
  qed
  have missing: "firstMatch pattern keys = None"
    if "\<forall>key. Some key \<in> set keys \<longrightarrow> \<not> str_includes key pattern"
    using that by (simp add: firstMatch_None_iff)
  have res1: "snd (findFileInS3 (Some client) bucket name genreName sfx jid) =
                (case firstMatch pattern keys of Some key \<Rightarrow> getSignedUrl client bucket key 3600 | None \<Rightarrow> None)"
    using assms by (simp add: findFileInS3_result keys_def pattern_def)
  have res2: "snd (findFileInS3_selfie (Some client) (Some bucket) name genreName sfx) =
                (case firstMatch pattern keys of Some key \<Rightarrow> getSignedUrl client bucket key 1200 | None \<Rightarrow> None)"
    using assms by (simp add: findFileInS3_selfie_result selfiePattern_eq keys_def pattern_def)
  have a: "\<forall>key. str_includes key pattern \<longleftrightarrow> (\<exists>ps ss. key = ps @ pattern @ ss)"
    by (simp add: str_includes_iff)
  have b: "\<forall>i key. i < length keys \<and> keys ! i = Some key \<and> str_includes key pattern
                 \<and> (\<forall>j<i. \<forall>key'. keys ! j = Some key' \<longrightarrow> \<not> str_includes key' pattern)
               \<longrightarrow> snd (findFileInS3 (Some client) bucket name genreName sfx jid) = getSignedUrl client bucket key 3600
                 \<and> snd (findFileInS3_selfie (Some client) (Some bucket) name genreName sfx) = getSignedUrl client bucket key 1200"
    using found by (auto simp: res1 res2)
  have c: "(\<forall>key. Some key \<in> set keys \<longrightarrow> \<not> str_includes key pattern)
               \<longrightarrow> snd (findFileInS3 (Some client) bucket name genreName sfx jid) = None
                 \<and> snd (findFileInS3_selfie (Some client) (Some bucket) name genreName sfx) = None"
    using missing by (auto simp: res1 res2)
  show ?thesis
    unfolding Let_def searchPattern_eq [symmetric] keys_def [symmetric] pattern_def [symmetric]
    using a b c by blast
qed


text \<open>The theorem at a store with two pages: the match is the first key of the second
  page; a key that differs in case is passed over.\<close>

theorem findFileInS3_first_match_witness:
  "''smhbaudio547'' \<noteq> []
   \<and> snd (findFileInS3 (Some demoStore) ''smhbaudio547'' ''Mary Ann'' ''Hip Hop'' ''_50sec.mp3'' ''J1'')
       = Some ''https://smhbaudio547.s3/2024/Mary_Ann(HipHop)_50sec.mp3?expires=3600''
   \<and> snd (findFileInS3_selfie (Some demoStore) (Some ''smhbaudio547'') ''Mary Ann'' ''Hip Hop'' ''_50sec.mp3'')
       = Some ''https://smhbaudio547.s3/2024/Mary_Ann(HipHop)_50sec.mp3?expires=1200''"
proof -
  have bucket: "''smhbaudio547'' \<noteq> []" by simp
  have keys: "listedKeys (listObjects demoStore ''smhbaudio547'') =
                [Some ''intro.mp3'', None, Some ''mary_ann(hiphop)_50sec.mp3'',
                 Some ''2024/Mary_Ann(HipHop)_50sec.mp3'', Some ''MaryAnn(HipHop)_50sec.mp3'']"
    by (simp add: demoStore_def)
  have pat: "convertSpaceToUnderscore ''Mary Ann'' @ ''('' @ filter (\<lambda>c. \<not> isWhitespace c) ''Hip Hop''
               @ '')'' @ ''_50sec.mp3'' = ''Mary_Ann(HipHop)_50sec.mp3''"
    by (simp add: isWhitespace_def)
  have earlier: "\<forall>j<3. \<forall>key'. [Some ''intro.mp3'', None, Some ''mary_ann(hiphop)_50sec.mp3'',
                 Some ''2024/Mary_Ann(HipHop)_50sec.mp3'', Some ''MaryAnn(HipHop)_50sec.mp3''] ! j = Some key'
                   \<longrightarrow> \<not> str_includes key' ''Mary_Ann(HipHop)_50sec.mp3''"
    by (auto simp: less_Suc_eq numeral_3_eq_3)
  have here: "str_includes ''2024/Mary_Ann(HipHop)_50sec.mp3'' ''Mary_Ann(HipHop)_50sec.mp3''"
    by simp
  have "snd (findFileInS3 (Some demoStore) ''smhbaudio547'' ''Mary Ann'' ''Hip Hop'' ''_50sec.mp3'' ''J1'')
          = getSignedUrl demoStore ''smhbaudio547'' ''2024/Mary_Ann(HipHop)_50sec.mp3'' 3600
      \<and> snd (findFileInS3_selfie (Some demoStore) (Some ''smhbaudio547'') ''Mary Ann'' ''Hip Hop'' ''_50sec.mp3'')
          = getSignedUrl demoStore ''smhbaudio547'' ''2024/Mary_Ann(HipHop)_50sec.mp3'' 1200"
    using findFileInS3_first_match [OF bucket, of demoStore "''Mary Ann''" "''Hip Hop''" "''_50sec.mp3''" "''J1''",
        unfolded Let_def keys pat, THEN conjunct2, THEN conjunct1, rule_format,
        of 3 "''2024/Mary_Ann(HipHop)_50sec.mp3''"]
      earlier here
    by simp
  then show ?thesis
    by (simp add: demoStore_def showNat.simps)
qed

text \<open>
  C4 as stated fails: with whitespace stripped from the name, the pattern of the claim for
  the name \<^verbatim>\<open>Mary Ann\<close> is contained in exactly one key of this listing, and both
  versions of \<^verbatim>\<open>findFileInS3\<close> return \<^verbatim>\<open>null\<close>.
\<close>

theorem findFileInS3_spec_pattern_counterexample:
  "str_includes ''MaryAnn(HipHop)_50sec.mp3'' (specPattern ''Mary Ann'' ''Hip Hop'' ''_50sec.mp3'')
   \<and> \<not> str_includes ''other(Pop)_50sec.mp3'' (specPattern ''Mary Ann'' ''Hip Hop'' ''_50sec.mp3'')
   \<and> listObjects strippedStore ''smhbaudio547''
       = ListPage (Some [Some ''other(Pop)_50sec.mp3'', Some ''MaryAnn(HipHop)_50sec.mp3'']) None
   \<and> snd (findFileInS3 (Some strippedStore) ''smhbaudio547'' ''Mary Ann'' ''Hip Hop'' ''_50sec.mp3'' ''J1'') = None
   \<and> snd (findFileInS3_selfie (Some strippedStore) (Some ''smhbaudio547'') ''Mary Ann'' ''Hip Hop'' ''_50sec.mp3'') = None"
  by (simp add: specPattern_def findFileInS3_def findFileInS3_selfie_def strippedStore_def searchPattern_def
        selfiePattern_def normalizeGenreForKey_def isWhitespace_def)

text \<open>
  C5 (amended). A failure of the listing call does not raise anything and is not told apart
  from a missing asset: when no key listed before the failure contains the pattern, both
  versions of \<^verbatim>\<open>findFileInS3\<close> return \<^verbatim>\<open>null\<close>, the value they return when the listing
  is read to its end without a match. The failure shows only in the log: the error line of
  the \<^verbatim>\<open>catch\<close> branch is written exactly when the listing fails.
\<close>

theorem findFileInS3_listing_failure:
  assumes "bucket \<noteq> []"
      and "\<forall>key. Some key \<in> set (listedKeys (listObjects client bucket))
                 \<longrightarrow> \<not> str_includes key (searchPattern name genreName sfx)"
  shows "snd (findFileInS3 (Some client) bucket name genreName sfx jid) = None
       \<and> snd (findFileInS3_selfie (Some client) (Some bucket) name genreName sfx) = None
       \<and> (LogError (''[Worker Job '' @ jid @ ''] Error searching S3 in findFileInS3 for pattern ''
                     @ searchPattern name genreName sfx @ '':'')
            \<in> set (fst (findFileInS3 (Some client) bucket name genreName sfx jid))
          \<longleftrightarrow> \<not> listingSucceeds (listObjects client bucket))
       \<and> (LogError ''Worker: Error searching S3 in findFileInS3:''
            \<in> set (fst (findFileInS3_selfie (Some client) (Some bucket) name genreName sfx))
          \<longleftrightarrow> \<not> listingSucceeds (listObjects client bucket))"
proof -
  have none: "firstMatch (searchPattern name genreName sfx) (listedKeys (listObjects client bucket)) = None"
    using assms(2) by (simp add: firstMatch_None_iff)
  have loop: "snd (listLoop client bucket (searchPattern name genreName sfx) e None (listObjects client bucket))
                = (if listingSucceeds (listObjects client bucket) then Inr None else Inl ())" for e
    by (simp add: listLoop_result none)
  have r1: "snd (findFileInS3 (Some client) bucket name genreName sfx jid) = None"
    using assms(1) none by (simp add: findFileInS3_result)
  have r2: "snd (findFileInS3_selfie (Some client) (Some bucket) name genreName sfx) = None"
    using assms(1) none by (simp add: findFileInS3_selfie_result selfiePattern_eq)
  have l1: "LogError (''[Worker Job '' @ jid @ ''] Error searching S3 in findFileInS3 for pattern ''
                     @ searchPattern name genreName sfx @ '':'')
            \<in> set (fst (findFileInS3 (Some client) bucket name genreName sfx jid))
          \<longleftrightarrow> \<not> listingSucceeds (listObjects client bucket)"
    using assms(1) by (simp add: findFileInS3_events loop listLoop_no_log)
  have l2: "LogError ''Worker: Error searching S3 in findFileInS3:''
            \<in> set (fst (findFileInS3_selfie (Some client) (Some bucket) name genreName sfx))
          \<longleftrightarrow> \<not> listingSucceeds (listObjects client bucket)"
    using assms(1) by (simp add: findFileInS3_selfie_events selfiePattern_eq loop listLoop_no_log)
  from r1 r2 l1 l2 show ?thesis by blast
qed

text \<open>The theorem at a store whose listing call fails.\<close>

theorem findFileInS3_listing_failure_witness:
  "''smhbaudio547'' \<noteq> []
   \<and> listedKeys (listObjects failingStore ''smhbaudio547'') = []
   \<and> \<not> listingSucceeds (listObjects failingStore ''smhbaudio547'')
   \<and> snd (findFileInS3 (Some failingStore) ''smhbaudio547'' ''Mary Ann'' ''Hip Hop'' ''_50sec.mp3'' ''J1'') = None
   \<and> LogError ''[Worker Job J1] Error searching S3 in findFileInS3 for pattern Mary_Ann(HipHop)_50sec.mp3:''
        \<in> set (fst (findFileInS3 (Some failingStore) ''smhbaudio547'' ''Mary Ann'' ''Hip Hop'' ''_50sec.mp3'' ''J1''))"
proof -
  have bucket: "''smhbaudio547'' \<noteq> []" by simp
  have nokey: "\<forall>key. Some key \<in> set (listedKeys (listObjects failingStore ''smhbaudio547''))
          \<longrightarrow> \<not> str_includes key (searchPattern ''Mary Ann'' ''Hip Hop'' ''_50sec.mp3'')"
    by (simp add: failingStore_def)
  have fails: "\<not> listingSucceeds (listObjects failingStore ''smhbaudio547'')"
    by (simp add: failingStore_def)
  have pat: "searchPattern ''Mary Ann'' ''Hip Hop'' ''_50sec.mp3'' = ''Mary_Ann(HipHop)_50sec.mp3''"
    by (simp add: searchPattern_def normalizeGenreForKey_def isWhitespace_def)
  have nokeys: "listedKeys (listObjects failingStore ''smhbaudio547'') = []"
    by (simp add: failingStore_def)
  have "snd (findFileInS3 (Some failingStore) ''smhbaudio547'' ''Mary Ann'' ''Hip Hop'' ''_50sec.mp3'' ''J1'') = None
      \<and> LogError ''[Worker Job J1] Error searching S3 in findFileInS3 for pattern Mary_Ann(HipHop)_50sec.mp3:''
            \<in> set (fst (findFileInS3 (Some failingStore) ''smhbaudio547'' ''Mary Ann'' ''Hip Hop'' ''_50sec.mp3'' ''J1''))"
    using findFileInS3_listing_failure [OF bucket nokey, of "''J1''"] fails
    by (simp add: pat)
  with bucket nokeys fails show ?thesis
    by blast
qed

text \<open>
  C5 as stated fails: a store whose listing call fails and a store without objects give
  the same result, \<^verbatim>\<open>null\<close>, and neither run throws.
\<close>

theorem findFileInS3_failure_counterexample:
  "listObjects failingStore ''smhbaudio547'' = ListFails
   \<and> listObjects emptyStore ''smhbaudio547'' = ListPage (Some []) None
   \<and> snd (findFileInS3 (Some failingStore) ''smhbaudio547'' ''Mary Ann'' ''Hip Hop'' ''_50sec.mp3'' ''J1'') = None
   \<and> snd (findFileInS3 (Some emptyStore) ''smhbaudio547'' ''Mary Ann'' ''Hip Hop'' ''_50sec.mp3'' ''J1'') = None
   \<and> snd (findFileInS3_selfie (Some failingStore) (Some ''smhbaudio547'') ''Mary Ann'' ''Hip Hop'' ''_30sec.mp3'') = None
   \<and> snd (findFileInS3_selfie (Some emptyStore) (Some ''smhbaudio547'') ''Mary Ann'' ''Hip Hop'' ''_30sec.mp3'') = None"
  by (simp add: findFileInS3_def findFileInS3_selfie_def failingStore_def emptyStore_def)

section \<open>Claims about the slideshow worker\<close>

text \<open>
  C9 (amended). Whenever \<^verbatim>\<open>submitToShotstack\<close> posts a render, the seven image merge
  fields of the body are as follows. With at least four image URLs: \<^verbatim>\<open>image1\<close> to
  \<^verbatim>\<open>image4\<close> are the elements 0 to 3; \<^verbatim>\<open>image5\<close> is element 4 if present and
  non-empty, else element 1 if non-empty, else element 0; \<^verbatim>\<open>image6\<close> is element 5 if
  present and non-empty, else element 2 if non-empty, else element 0; \<^verbatim>\<open>image7\<close> is
  element 6 if present and non-empty, else element 0; so every field is an element of the
  list. With no image URL, all seven fields are the theme render URL.
\<close>

theorem submitToShotstack_image_fields:
  assumes "HttpPost url (RenderBody templateId mergeFields) \<in> set (fst (submitToShotstack w jobData))"
  shows "let images = imageUrls jobData; field = map_of mergeFields in
         (4 \<le> length images \<longrightarrow>
            field ''image1'' = Some (Some (images ! 0))
          \<and> field ''image2'' = Some (Some (images ! 1))
          \<and> field ''image3'' = Some (Some (images ! 2))
          \<and> field ''image4'' = Some (Some (images ! 3))
          \<and> field ''image5'' = Some (Some (if 4 < length images \<and> images ! 4 \<noteq> [] then images ! 4
                                            else if images ! 1 \<noteq> [] then images ! 1 else images ! 0))
          \<and> field ''image6'' = Some (Some (if 5 < length images \<and> images ! 5 \<noteq> [] then images ! 5
                                            else if images ! 2 \<noteq> [] then images ! 2 else images ! 0))
          \<and> field ''image7'' = Some (Some (if 6 < length images \<and> images ! 6 \<noteq> [] then images ! 6
                                            else images ! 0))
          \<and> (\<forall>k \<in> {''image1'', ''image2'', ''image3'', ''image4'', ''image5'', ''image6'', ''image7''}.
                \<exists>u \<in> set images. field k = Some (Some u)))
       \<and> (images = [] \<longrightarrow>
            (\<forall>k \<in> {''image1'', ''image2'', ''image3'', ''image4'', ''image5'', ''image6'', ''image7''}.
                field k = Some (Some (themeRenderUrl jobData))))"
proof -
  obtain musicS3Url where fs: "mergeFields = textMergeFields jobData musicS3Url @ imageMergeFields jobData"
    using submitToShotstack_post [OF assms] by auto
  have field: "map_of mergeFields k = map_of (imageMergeFields jobData) k"
    if "k \<in> {''image1'', ''image2'', ''image3'', ''image4'', ''image5'', ''image6'', ''image7''}" for k
    unfolding fs using that by (rule map_of_text_image)
  have empty: "map_of mergeFields k = Some (Some (themeRenderUrl jobData))"
    if "imageUrls jobData = []"
       "k \<in> {''image1'', ''image2'', ''image3'', ''image4'', ''image5'', ''image6'', ''image7''}" for k
    using that field [OF that(2)] by (auto simp: imageMergeFields_empty)
  have full: "map_of mergeFields ''image1'' = Some (Some (imageUrls jobData ! 0))
          \<and> map_of mergeFields ''image2'' = Some (Some (imageUrls jobData ! 1))
          \<and> map_of mergeFields ''image3'' = Some (Some (imageUrls jobData ! 2))
          \<and> map_of mergeFields ''image4'' = Some (Some (imageUrls jobData ! 3))
          \<and> map_of mergeFields ''image5'' = Some (Some (if 4 < length (imageUrls jobData) \<and> imageUrls jobData ! 4 \<noteq> [] then imageUrls jobData ! 4
                                            else if imageUrls jobData ! 1 \<noteq> [] then imageUrls jobData ! 1 else imageUrls jobData ! 0))
          \<and> map_of mergeFields ''image6'' = Some (Some (if 5 < length (imageUrls jobData) \<and> imageUrls jobData ! 5 \<noteq> [] then imageUrls jobData ! 5
                                            else if imageUrls jobData ! 2 \<noteq> [] then imageUrls jobData ! 2 else imageUrls jobData ! 0))
          \<and> map_of mergeFields ''image7'' = Some (Some (if 6 < length (imageUrls jobData) \<and> imageUrls jobData ! 6 \<noteq> [] then imageUrls jobData ! 6
                                            else imageUrls jobData ! 0))"
    if "4 \<le> length (imageUrls jobData)"
  proof -
    from that have "imageUrls jobData \<noteq> []" by auto
    with that show ?thesis
      by (simp add: field imageMergeFields_def getImageWithFallback_def element_def Let_def)
  qed
  have member: "\<exists>u \<in> set (imageUrls jobData). map_of mergeFields k = Some (Some u)"
    if "4 \<le> length (imageUrls jobData)"
       "k \<in> {''image1'', ''image2'', ''image3'', ''image4'', ''image5'', ''image6'', ''image7''}" for k
    using that(2) full [OF that(1)] that(1) by (auto intro!: nth_mem)
  show ?thesis
    unfolding Let_def using empty full member by blast
qed

text \<open>The theorem at the demo job with five image URLs: \<^verbatim>\<open>image5\<close> is the fifth URL,
  \<^verbatim>\<open>image6\<close> falls back to the third and \<^verbatim>\<open>image7\<close> to the first.\<close>

theorem submitToShotstack_image_fields_witness:
  "HttpPost renderApiUrl (RenderBody ''0935cae7-e97d-41d3-b9af-ff583da909cf'' demoFields)
     \<in> set (fst (submitToShotstack demoSlideshowWorld demoSlideshowJob))
   \<and> length (imageUrls demoSlideshowJob) = 5
   \<and> map_of demoFields ''image4'' = Some (Some ''https://img.example/4.jpg'')
   \<and> map_of demoFields ''image5'' = Some (Some ''https://img.example/5.jpg'')
   \<and> map_of demoFields ''image6'' = Some (Some ''https://img.example/3.jpg'')
   \<and> map_of demoFields ''image7'' = Some (Some ''https://img.example/1.jpg'')"
proof -
  have sent: "HttpPost renderApiUrl (RenderBody ''0935cae7-e97d-41d3-b9af-ff583da909cf'' demoFields)
                \<in> set (fst (submitToShotstack demoSlideshowWorld demoSlideshowJob))"
    by (simp add: demo_submit)
  have images: "imageUrls demoSlideshowJob =
                  [''https://img.example/1.jpg'', ''https://img.example/2.jpg'',
                   ''https://img.example/3.jpg'', ''https://img.example/4.jpg'',
                   ''https://img.example/5.jpg'']"
    by (simp add: demoSlideshowJob_def)
  from submitToShotstack_image_fields [OF sent] sent show ?thesis
    unfolding Let_def images by simp
qed

text \<open>
  C9 as stated fails where the fallback element is empty: with four image URLs of which
  the second is the empty string, \<^verbatim>\<open>image5\<close> is not element 1 but element 0.
\<close>

theorem submitToShotstack_image5_counterexample:
  "imageUrls secondEmptyJob = [''https://img.example/1.jpg'', [], ''https://img.example/3.jpg'',
                               ''https://img.example/4.jpg'']
   \<and> HttpPost renderApiUrl (RenderBody ''0935cae7-e97d-41d3-b9af-ff583da909cf'' secondEmptyFields)
       \<in> set (fst (submitToShotstack demoSlideshowWorld secondEmptyJob))
   \<and> element (imageUrls secondEmptyJob) 4 = None
   \<and> element (imageUrls secondEmptyJob) 1 = Some []
   \<and> map_of secondEmptyFields ''image5'' = Some (Some ''https://img.example/1.jpg'')"
  by (simp add: secondEmpty_submit element_def) (simp add: secondEmptyJob_def demoSlideshowJob_def secondEmptyFields_def)

section \<open>Claims about the polling loops\<close>

text \<open>
  C2 (amended). The interval is 20 seconds and the ceiling is 15 minutes in the two loops
  that poll the render vendor (slideshow worker and singing selfie worker). When the vendor
  reports \<^verbatim>\<open>queued\<close>, \<^verbatim>\<open>rendering\<close> or \<^verbatim>\<open>processing\<close> at every poll, each of these loops
  waits 20 seconds before every poll and ends without a URL (timed out) at the first loop
  test at which 15 minutes or more have passed since the loop began, and at no earlier
  test; it makes at most 45 polls. The loop that polls the video vendor has no ceiling on
  time: when the vendor reports \<^verbatim>\<open>pending\<close> or \<^verbatim>\<open>processing\<close> at every poll, it makes
  exactly 30 polls, waits 20 seconds after each, and returns \<^verbatim>\<open>null\<close>.
\<close>

theorem polling_loops_time_out:
  fixes w :: "'a slideshow_world_scheme" and v :: "'b selfie_world_scheme"
  shows "pollingInterval = 20000 \<and> pollingTimeout = 900000 \<and> maxAttempts = 30
    \<and> ((\<forall>k. \<exists>s \<in> {''queued'', ''rendering'', ''processing''}. reportsStatus s (renderPoll w k)) \<longrightarrow>
         (\<exists>es n. slideshowPoll w jid ownerId rid 0 0 = (es, Inr (None, renderElapsed w 0 n))
            \<and> pollingTimeout \<le> renderElapsed w 0 n
            \<and> (\<forall>m<n. renderElapsed w 0 m < pollingTimeout)
            \<and> n \<le> 45
            \<and> timeline es = concat (replicate n [Inl pollingInterval, Inr (statusUrl rid)])))
    \<and> ((\<forall>k. \<exists>s \<in> {''queued'', ''rendering'', ''processing''}. reportsStatus s (renderPoll v k)) \<longrightarrow>
         (\<exists>es n. selfiePoll v logPrefix ownerId rid 0 0 = (es, Inr (None, renderElapsed v 0 n))
            \<and> pollingTimeout \<le> renderElapsed v 0 n
            \<and> (\<forall>m<n. renderElapsed v 0 m < pollingTimeout)
            \<and> n \<le> 45
            \<and> timeline es = concat (replicate n [Inl pollingInterval, Inr (statusUrl rid)])))
    \<and> ((\<forall>k. \<exists>s \<in> {''pending'', ''processing''}. hedraReports s (hedraPoll v k)) \<longrightarrow>
         (\<exists>es. hedraLoop v generationId 0 0 = (es, Inr (None, hedraElapsed v 0 maxAttempts))
            \<and> timeline es = concat (replicate maxAttempts [Inr (hedraStatusUrl generationId), Inl 20000])))"
proof -
  have slideshow: "\<exists>es n. slideshowPoll w jid ownerId rid 0 0 = (es, Inr (None, renderElapsed w 0 n))
            \<and> pollingTimeout \<le> renderElapsed w 0 n
            \<and> (\<forall>m<n. renderElapsed w 0 m < pollingTimeout)
            \<and> n \<le> 45
            \<and> timeline es = concat (replicate n [Inl pollingInterval, Inr (statusUrl rid)])"
    if "\<forall>k. \<exists>s \<in> {''queued'', ''rendering'', ''processing''}. reportsStatus s (renderPoll w k)"
  proof -
    from that have "\<forall>j. renderPending (renderPoll w (0 + j))"
      by (auto intro: reportsStatus_pending)
    from slideshowPoll_pending_forever [OF this, of jid ownerId rid 0]
    show ?thesis
      using rounds_le_45 by (auto simp: )
  qed
  have selfie: "\<exists>es n. selfiePoll v logPrefix ownerId rid 0 0 = (es, Inr (None, renderElapsed v 0 n))
            \<and> pollingTimeout \<le> renderElapsed v 0 n
            \<and> (\<forall>m<n. renderElapsed v 0 m < pollingTimeout)
            \<and> n \<le> 45
            \<and> timeline es = concat (replicate n [Inl pollingInterval, Inr (statusUrl rid)])"
    if "\<forall>k. \<exists>s \<in> {''queued'', ''rendering'', ''processing''}. reportsStatus s (renderPoll v k)"
  proof -
    from that have "\<forall>j. renderPending (renderPoll v (0 + j))"
      by (auto intro: reportsStatus_pending)
    from selfiePoll_pending_forever [OF this, of logPrefix ownerId rid 0]
    show ?thesis
      using rounds_le_45 by (auto simp: )
  qed
  have hedra: "\<exists>es. hedraLoop v generationId 0 0 = (es, Inr (None, hedraElapsed v 0 maxAttempts))
            \<and> timeline es = concat (replicate maxAttempts [Inr (hedraStatusUrl generationId), Inl 20000])"
    if "\<forall>k. \<exists>s \<in> {''pending'', ''processing''}. hedraReports s (hedraPoll v k)"
  proof -
    from that have "\<forall>j. hedraPending (hedraPoll v (0 + j))"
      by (auto intro: hedraReports_pending)
    from hedraLoop_pending_forever [OF this, of generationId 0]
    show ?thesis by auto
  qed
  show ?thesis
    using slideshow selfie hedra
    by (simp add: pollingInterval_def pollingTimeout_def maxAttempts_def)
qed

text \<open>The theorem at the world in which the render stays \<^verbatim>\<open>rendering\<close> and every round
  takes 20350 milliseconds: the loop gives up after 45 polls, 915750 milliseconds after it
  began.\<close>

theorem polling_loops_time_out_witness:
  "(\<forall>k. reportsStatus ''rendering'' (renderPoll stuckSlideshowWorld k))
   \<and> renderPollLatency stuckSlideshowWorld 7 = 350
   \<and> snd (slideshowPoll stuckSlideshowWorld ''J1'' ''owner-9'' ''render-1'' 0 0) = Inr (None, 915750)
   \<and> timeline (fst (slideshowPoll stuckSlideshowWorld ''J1'' ''owner-9'' ''render-1'' 0 0))
       = concat (replicate 45 [Inl 20000, Inr ''https://api.shotstack.io/edit/v1/render/render-1''])"
proof -
  have hyp: "\<forall>k. \<exists>s \<in> {''queued'', ''rendering'', ''processing''}. reportsStatus s (renderPoll stuckSlideshowWorld k)"
    using stuck_rendering by blast
  from polling_loops_time_out [of stuckSlideshowWorld "''J1''" "''owner-9''" "''render-1''"] hyp
  obtain es n where
    run: "slideshowPoll stuckSlideshowWorld ''J1'' ''owner-9'' ''render-1'' 0 0
            = (es, Inr (None, renderElapsed stuckSlideshowWorld 0 n))"
    and ceiling: "pollingTimeout \<le> renderElapsed stuckSlideshowWorld 0 n"
    and before: "\<forall>m<n. renderElapsed stuckSlideshowWorld 0 m < pollingTimeout"
    and line: "timeline es = concat (replicate n [Inl pollingInterval, Inr (statusUrl ''render-1'')])"
    by blast
  have "45 \<le> n"
    using ceiling by (simp add: stuck_elapsed pollingTimeout_def)
  moreover have "n \<le> 45"
  proof (rule ccontr)
    assume "\<not> n \<le> 45"
    then have "45 < n" by simp
    with before have "renderElapsed stuckSlideshowWorld 0 45 < pollingTimeout" by blast
    then show False by (simp add: stuck_elapsed pollingTimeout_def)
  qed
  ultimately have n: "n = 45" by simp
  have result: "snd (slideshowPoll stuckSlideshowWorld ''J1'' ''owner-9'' ''render-1'' 0 0) = Inr (None, 915750)"
    using run by (simp add: n stuck_elapsed)
  have waits: "timeline (fst (slideshowPoll stuckSlideshowWorld ''J1'' ''owner-9'' ''render-1'' 0 0))
                 = concat (replicate 45 [Inl 20000, Inr ''https://api.shotstack.io/edit/v1/render/render-1''])"
    using run line by (simp add: n pollingInterval_def statusUrl_def)
  have latency: "renderPollLatency stuckSlideshowWorld 7 = 350"
    by (simp add: stuckSlideshowWorld_def demoSlideshowWorld_def)
  from stuck_rendering latency result waits show ?thesis
    by blast
qed

text \<open>
  C2 as stated fails for the loop of \<^verbatim>\<open>pollHedraGenerationStatus\<close>: with the status
  \<^verbatim>\<open>processing\<close> at every poll and requests that take no time it returns \<^verbatim>\<open>null\<close>
  after 600000 milliseconds, before the 15 minutes have passed.
\<close>

theorem hedra_loop_ten_minutes_counterexample:
  "(\<forall>k. hedraReports ''processing'' (hedraPoll stuckSelfieWorld k))
   \<and> snd (pollHedraGenerationStatus stuckSelfieWorld ''0123abcd-0123-4567-89ab-0123456789ab'')
       = Inr (None, 600000)
   \<and> 600000 < pollingTimeout"
proof -
  have "\<forall>j. hedraPending (hedraPoll stuckSelfieWorld (0 + j))"
    using stuck_processing by (auto intro: hedraReports_pending)
  from hedraLoop_pending_forever [OF this, of "''0123abcd-0123-4567-89ab-0123456789ab''" 0]
  obtain es where
    run: "hedraLoop stuckSelfieWorld ''0123abcd-0123-4567-89ab-0123456789ab'' 0 0
            = (es, Inr (None, 0 + hedraElapsed stuckSelfieWorld 0 (maxAttempts - 0)))"
    by blast
  have time: "0 + hedraElapsed stuckSelfieWorld 0 (maxAttempts - 0) = 600000"
    by (simp add: stuck_hedra_elapsed maxAttempts_def)
  have result: "snd (pollHedraGenerationStatus stuckSelfieWorld ''0123abcd-0123-4567-89ab-0123456789ab'')
                  = Inr (None, 600000)"
    unfolding pollHedraGenerationStatus_uuid [OF uuid_demo] run time by (rule snd_conv)
  have below: "600000 < pollingTimeout"
    by (simp add: pollingTimeout_def)
  from stuck_processing result below show ?thesis
    by blast
qed

section \<open>Claims about a poll that fails\<close>

text \<open>
  Claim C6, as it holds. In each of the three polling loops a poll that is answered with an
  HTTP status that is not ok, such as a 5xx, is swallowed: after any number \<open>n\<close> of such
  polls in a row, made inside the ceiling of the loop, the loop is where it would be had
  it started at the next poll, it has waited 20 seconds for each of them and it has written
  no status. A poll whose request is rejected, as on a network error, is not caught by the
  loop: the error leaves the loop after that one request.
\<close>

theorem poll_http_failure_is_retried:
  fixes w :: "'a slideshow_world_scheme" and v :: "'b selfie_world_scheme"
  shows
    "((\<forall>j<n. httpFailure (renderPoll w (k + j))) \<and> (\<forall>m<n. e + renderElapsed w k m < pollingTimeout) \<longrightarrow>
        (\<exists>es. slideshowPoll w jid ownerId rid k e
                 = prepend es (slideshowPoll w jid ownerId rid (k + n) (e + renderElapsed w k n))
             \<and> timeline es = concat (replicate n [Inl pollingInterval, Inr (statusUrl rid)])
             \<and> statusWrites es = []))
   \<and> ((\<forall>j<n'. httpFailure (renderPoll v (k' + j))) \<and> (\<forall>m<n'. e' + renderElapsed v k' m < pollingTimeout) \<longrightarrow>
        (\<exists>es. selfiePoll v logPrefix ownerId' rid' k' e'
                 = prepend es (selfiePoll v logPrefix ownerId' rid' (k' + n') (e' + renderElapsed v k' n'))
             \<and> timeline es = concat (replicate n' [Inl pollingInterval, Inr (statusUrl rid')])
             \<and> statusWrites es = []))
   \<and> ((\<forall>j<c. httpFailure (hedraPoll v (a + j))) \<and> a + c \<le> maxAttempts \<longrightarrow>
        (\<exists>es. hedraLoop v generationId a t
                 = prepend es (hedraLoop v generationId (a + c) (t + hedraElapsed v a c))
             \<and> timeline es = concat (replicate c [Inr (hedraStatusUrl generationId), Inl 20000])
             \<and> statusWrites es = []))
   \<and> (renderPoll w k = Rejects x \<and> e < pollingTimeout \<longrightarrow>
        slideshowPoll w jid ownerId rid k e = ([Sleep pollingInterval, HttpGet (statusUrl rid)], Inl x))
   \<and> (renderPoll v k' = Rejects x' \<and> e' < pollingTimeout \<longrightarrow>
        selfiePoll v logPrefix ownerId' rid' k' e' = ([Sleep pollingInterval, HttpGet (statusUrl rid')], Inl x'))
   \<and> (hedraPoll v a = Rejects y \<and> a < maxAttempts \<longrightarrow>
        hedraLoop v generationId a t = ([HttpGet (hedraStatusUrl generationId)], Inl y))"
proof (intro conjI impI)
  assume "(\<forall>j<n. httpFailure (renderPoll w (k + j))) \<and> (\<forall>m<n. e + renderElapsed w k m < pollingTimeout)"
  then show "\<exists>es. slideshowPoll w jid ownerId rid k e
                 = prepend es (slideshowPoll w jid ownerId rid (k + n) (e + renderElapsed w k n))
             \<and> timeline es = concat (replicate n [Inl pollingInterval, Inr (statusUrl rid)])
             \<and> statusWrites es = []"
    by (intro slideshowPoll_rounds) (auto intro: httpFailure_renderPending)
next
  assume "(\<forall>j<n'. httpFailure (renderPoll v (k' + j))) \<and> (\<forall>m<n'. e' + renderElapsed v k' m < pollingTimeout)"
  then show "\<exists>es. selfiePoll v logPrefix ownerId' rid' k' e'
                 = prepend es (selfiePoll v logPrefix ownerId' rid' (k' + n') (e' + renderElapsed v k' n'))
             \<and> timeline es = concat (replicate n' [Inl pollingInterval, Inr (statusUrl rid')])
             \<and> statusWrites es = []"
    by (intro selfiePoll_rounds) (auto intro: httpFailure_renderPending)
next
  assume "(\<forall>j<c. httpFailure (hedraPoll v (a + j))) \<and> a + c \<le> maxAttempts"
  then show "\<exists>es. hedraLoop v generationId a t
                 = prepend es (hedraLoop v generationId (a + c) (t + hedraElapsed v a c))
             \<and> timeline es = concat (replicate c [Inr (hedraStatusUrl generationId), Inl 20000])
             \<and> statusWrites es = []"
    by (intro hedraLoop_rounds) (auto intro: httpFailure_hedraPending)
next
  assume "renderPoll w k = Rejects x \<and> e < pollingTimeout"
  then show "slideshowPoll w jid ownerId rid k e = ([Sleep pollingInterval, HttpGet (statusUrl rid)], Inl x)"
    by (intro slideshowPoll_rejects) auto
next
  assume "renderPoll v k' = Rejects x' \<and> e' < pollingTimeout"
  then show "selfiePoll v logPrefix ownerId' rid' k' e' = ([Sleep pollingInterval, HttpGet (statusUrl rid')], Inl x')"
    by (intro selfiePoll_rejects) auto
next
  assume "hedraPoll v a = Rejects y \<and> a < maxAttempts"
  then show "hedraLoop v generationId a t = ([HttpGet (hedraStatusUrl generationId)], Inl y)"
    by (intro hedraLoop_rejects) auto
qed

text \<open>The theorem at work: two polls answered with 503, then a finished render. The job
  completes after three polls.\<close>

theorem poll_http_failure_is_retried_witness:
  "httpFailure (renderPoll flakyWorld 0) \<and> httpFailure (renderPoll flakyWorld 1)
   \<and> snd (birthdaySlideshowWorker flakyWorld demoSlideshowJob) = Inr ()
   \<and> statusWrites (fst (birthdaySlideshowWorker flakyWorld demoSlideshowJob))
       = [''processing_slideshow'', ''rendering_slideshow'', ''complete'']
   \<and> timeline (fst (birthdaySlideshowWorker flakyWorld demoSlideshowJob))
       = [Inl 20000, Inr ''https://api.shotstack.io/edit/v1/render/render-1'',
          Inl 20000, Inr ''https://api.shotstack.io/edit/v1/render/render-1'',
          Inl 20000, Inr ''https://api.shotstack.io/edit/v1/render/render-1'']"
proof -
  have fails: "\<forall>j<2. httpFailure (renderPoll flakyWorld (0 + j))"
    by (simp add: flakyWorld_def ok_def)
  have inside: "\<forall>m<2. 0 + renderElapsed flakyWorld 0 m < pollingTimeout"
    by (simp add: flaky_elapsed pollingTimeout_def)
  from poll_http_failure_is_retried [where w = flakyWorld and n = 2 and k = 0 and e = 0
      and jid = "jobId demoSlideshowJob" and ownerId = "interpolate (shotstackOwnerId demoSlideshowJob)"
      and rid = "''render-1''"] fails inside
  obtain es where
    loop: "slideshowPoll flakyWorld (jobId demoSlideshowJob) (interpolate (shotstackOwnerId demoSlideshowJob))
             ''render-1'' 0 0
           = prepend es (slideshowPoll flakyWorld (jobId demoSlideshowJob)
                           (interpolate (shotstackOwnerId demoSlideshowJob)) ''render-1'' (0 + 2)
                           (0 + renderElapsed flakyWorld 0 2))"
    and tl: "timeline es = concat (replicate 2 [Inl pollingInterval, Inr (statusUrl ''render-1'')])"
    by blast
  have third: "slideshowPoll flakyWorld (jobId demoSlideshowJob) (interpolate (shotstackOwnerId demoSlideshowJob))
                 ''render-1'' (0 + 2) (0 + renderElapsed flakyWorld 0 2)
               = ([Sleep pollingInterval, HttpGet (statusUrl ''render-1'')],
                  Inr (Some (cdnUrl (interpolate (shotstackOwnerId demoSlideshowJob))
                               ''https://shotstack-output.example/renders/video-1.mp4''),
                       0 + renderElapsed flakyWorld 0 2 + pollingInterval + renderPollLatency flakyWorld (0 + 2)))"
  proof (rule slideshowPoll_done_answer)
    show "renderPoll flakyWorld (0 + 2)
            = pollAnswer ''done'' (Some ''https://shotstack-output.example/renders/video-1.mp4'') None"
      by (simp add: flakyWorld_def)
    show "0 + renderElapsed flakyWorld 0 2 < pollingTimeout"
      by (simp add: flaky_elapsed pollingTimeout_def)
  qed simp
  have sub: "submitToShotstack flakyWorld demoSlideshowJob
               = (fst (submitToShotstack demoSlideshowWorld demoSlideshowJob), Inr ''render-1'')"
    unfolding demo_submit by (simp add: submit_eval demo_eval flakyWorld_def demoFields_def)
  note run = birthdaySlideshowWorker_rendered [OF demo_keys sub loop [unfolded third prepend.simps]]
  have quiet: "notificationAdd flakyWorld = None"
    by (simp add: flakyWorld_def demoSlideshowWorld_def)
  have two: "replicate 2 x = [x, x]" for x :: "(nat + string) list"
    by (simp add: numeral_2_eq_2)
  show ?thesis
    using run fails tl by (simp add: quiet statusUrl_def demo_submit pollingInterval_def two)
qed

text \<open>Claim C6 as the spec words it does not hold for a network error: the error of the
  first poll fails the job, and no second poll is made.\<close>

theorem poll_network_error_counterexample:
  "snd (birthdaySlideshowWorker networkErrorWorld demoSlideshowJob)
     = Inl (Exn ''FetchError'' ''request to https://api.shotstack.io/edit/v1/render/render-1 failed, reason: ECONNRESET'')
   \<and> statusWrites (fst (birthdaySlideshowWorker networkErrorWorld demoSlideshowJob))
     = [''processing_slideshow'', ''rendering_slideshow'', ''failed'']
   \<and> timeline (fst (birthdaySlideshowWorker networkErrorWorld demoSlideshowJob))
     = [Inl 20000, Inr ''https://api.shotstack.io/edit/v1/render/render-1'']"
proof -
  have sub: "submitToShotstack networkErrorWorld demoSlideshowJob = (fst (submitToShotstack demoSlideshowWorld demoSlideshowJob), Inr ''render-1'')"
    unfolding demo_submit by (simp add: submit_eval demo_eval networkErrorWorld_def demoFields_def)
  have poll: "slideshowPoll networkErrorWorld (jobId demoSlideshowJob) (interpolate (shotstackOwnerId demoSlideshowJob)) ''render-1'' 0 0
      = ([Sleep pollingInterval, HttpGet (statusUrl ''render-1'')],
         Inl (Exn ''FetchError'' ''request to https://api.shotstack.io/edit/v1/render/render-1 failed, reason: ECONNRESET''))"
    by (rule slideshowPoll_rejects) (simp_all add: networkErrorWorld_def pollingTimeout_def)
  note run = birthdaySlideshowWorker_poll_throws [OF demo_keys sub poll]
  show ?thesis
    using run by (simp add: statusUrl_def demo_submit pollingInterval_def)
qed

section \<open>Claims about the status after the render\<close>

text \<open>
  Claim C1 asks that no status is written once the status is \<^verbatim>\<open>complete\<close>. The slideshow
  worker does not keep to it: the call that enqueues the notification is inside the
  \<^verbatim>\<open>try\<close> block and comes after the write of \<^verbatim>\<open>complete\<close>, so when the queue rejects
  the call the \<^verbatim>\<open>catch\<close> block writes \<^verbatim>\<open>failed\<close> over it. For every job whose render is
  submitted and polled to its URL and whose notification is rejected with the error \<open>x\<close>,
  the job ends with \<open>x\<close> and the statuses written are \<^verbatim>\<open>processing_slideshow\<close>,
  \<^verbatim>\<open>rendering_slideshow\<close>, \<^verbatim>\<open>complete\<close>, \<^verbatim>\<open>failed\<close>, in this order.
\<close>

theorem enqueue_failure_after_complete:
  assumes "truthy (shotstackApiKey jobData)" and "truthy (shotstackOwnerId jobData)"
      and "submitToShotstack w jobData = (es1, Inr rid)"
      and "slideshowPoll w (jobId jobData) (interpolate (shotstackOwnerId jobData)) rid 0 0
             = (es2, Inr (Some url, t))"
      and "notificationAdd w = Some x"
  shows "snd (birthdaySlideshowWorker w jobData) = Inl x
       \<and> statusWrites (fst (birthdaySlideshowWorker w jobData))
           = [''processing_slideshow'', ''rendering_slideshow'', ''complete'', ''failed'']"
  using birthdaySlideshowWorker_rendered(1,2) [OF assms(1-4)] assms(5) by simp

text \<open>The theorem on the demo job, with a queue whose connection is closed.\<close>

theorem enqueue_failure_after_complete_witness:
  "notificationAdd enqueueFailsWorld = Some (Error ''Connection is closed.'')
   \<and> snd (birthdaySlideshowWorker enqueueFailsWorld demoSlideshowJob) = Inl (Error ''Connection is closed.'')
   \<and> statusWrites (fst (birthdaySlideshowWorker enqueueFailsWorld demoSlideshowJob))
       = [''processing_slideshow'', ''rendering_slideshow'', ''complete'', ''failed'']"
proof -
  have sub: "submitToShotstack enqueueFailsWorld demoSlideshowJob
               = (fst (submitToShotstack demoSlideshowWorld demoSlideshowJob), Inr ''render-1'')"
    unfolding demo_submit by (simp add: submit_eval demo_eval enqueueFailsWorld_def demoFields_def)
  have poll: "renderPoll enqueueFailsWorld 0
                = pollAnswer ''done'' (Some ''https://shotstack-output.example/renders/video-1.mp4'') None"
    by (simp add: enqueueFailsWorld_def demoSlideshowWorld_def)
  have rejects: "notificationAdd enqueueFailsWorld = Some (Error ''Connection is closed.'')"
    by (simp add: enqueueFailsWorld_def)
  from enqueue_failure_after_complete [OF demo_keys sub demo_poll_done [OF poll] rejects] rejects
  show ?thesis by simp
qed

text \<open>
  Claim C7, for the slideshow worker. A job reaches the publish step when its render was
  submitted and the polling loop returned the URL of the video. If the job has a card id,
  the insert into \<^verbatim>\<open>public_shared_cards\<close> fails and the notification queue accepts the
  job, then the run ends, without an error, with these four events: the write of the status
  \<^verbatim>\<open>complete\<close>, the insert, the error log of the insert, and the notification
  \<^verbatim>\<open>card-ready\<close> whose link is the site root. The statuses written before are
  \<^verbatim>\<open>processing_slideshow\<close> and \<^verbatim>\<open>rendering_slideshow\<close>, so the last status written is
  \<^verbatim>\<open>complete\<close>.
\<close>

theorem publish_failure_keeps_complete:
  assumes "truthy (shotstackApiKey jobData)" and "truthy (shotstackOwnerId jobData)"
      and "submitToShotstack w jobData = (es1, Inr rid)"
      and "slideshowPoll w (jobId jobData) (interpolate (shotstackOwnerId jobData)) rid 0 0
             = (es2, Inr (Some url, t))"
      and "myCardId jobData \<noteq> []"
      and "ins_error (publicInsert w) = Some m"
      and "notificationAdd w = None"
  shows "\<exists>pre. birthdaySlideshowWorker w jobData =
           (pre @ [DbUpdate ''my_cards''
                     [(''video_url'', Some url), (''status'', Some ''complete''),
                      (''shotstack_status'', Some ''complete'')] ''job_id'' (jobId jobData),
                   DbInsert ''public_shared_cards''
                     [(''my_card_id'', Some (myCardId jobData)),
                      (''thumbnail_url'', initialThumbnailUrl jobData)],
                   LogError (''[Worker Job '' @ jobId jobData @ ''] Error inserting into public_shared_cards:''),
                   QueueAdd ''card-ready''
                     [(''userId'', Some (userId jobData)), (''type'', Some ''card_ready''),
                      (''message'', Some (''Your Birthday Slideshow \"'' @ cardTitle jobData
                                          @ ''\" is ready! Click here to view.'')),
                      (''link'', Some (siteRoot w))]],
            Inr ())
         \<and> statusWrites pre = [''processing_slideshow'', ''rendering_slideshow'']"
proof -
  have rid: "rid \<noteq> []"
    using assms(3) by (rule submitToShotstack_rid_nonempty)
  have link: "createShareLink w jobData rid =
                ([DbInsert ''public_shared_cards''
                     [(''my_card_id'', Some (myCardId jobData)),
                      (''thumbnail_url'', initialThumbnailUrl jobData)],
                  LogError (''[Worker Job '' @ jobId jobData @ ''] Error inserting into public_shared_cards:'')],
                 siteRoot w)"
    using rid assms(5,6) by (simp add: createShareLink_def Let_def)
  have s1: "statusWrites es1 = []"
    using submitToShotstack_statusWrites [of w jobData] assms(3) by simp
  have s2: "statusWrites es2 = []"
    using slideshowPoll_statusWrites [of w "jobId jobData" "interpolate (shotstackOwnerId jobData)" rid 0 0]
      assms(4) by simp
  show ?thesis
    by (rule exI [where x = "DbUpdate ''my_cards''
                [(''status'', Some ''processing_slideshow''), (''shotstack_render_id'', None),
                 (''shotstack_status'', Some ''queued'')] ''job_id'' (jobId jobData)
              # es1
              @ DbUpdate ''my_cards''
                  [(''status'', Some ''rendering_slideshow''), (''shotstack_render_id'', Some rid),
                   (''shotstack_status'', Some ''rendering'')] ''job_id'' (jobId jobData)
              # es2"])
       (simp add: birthdaySlideshowWorker_def slideshowTry_rendered [OF assms(1-4)] link queueAdd_def
          assms(7) s1 s2)
qed

text \<open>The theorem on the demo job, in the world whose insert is refused.\<close>

theorem publish_failure_keeps_complete_witness:
  "ins_error (publicInsert insertFailsWorld) = Some ''permission denied for table public_shared_cards''
   \<and> snd (birthdaySlideshowWorker insertFailsWorld demoSlideshowJob) = Inr ()
   \<and> statusWrites (fst (birthdaySlideshowWorker insertFailsWorld demoSlideshowJob))
       = [''processing_slideshow'', ''rendering_slideshow'', ''complete'']
   \<and> last (fst (birthdaySlideshowWorker insertFailsWorld demoSlideshowJob))
       = QueueAdd ''card-ready''
           [(''userId'', Some ''U1''), (''type'', Some ''card_ready''),
            (''message'', Some ''Your Birthday Slideshow \"Mary\" is ready! Click here to view.''),
            (''link'', Some ''https://site.example'')]"
proof -
  have sub: "submitToShotstack insertFailsWorld demoSlideshowJob
               = (fst (submitToShotstack demoSlideshowWorld demoSlideshowJob), Inr ''render-1'')"
    unfolding demo_submit by (simp add: submit_eval demo_eval insertFailsWorld_def demoFields_def)
  have poll: "renderPoll insertFailsWorld 0
                = pollAnswer ''done'' (Some ''https://shotstack-output.example/renders/video-1.mp4'') None"
    by (simp add: insertFailsWorld_def demoSlideshowWorld_def)
  have card: "myCardId demoSlideshowJob \<noteq> []"
    by (simp add: demoSlideshowJob_def)
  have fails: "ins_error (publicInsert insertFailsWorld) = Some ''permission denied for table public_shared_cards''"
    by (simp add: insertFailsWorld_def)
  have quiet: "notificationAdd insertFailsWorld = None"
    by (simp add: insertFailsWorld_def demoSlideshowWorld_def)
  have root: "siteRoot insertFailsWorld = ''https://site.example''"
    by (simp add: siteRoot_def insertFailsWorld_def demoSlideshowWorld_def demoEnv_def)
  have title: "cardTitle demoSlideshowJob = ''Mary''" "userId demoSlideshowJob = ''U1''"
    by (simp_all add: cardTitle_def demoSlideshowJob_def)
  from publish_failure_keeps_complete [OF demo_keys sub demo_poll_done [OF poll] card fails quiet]
  obtain pre where "birthdaySlideshowWorker insertFailsWorld demoSlideshowJob =
           (pre @ [DbUpdate ''my_cards''
                     [(''video_url'', Some (cdnUrl (interpolate (shotstackOwnerId demoSlideshowJob))
                           ''https://shotstack-output.example/renders/video-1.mp4'')), (''status'', Some ''complete''),
                      (''shotstack_status'', Some ''complete'')] ''job_id'' (jobId demoSlideshowJob),
                   DbInsert ''public_shared_cards''
                     [(''my_card_id'', Some (myCardId demoSlideshowJob)),
                      (''thumbnail_url'', initialThumbnailUrl demoSlideshowJob)],
                   LogError (''[Worker Job '' @ jobId demoSlideshowJob @ ''] Error inserting into public_shared_cards:''),
                   QueueAdd ''card-ready''
                     [(''userId'', Some (userId demoSlideshowJob)), (''type'', Some ''card_ready''),
                      (''message'', Some (''Your Birthday Slideshow \"'' @ cardTitle demoSlideshowJob
                                          @ ''\" is ready! Click here to view.'')),
                      (''link'', Some (siteRoot insertFailsWorld))]],
            Inr ())"
     and "statusWrites pre = [''processing_slideshow'', ''rendering_slideshow'']"
    by blast
  then show ?thesis
    using fails by (simp add: root title)
qed

section \<open>Claims about the face swap worker\<close>

text \<open>
  Claim C8. The job \<^verbatim>\<open>generate\<close> with the id J1, the user U1, a source image and the
  template T1, in a world where the environment is complete, the template file has a
  record for T1, both images are fetched, the vendor returns an image, and the upload, the
  insert (returning a row id), the notification queue and \<^verbatim>\<open>job.updateData\<close> succeed: the
  run consists of the eight events below. It has one put, under the key
  \<^verbatim>\<open>user_faceswaps/U1/J1.jpg\<close>, one insert, whose row records that key, and one
  notification, whose link ends with the id of the inserted row.
\<close>

theorem faceSwapWorker_scenario:
  assumes "list_all truthy (requiredEnv (env w))"
      and "job_name job = ''generate''" and "job_id job = Some ''J1''" and "data_userId job = Some ''U1''"
      and "data_templateId job = Some ''T1''" and "data_imageUrl job = Some sourceImage"
      and "csvRecords w = Some records" and "find (\<lambda>record. ID record = ''T1'') records = Some templateRecord"
      and "RenderImage templateRecord \<noteq> []"
      and "resolveUrl w (RenderImage templateRecord) (interpolate (NEXT_PUBLIC_SITE_URL (env w))) = Some templateUrl"
      and "imageFetch w sourceImage = Response stA txA (Body sourceData) jsA" and "ok stA"
      and "imageFetch w templateUrl = Response stB txB (Body targetData) jsB" and "ok stB"
      and "segmind w = Response stC txC viewC (Body \<lparr>image = Some resultData\<rparr>)" and "ok stC"
      and "resultData \<noteq> []"
      and "s3PutError w = None"
      and "faceswapInsert w = \<lparr>ins_data = Some (Some rowId), ins_error = None\<rparr>" and "rowId \<noteq> []"
      and "notificationAdd w = None" and "updateDataError w = None"
  shows "faceSwapWorker w job =
           ([FsRead ''../../public/faceswap_templates.csv'',
             HttpGet sourceImage,
             HttpGet templateUrl,
             HttpPost (interpolate (SEGMIND_API_ENDPOINT_URL (env w)))
               (JsonBody [(''source_image'', Some sourceData), (''target_image'', Some targetData),
                          (''model_type'', Some ''speed''), (''swap_type'', Some ''face''),
                          (''style_type'', Some ''normal''), (''image_format'', Some ''jpg''),
                          (''image_quality'', Some ''50''), (''base64'', Some ''true'')]),
             S3Put (interpolate (AWS_BUCKET_USER (env w))) ''user_faceswaps/U1/J1.jpg'' resultData,
             DbInsert ''my_faceswaps''
               [(''user_id'', Some ''U1''), (''s3_path'', Some ''user_faceswaps/U1/J1.jpg''),
                (''source_image_url'', Some sourceImage), (''template_image_url'', Some templateUrl)],
             QueueAdd ''faceswap-complete''
               [(''userId'', Some ''U1''), (''type'', Some ''faceswap_complete''),
                (''message'', Some ''Your faceswap is ready! Click here to view.''),
                (''link'', Some (siteRoot w @ ''/profile?faceswapId='' @ rowId))],
             JobUpdateData
               [(''imageUrl'', Some sourceImage), (''templateId'', Some ''T1''), (''userId'', Some ''U1''),
                (''s3_path'', Some ''user_faceswaps/U1/J1.jpg''), (''databaseId'', Some rowId)]],
            Inr (Some \<lparr>s3_path = ''user_faceswaps/U1/J1.jpg'', databaseId = Some rowId\<rparr>))"
proof -
  have site: "truthy (NEXT_PUBLIC_SITE_URL (env w))"
    using assms(1) by (simp add: requiredEnv_def)
  then obtain siteUrl where su: "NEXT_PUBLIC_SITE_URL (env w) = Some siteUrl" "siteUrl \<noteq> []"
    by (cases "NEXT_PUBLIC_SITE_URL (env w)") auto
  have tpl: "loadTemplate w job = ([FsRead ''../../public/faceswap_templates.csv''], Inr templateUrl)"
    using assms(5,7,8,9,10) su by (simp add: loadTemplate_def Let_def)
  have i1: "imageUrlToBase64 w sourceImage = ([HttpGet sourceImage], Inr sourceData)"
    using assms(11,12) by (simp add: imageUrlToBase64_def ret_def)
  have i2: "imageUrlToBase64 w templateUrl = ([HttpGet templateUrl], Inr targetData)"
    using assms(13,14) by (simp add: imageUrlToBase64_def ret_def)
  have seg: "callSegmind w ''J1'' sourceData targetData =
              ([HttpPost (interpolate (SEGMIND_API_ENDPOINT_URL (env w)))
               (JsonBody [(''source_image'', Some sourceData), (''target_image'', Some targetData),
                          (''model_type'', Some ''speed''), (''swap_type'', Some ''face''),
                          (''style_type'', Some ''normal''), (''image_format'', Some ''jpg''),
                          (''image_quality'', Some ''50''), (''base64'', Some ''true'')])], Inr resultData)"
    using assms(15,16,17) by (simp add: callSegmind_def ret_def)
  have body: "faceSwapTry w job ''U1'' templateUrl =
     ([HttpGet sourceImage,
             HttpGet templateUrl,
             HttpPost (interpolate (SEGMIND_API_ENDPOINT_URL (env w)))
               (JsonBody [(''source_image'', Some sourceData), (''target_image'', Some targetData),
                          (''model_type'', Some ''speed''), (''swap_type'', Some ''face''),
                          (''style_type'', Some ''normal''), (''image_format'', Some ''jpg''),
                          (''image_quality'', Some ''50''), (''base64'', Some ''true'')]),
             S3Put (interpolate (AWS_BUCKET_USER (env w))) ''user_faceswaps/U1/J1.jpg'' resultData,
             DbInsert ''my_faceswaps''
               [(''user_id'', Some ''U1''), (''s3_path'', Some ''user_faceswaps/U1/J1.jpg''),
                (''source_image_url'', Some sourceImage), (''template_image_url'', Some templateUrl)],
             QueueAdd ''faceswap-complete''
               [(''userId'', Some ''U1''), (''type'', Some ''faceswap_complete''),
                (''message'', Some ''Your faceswap is ready! Click here to view.''),
                (''link'', Some (siteRoot w @ ''/profile?faceswapId='' @ rowId))],
             JobUpdateData
               [(''imageUrl'', Some sourceImage), (''templateId'', Some ''T1''), (''userId'', Some ''U1''),
                (''s3_path'', Some ''user_faceswaps/U1/J1.jpg''), (''databaseId'', Some rowId)]],
            Inr \<lparr>s3_path = ''user_faceswaps/U1/J1.jpg'', databaseId = Some rowId\<rparr>)"
    using assms(3,5,6,18-22)
    by (simp add: faceSwapTry_def Let_def i1 i2 seg queueAdd_def io_then_def)
  show ?thesis
    using assms(1,2,3,4)
    by (simp add: faceSwapWorker_def Let_def tpl body ret_def)
qed

text \<open>The scenario on concrete values.\<close>

theorem faceSwapWorker_scenario_witness:
  "faceSwapWorker demoFaceSwapWorld demoFaceSwapJob =
           ([FsRead ''../../public/faceswap_templates.csv'',
             HttpGet ''https://img.example/selfie.jpg'',
             HttpGet ''https://site.example/templates/t1_render.jpg'',
             HttpPost ''https://api.segmind.com/v1/faceswap''
               (JsonBody [(''source_image'', Some ''b64:https://img.example/selfie.jpg''),
                          (''target_image'', Some ''b64:https://site.example/templates/t1_render.jpg''),
                          (''model_type'', Some ''speed''), (''swap_type'', Some ''face''),
                          (''style_type'', Some ''normal''), (''image_format'', Some ''jpg''),
                          (''image_quality'', Some ''50''), (''base64'', Some ''true'')]),
             S3Put ''user-bucket'' ''user_faceswaps/U1/J1.jpg'' ''c3dhcHBlZA=='',
             DbInsert ''my_faceswaps''
               [(''user_id'', Some ''U1''), (''s3_path'', Some ''user_faceswaps/U1/J1.jpg''),
                (''source_image_url'', Some ''https://img.example/selfie.jpg''),
                (''template_image_url'', Some ''https://site.example/templates/t1_render.jpg'')],
             QueueAdd ''faceswap-complete''
               [(''userId'', Some ''U1''), (''type'', Some ''faceswap_complete''),
                (''message'', Some ''Your faceswap is ready! Click here to view.''),
                (''link'', Some ''https://site.example/profile?faceswapId=row-42'')],
             JobUpdateData
               [(''imageUrl'', Some ''https://img.example/selfie.jpg''), (''templateId'', Some ''T1''),
                (''userId'', Some ''U1''),
                (''s3_path'', Some ''user_faceswaps/U1/J1.jpg''), (''databaseId'', Some ''row-42'')]],
            Inr (Some \<lparr>s3_path = ''user_faceswaps/U1/J1.jpg'', databaseId = Some ''row-42''\<rparr>))"
proof -
  have env: "list_all truthy (requiredEnv (env demoFaceSwapWorld))"
    by (simp add: requiredEnv_def demoFaceSwapWorld_def demoEnv_def)
  have vals: "interpolate (SEGMIND_API_ENDPOINT_URL (env demoFaceSwapWorld)) = ''https://api.segmind.com/v1/faceswap''"
    "interpolate (AWS_BUCKET_USER (env demoFaceSwapWorld)) = ''user-bucket''"
    "siteRoot demoFaceSwapWorld = ''https://site.example''"
    by (simp_all add: siteRoot_def demoFaceSwapWorld_def demoEnv_def)
  have job: "job_name demoFaceSwapJob = ''generate''" "job_id demoFaceSwapJob = Some ''J1''"
    "data_userId demoFaceSwapJob = Some ''U1''" "data_templateId demoFaceSwapJob = Some ''T1''"
    "data_imageUrl demoFaceSwapJob = Some ''https://img.example/selfie.jpg''"
    by (simp_all add: demoFaceSwapJob_def)
  have csv: "csvRecords demoFaceSwapWorld
               = Some [\<lparr>ID = ''T0'', Name = ''Pirate'', Image = ''/templates/t0.jpg'',
                          RenderImage = ''/templates/t0_render.jpg''\<rparr>,
                         \<lparr>ID = ''T1'', Name = ''Astronaut'', Image = ''/templates/t1.jpg'',
                          RenderImage = ''/templates/t1_render.jpg''\<rparr>]"
    by (simp add: demoFaceSwapWorld_def)
  have found: "find (\<lambda>record. ID record = ''T1'')
                 [\<lparr>ID = ''T0'', Name = ''Pirate'', Image = ''/templates/t0.jpg'',
                          RenderImage = ''/templates/t0_render.jpg''\<rparr>,
                         \<lparr>ID = ''T1'', Name = ''Astronaut'', Image = ''/templates/t1.jpg'',
                          RenderImage = ''/templates/t1_render.jpg''\<rparr>]
               = Some \<lparr>ID = ''T1'', Name = ''Astronaut'', Image = ''/templates/t1.jpg'',
                          RenderImage = ''/templates/t1_render.jpg''\<rparr>"
    by simp
  have render: "RenderImage \<lparr>ID = ''T1'', Name = ''Astronaut'', Image = ''/templates/t1.jpg'',
                          RenderImage = ''/templates/t1_render.jpg''\<rparr> \<noteq> []"
    by simp
  have resolve: "resolveUrl demoFaceSwapWorld
                   (RenderImage \<lparr>ID = ''T1'', Name = ''Astronaut'', Image = ''/templates/t1.jpg'',
                          RenderImage = ''/templates/t1_render.jpg''\<rparr>)
                   (interpolate (NEXT_PUBLIC_SITE_URL (env demoFaceSwapWorld)))
                 = Some ''https://site.example/templates/t1_render.jpg''"
    by (simp add: demoFaceSwapWorld_def demoEnv_def)
  have fetchA: "imageFetch demoFaceSwapWorld ''https://img.example/selfie.jpg''
                  = Response 200 ''OK'' (Body ''b64:https://img.example/selfie.jpg'') (Body ())"
    by (simp add: demoFaceSwapWorld_def)
  have fetchB: "imageFetch demoFaceSwapWorld ''https://site.example/templates/t1_render.jpg''
                  = Response 200 ''OK'' (Body ''b64:https://site.example/templates/t1_render.jpg'') (Body ())"
    by (simp add: demoFaceSwapWorld_def)
  have vendor: "segmind demoFaceSwapWorld = Response 200 ''OK'' (Body []) (Body \<lparr>image = Some ''c3dhcHBlZA==''\<rparr>)"
    by (simp add: demoFaceSwapWorld_def okResponse_def)
  have fine: "ok 200"
    by (simp add: ok_def)
  have rest: "''c3dhcHBlZA=='' \<noteq> []" "s3PutError demoFaceSwapWorld = None"
    "faceswapInsert demoFaceSwapWorld = \<lparr>ins_data = Some (Some ''row-42''), ins_error = None\<rparr>"
    "''row-42'' \<noteq> []" "notificationAdd demoFaceSwapWorld = None" "updateDataError demoFaceSwapWorld = None"
    by (simp_all add: demoFaceSwapWorld_def)
  show ?thesis
    using faceSwapWorker_scenario [OF env job csv found render resolve fetchA fine fetchB fine vendor fine rest]
    by (simp add: vals)
qed

text \<open>
  Claim C10, as it holds. The processor tests the environment before it looks at the name
  of the job. For a job whose name is not \<^verbatim>\<open>generate\<close> it makes no call at all; it
  returns without a value when the nine required variables are set, and otherwise it logs
  an error and throws.
\<close>

theorem faceSwapWorker_other_name:
  assumes "job_name job \<noteq> ''generate''"
  shows "faceSwapWorker w job =
           (if list_all truthy (requiredEnv (env w)) then ([], Inr None)
            else ([LogError (''Job '' @ interpolate (job_id job) @ '': Missing required environment variables'')],
                  Inl (Error ''Missing required environment variables for job execution.'')))"
  using assms by (simp add: faceSwapWorker_def Let_def ret_def)

text \<open>A job named \<^verbatim>\<open>cleanup\<close> in the complete environment.\<close>

theorem faceSwapWorker_other_name_witness:
  "job_name cleanupJob \<noteq> ''generate'' \<and> faceSwapWorker demoFaceSwapWorld cleanupJob = ([], Inr None)"
proof -
  have name: "job_name cleanupJob \<noteq> ''generate''"
    by (simp add: cleanupJob_def)
  have env: "list_all truthy (requiredEnv (env demoFaceSwapWorld))"
    by (simp add: requiredEnv_def demoFaceSwapWorld_def demoEnv_def)
  from faceSwapWorker_other_name [OF name, of demoFaceSwapWorld] env name
  show ?thesis by simp
qed

text \<open>Claim C10 as the spec words it fails when a required variable is not set: the job
  named \<^verbatim>\<open>cleanup\<close> ends with an error.\<close>

theorem faceSwapWorker_other_name_counterexample:
  "job_name cleanupJob = ''cleanup''
   \<and> faceSwapWorker noVendorKeyWorld cleanupJob
       = ([LogError ''Job J1: Missing required environment variables''],
          Inl (Error ''Missing required environment variables for job execution.''))"
  by (simp add: faceSwapWorker_def Let_def requiredEnv_def noVendorKeyWorld_def demoFaceSwapWorld_def
        demoEnv_def cleanupJob_def demoFaceSwapJob_def)

section \<open>Claims about a failed generation\<close>

text \<open>
  Claim C3, as it holds. In the singing selfie worker, let the generation be submitted and
  let its id contain a UUID; let the video vendor answer the first \<open>n\<close> polls, \<open>n < 30\<close>,
  without a result and report the status \<^verbatim>\<open>error\<close> at the next one. Then the job ends with
  the error ``Hedra video generation failed or timed out for Hedra job'' followed by the
  id. The reason that the vendor reported is written to the log and is not part of that
  error. The last event is the write of the status \<^verbatim>\<open>FAILED\<close> with the message of that
  error, and no render is submitted to the compositing vendor anywhere in the run. (The
  \<^verbatim>\<open>catch\<close> block that writes the status is the one modelled from the spec.)
\<close>

theorem hedra_failure_fails_job:
  assumes "truthy (HEDRA_API_KEY (env w))" and "truthy (SHOTSTACK_API_KEY (env w))"
      and "truthy (SHOTSTACK_OWNER_ID (env w))" and "selfie_s3 w \<noteq> None"
      and "truthy (NEXT_PUBLIC_SUPABASE_URL (env w))" and "truthy (SUPABASE_SERVICE_ROLE_KEY (env w))"
      and "selfiePrepare w job = (es1, Inr hedraGenerationId)"
      and "uuidMatch hedraGenerationId = Some generationId"
      and "\<forall>j<n. hedraPending (hedraPoll w j)" and "n < maxAttempts"
      and "hedraPoll w n = Response st stText tx (Body d)" and "ok st" and "hedra_status d = ''error''"
  shows "\<exists>es. singingSelfieWorker w job =
           (es1 @ es @ [HttpGet (hedraStatusUrl generationId),
                        LogError (''Worker: Hedra API generation failed: '' @ interpolate (hedra_error_message d)),
                        DbUpdate ''my_cards''
                          [(''status'', Some ''FAILED''),
                           (''error_message'',
                            Some (''Hedra video generation failed or timed out for Hedra job '' @ hedraGenerationId))]
                          ''job_id'' (jobId job)],
            Inl (Error (''Hedra video generation failed or timed out for Hedra job '' @ hedraGenerationId)))
         \<and> timeline es = concat (replicate n [Inr (hedraStatusUrl generationId), Inl 20000])
         \<and> \<not> list_ex isRenderSubmit (fst (singingSelfieWorker w job))"
proof -
  from selfieTry_hedra_error [OF assms(7-13)]
  obtain es where
    body: "selfieTry w job =
           (es1 @ es @ [HttpGet (hedraStatusUrl generationId),
                        LogError (''Worker: Hedra API generation failed: '' @ interpolate (hedra_error_message d))],
            Inl (Error (''Hedra video generation failed or timed out for Hedra job '' @ hedraGenerationId)))"
    and tl: "timeline es = concat (replicate n [Inr (hedraStatusUrl generationId), Inl 20000])"
    and quiet: "list_all (\<lambda>e. \<not> isRenderSubmit e) es"
    by blast
  have "list_all (\<lambda>e. \<not> isRenderSubmit e) (fst (selfiePrepare w job))"
    by (rule selfiePrepare_no_submit)
  then have quiet1: "list_all (\<lambda>e. \<not> isRenderSubmit e) es1"
    using assms(7) by simp
  have run: "singingSelfieWorker w job =
           (es1 @ es @ [HttpGet (hedraStatusUrl generationId),
                        LogError (''Worker: Hedra API generation failed: '' @ interpolate (hedra_error_message d)),
                        DbUpdate ''my_cards''
                          [(''status'', Some ''FAILED''),
                           (''error_message'',
                            Some (''Hedra video generation failed or timed out for Hedra job '' @ hedraGenerationId))]
                          ''job_id'' (jobId job)],
            Inl (Error (''Hedra video generation failed or timed out for Hedra job '' @ hedraGenerationId)))"
    by (simp add: selfie_checks [OF assms(1-6)] body selfieCatch_def Error_def)
  have "\<not> list_ex isRenderSubmit (fst (singingSelfieWorker w job))"
    using quiet quiet1 unfolding run by (auto simp: list_ex_iff list_all_iff)
  with run tl show ?thesis by blast
qed

text \<open>The theorem on the demo job: one poll in progress, then the failure.\<close>

theorem hedra_failure_fails_job_witness:
  "hedraReports ''error'' (hedraPoll hedraErrorWorld 1)
   \<and> snd (singingSelfieWorker hedraErrorWorld demoSelfieJob)
       = Inl (Error ''Hedra video generation failed or timed out for Hedra job 0123abcd-0123-4567-89ab-0123456789ab'')
   \<and> last (fst (singingSelfieWorker hedraErrorWorld demoSelfieJob))
       = DbUpdate ''my_cards''
           [(''status'', Some ''FAILED''),
            (''error_message'',
             Some ''Hedra video generation failed or timed out for Hedra job 0123abcd-0123-4567-89ab-0123456789ab'')]
           ''job_id'' ''J1''
   \<and> \<not> list_ex isRenderSubmit (fst (singingSelfieWorker hedraErrorWorld demoSelfieJob))"
proof -
  have checks: "truthy (HEDRA_API_KEY (env hedraErrorWorld))" "truthy (SHOTSTACK_API_KEY (env hedraErrorWorld))"
    "truthy (SHOTSTACK_OWNER_ID (env hedraErrorWorld))" "selfie_s3 hedraErrorWorld \<noteq> None"
    "truthy (NEXT_PUBLIC_SUPABASE_URL (env hedraErrorWorld))" "truthy (SUPABASE_SERVICE_ROLE_KEY (env hedraErrorWorld))"
    by (simp_all add: hedraErrorWorld_def demoSelfieWorld_def demoEnv_def selfie_s3_def)
  have prepare: "selfiePrepare hedraErrorWorld demoSelfieJob
                   = (fst (selfiePrepare hedraErrorWorld demoSelfieJob), Inr ''0123abcd-0123-4567-89ab-0123456789ab'')"
    using hedraErrorWorld_prepare by (simp add: prod_eq_iff)
  have pending: "\<forall>j<1. hedraPending (hedraPoll hedraErrorWorld j)"
    by (simp add: hedraErrorWorld_def hedraAnswer_def okResponse_def ok_def)
  have first: "(1 :: nat) < maxAttempts"
    by (simp add: maxAttempts_def)
  have answer: "hedraPoll hedraErrorWorld 1
                  = Response 200 ''OK'' (Body [])
                      (Body \<lparr>hedra_status = ''error'', hedra_url = None,
                             hedra_error_message = Some ''No face detected in the image'', hedra_asset_id = None\<rparr>)"
    by (simp add: hedraErrorWorld_def hedraAnswer_def okResponse_def)
  have fine: "ok 200"
    by (simp add: ok_def)
  have err: "hedra_status \<lparr>hedra_status = ''error'', hedra_url = None,
                             hedra_error_message = Some ''No face detected in the image'', hedra_asset_id = None\<rparr>
               = ''error''"
    by simp
  have jid: "jobId demoSelfieJob = ''J1''"
    by (simp add: demoSelfieJob_def)
  have reported: "hedraReports ''error'' (hedraPoll hedraErrorWorld 1)"
    unfolding answer by (simp add: fine)
  from hedra_failure_fails_job [OF checks prepare uuid_demo pending first answer fine err]
  obtain es where
    run: "singingSelfieWorker hedraErrorWorld demoSelfieJob =
           (fst (selfiePrepare hedraErrorWorld demoSelfieJob) @ es
              @ [HttpGet (hedraStatusUrl ''0123abcd-0123-4567-89ab-0123456789ab''),
                 LogError (''Worker: Hedra API generation failed: ''
                           @ interpolate (hedra_error_message
                               \<lparr>hedra_status = ''error'', hedra_url = None,
                                hedra_error_message = Some ''No face detected in the image'',
                                hedra_asset_id = None\<rparr>)),
                 DbUpdate ''my_cards''
                   [(''status'', Some ''FAILED''),
                    (''error_message'',
                     Some (''Hedra video generation failed or timed out for Hedra job ''
                           @ ''0123abcd-0123-4567-89ab-0123456789ab''))]
                   ''job_id'' (jobId demoSelfieJob)],
            Inl (Error (''Hedra video generation failed or timed out for Hedra job ''
                        @ ''0123abcd-0123-4567-89ab-0123456789ab'')))"
    and quiet: "\<not> list_ex isRenderSubmit (fst (singingSelfieWorker hedraErrorWorld demoSelfieJob))"
    by blast
  have "snd (singingSelfieWorker hedraErrorWorld demoSelfieJob)
       = Inl (Error ''Hedra video generation failed or timed out for Hedra job 0123abcd-0123-4567-89ab-0123456789ab'')"
    and "last (fst (singingSelfieWorker hedraErrorWorld demoSelfieJob))
       = DbUpdate ''my_cards''
           [(''status'', Some ''FAILED''),
            (''error_message'',
             Some ''Hedra video generation failed or timed out for Hedra job 0123abcd-0123-4567-89ab-0123456789ab'')]
           ''job_id'' ''J1''"
    unfolding run by (simp_all add: jid)
  with reported quiet show ?thesis by blast
qed

text \<open>Claim C3 as the spec words it: the vendor's reason is not in the message that is
  thrown and persisted.\<close>

theorem hedra_reason_not_persisted_counterexample:
  "hedraPoll hedraErrorWorld 1 = hedraAnswer ''error'' None (Some ''No face detected in the image'')
   \<and> snd (selfieTry hedraErrorWorld demoSelfieJob)
       = Inl (Error ''Hedra video generation failed or timed out for Hedra job 0123abcd-0123-4567-89ab-0123456789ab'')
   \<and> last (fst (singingSelfieWorker hedraErrorWorld demoSelfieJob))
       = DbUpdate ''my_cards''
           [(''status'', Some ''FAILED''),
            (''error_message'',
             Some ''Hedra video generation failed or timed out for Hedra job 0123abcd-0123-4567-89ab-0123456789ab'')]
           ''job_id'' ''J1''
   \<and> \<not> str_includes ''Hedra video generation failed or timed out for Hedra job 0123abcd-0123-4567-89ab-0123456789ab''
          ''No face detected in the image''"
proof -
  have checks: "truthy (HEDRA_API_KEY (env hedraErrorWorld))" "truthy (SHOTSTACK_API_KEY (env hedraErrorWorld))"
    "truthy (SHOTSTACK_OWNER_ID (env hedraErrorWorld))" "selfie_s3 hedraErrorWorld \<noteq> None"
    "truthy (NEXT_PUBLIC_SUPABASE_URL (env hedraErrorWorld))" "truthy (SUPABASE_SERVICE_ROLE_KEY (env hedraErrorWorld))"
    by (simp_all add: hedraErrorWorld_def demoSelfieWorld_def demoEnv_def selfie_s3_def)
  have prepare: "selfiePrepare hedraErrorWorld demoSelfieJob
                   = (fst (selfiePrepare hedraErrorWorld demoSelfieJob), Inr ''0123abcd-0123-4567-89ab-0123456789ab'')"
    using hedraErrorWorld_prepare by (simp add: prod_eq_iff)
  have pending: "\<forall>j<1. hedraPending (hedraPoll hedraErrorWorld j)"
    by (simp add: hedraErrorWorld_def hedraAnswer_def okResponse_def ok_def)
  have first: "(1 :: nat) < maxAttempts"
    by (simp add: maxAttempts_def)
  have answer: "hedraPoll hedraErrorWorld 1
                  = Response 200 ''OK'' (Body [])
                      (Body \<lparr>hedra_status = ''error'', hedra_url = None,
                             hedra_error_message = Some ''No face detected in the image'', hedra_asset_id = None\<rparr>)"
    by (simp add: hedraErrorWorld_def hedraAnswer_def okResponse_def)
  have fine: "ok 200"
    by (simp add: ok_def)
  have err: "hedra_status \<lparr>hedra_status = ''error'', hedra_url = None,
                             hedra_error_message = Some ''No face detected in the image'', hedra_asset_id = None\<rparr>
               = ''error''"
    by simp
  have jid: "jobId demoSelfieJob = ''J1''"
    by (simp add: demoSelfieJob_def)
  from selfieTry_hedra_error [OF prepare uuid_demo pending first answer fine err]
  obtain es where "selfieTry hedraErrorWorld demoSelfieJob =
           (fst (selfiePrepare hedraErrorWorld demoSelfieJob) @ es
              @ [HttpGet (hedraStatusUrl ''0123abcd-0123-4567-89ab-0123456789ab''),
                 LogError (''Worker: Hedra API generation failed: '' @ ''No face detected in the image'')],
            Inl (Error ''Hedra video generation failed or timed out for Hedra job 0123abcd-0123-4567-89ab-0123456789ab''))"
    by auto
  note body = this
  then have persisted: "last (fst (singingSelfieWorker hedraErrorWorld demoSelfieJob))
       = DbUpdate ''my_cards''
           [(''status'', Some ''FAILED''),
            (''error_message'',
             Some ''Hedra video generation failed or timed out for Hedra job 0123abcd-0123-4567-89ab-0123456789ab'')]
           ''job_id'' ''J1''"
    by (simp add: selfie_checks [OF checks] selfieCatch_def Error_def jid)
  have reason: "hedraPoll hedraErrorWorld 1 = hedraAnswer ''error'' None (Some ''No face detected in the image'')"
    by (simp add: hedraErrorWorld_def)
  have absent: "\<not> str_includes ''Hedra video generation failed or timed out for Hedra job 0123abcd-0123-4567-89ab-0123456789ab''
          ''No face detected in the image''"
    by simp
  have thrown: "snd (selfieTry hedraErrorWorld demoSelfieJob)
       = Inl (Error ''Hedra video generation failed or timed out for Hedra job 0123abcd-0123-4567-89ab-0123456789ab'')"
    unfolding body by simp
  from reason thrown persisted absent show ?thesis by blast
qed

end
